theory Spec2Isabelle
  imports Main "HOL-Library.Word"
begin

unbundle bit_operations_syntax

section \<open>Galileo E6 HAS message receiver: bit readers\<close>

text \<open>
  The receiver of \<^verbatim>\<open>galileo_e6_has_msg_receiver.cc\<close> accumulates HAS pages per
  message id, reconstructs the message with a Reed-Solomon erasure decoder and parses
  the result as a Message Type 1 record. This theory embeds that file function by
  function. Fixed-width C++ integers are words of the same width.
\<close>

type_synonym u8 = "8 word"
type_synonym u16 = "16 word"
type_synonym u64 = "64 word"
type_synonym i16 = "16 word"

subsection \<open>Unsigned body readers\<close>

text \<open>
  \<^verbatim>\<open>read_has_message_body_uint8/16/64\<close> share one loop: for every character of the
  argument, shift the accumulator left by one and add one when the character is '1'.
\<close>

primrec shift_in :: "'a::len word \<Rightarrow> string \<Rightarrow> 'a word" where
  "shift_in v [] = v"
| "shift_in v (c # cs) =
     shift_in (let v1 = push_bit 1 v in if c = CHR ''1'' then v1 + 1 else v1) cs"

definition read_has_message_body_uint8 :: "string \<Rightarrow> u8" where
  "read_has_message_body_uint8 bits = shift_in 0 bits"

definition read_has_message_body_uint16 :: "string \<Rightarrow> u16" where
  "read_has_message_body_uint16 bits = shift_in 0 bits"

definition read_has_message_body_uint64 :: "string \<Rightarrow> u64" where
  "read_has_message_body_uint64 bits = shift_in 0 bits"

subsection \<open>Signed body reader\<close>

text \<open>
  \<^verbatim>\<open>read_has_message_body_int16\<close>: the 16-bit accumulator starts as all ones when
  the first character is '1' (\<^verbatim>\<open>value ^= 0xFFFF\<close> on 0) and as 0 otherwise
  (\<^verbatim>\<open>bits[0]\<close> of an empty \<^verbatim>\<open>std::string\<close> is the terminating NUL, so the
  else branch); then every character doubles the accumulator, clears bit 0
  (\<^verbatim>\<open>value &= 0xFFFE\<close>) and adds one for a '1'.
\<close>

primrec int16_loop :: "i16 \<Rightarrow> string \<Rightarrow> i16" where
  "int16_loop v [] = v"
| "int16_loop v (c # cs) =
     int16_loop (let v1 = v * 2; v2 = v1 AND 0xFFFE in if c = CHR ''1'' then v2 + 1 else v2) cs"

definition read_has_message_body_int16 :: "string \<Rightarrow> i16" where
  "read_has_message_body_int16 bits =
     (let v0 = (case bits of
                  [] \<Rightarrow> 0 AND 0
                | c # _ \<Rightarrow> if c = CHR ''1'' then 0 XOR 0xFFFF else 0 AND 0)
      in int16_loop v0 bits)"

text \<open>
  The specification's reading of a signed field, written from its words: the n bits
  taken MSB-first as an unsigned number, reinterpreted as two's complement of width n.
\<close>

primrec bits_value :: "nat \<Rightarrow> string \<Rightarrow> nat" where
  "bits_value acc [] = acc"
| "bits_value acc (c # cs) = bits_value (2 * acc + (if c = CHR ''1'' then 1 else 0)) cs"

definition twos_complement :: "nat \<Rightarrow> string \<Rightarrow> int" where
  "twos_complement n bits =
     (let u = int (bits_value 0 bits) in if u \<ge> 2 ^ (n - 1) then u - 2 ^ n else u)"

section \<open>Data model\<close>

subsection \<open>Constants\<close>

text \<open>
  The constants come from \<^verbatim>\<open>Galileo_CNAV.h\<close>, which is not among the sources.
  The matrix sizes are confirmed by the constructor's comments (32 x 255 x 53 and
  32 x 53).
\<close>

definition GALILEO_CNAV_OCTETS_IN_SUBPAGE :: nat where
  \<comment> \<open>Modelled from the spec: the header \<^verbatim>\<open>Galileo_CNAV.h\<close> is missing; "octets per page 53".\<close>
  "GALILEO_CNAV_OCTETS_IN_SUBPAGE = 53"

definition GALILEO_CNAV_MAX_NUMBER_SYMBOLS_ENCODED_BLOCK :: nat where
  \<comment> \<open>Modelled from the spec: the header is missing; a (255,32) code over page ids 1..255.\<close>
  "GALILEO_CNAV_MAX_NUMBER_SYMBOLS_ENCODED_BLOCK = 255"

definition GALILEO_CNAV_INFORMATION_VECTOR_LENGTH :: nat where
  \<comment> \<open>Modelled from the spec: the header is missing; 32 information symbols.\<close>
  "GALILEO_CNAV_INFORMATION_VECTOR_LENGTH = 32"

definition HAS_MSG_NUMBER_MESSAGE_IDS :: nat where
  \<comment> \<open>Modelled from the spec: the header is missing; the page-slot table is indexed 0..31.\<close>
  "HAS_MSG_NUMBER_MESSAGE_IDS = 32"

definition HAS_MSG_NUMBER_MASK_IDS :: nat where
  \<comment> \<open>Modelled from the spec: the header is missing; the mask cache is indexed 0..31.\<close>
  "HAS_MSG_NUMBER_MASK_IDS = 32"

definition HAS_MSG_NUMBER_GNSS_IDS :: nat where
  \<comment> \<open>Modelled from the spec: the header is missing; up to 16 system slots per mask.\<close>
  "HAS_MSG_NUMBER_GNSS_IDS = 16"

definition HAS_MSG_NUMBER_SATELLITE_IDS :: nat where
  \<comment> \<open>Modelled from the spec: the header is missing; satellite masks cover PRNs 1..40.\<close>
  "HAS_MSG_NUMBER_SATELLITE_IDS = 40"

definition HAS_MSG_NUMBER_SIGNAL_MASKS :: nat where
  \<comment> \<open>Modelled from the spec: the header is missing; signal masks are 16-bit bitmaps.\<close>
  "HAS_MSG_NUMBER_SIGNAL_MASKS = 16"

definition HAS_MSG_NUMBER_MAX_TOH :: nat where
  \<comment> \<open>Modelled from the spec: the header is missing; "toh max 3599".\<close>
  "HAS_MSG_NUMBER_MAX_TOH = 3599"

definition HAS_MSG_GPS_SYSTEM :: u8 where
  \<comment> \<open>Modelled from the spec: the header is missing; "GPS=0".\<close>
  "HAS_MSG_GPS_SYSTEM = 0"

definition HAS_MSG_GALILEO_SYSTEM :: u8 where
  \<comment> \<open>Modelled from the spec: the header is missing; "Galileo=2".\<close>
  "HAS_MSG_GALILEO_SYSTEM = 2"

text \<open>Field widths of the MT1 body, in bits.\<close>

definition HAS_MSG_NSYS_LENGTH :: nat where
  \<comment> \<open>Modelled from the spec: the header is missing; \<^verbatim>\<open>Nsys := read_u(4)\<close>.\<close>
  "HAS_MSG_NSYS_LENGTH = 4"

definition HAS_MSG_ID_MASK_LENGTH :: nat where
  \<comment> \<open>Modelled from the spec: the header is missing; \<^verbatim>\<open>gnss_id[i] := read_u(4)\<close>.\<close>
  "HAS_MSG_ID_MASK_LENGTH = 4"

definition HAS_MSG_SATELLITE_MASK_LENGTH :: nat where
  \<comment> \<open>Modelled from the spec: the header is missing; \<^verbatim>\<open>satellite_mask[i] := read_u(40)\<close>.\<close>
  "HAS_MSG_SATELLITE_MASK_LENGTH = 40"

definition HAS_MSG_SIGNAL_MASK_LENGTH :: nat where
  \<comment> \<open>Modelled from the spec: the header is missing; \<^verbatim>\<open>signal_mask[i] := read_u(16)\<close>.\<close>
  "HAS_MSG_SIGNAL_MASK_LENGTH = 16"

definition HAS_MSG_NAV_MESSAGE_LENGTH :: nat where
  \<comment> \<open>Modelled from the spec: the header is missing; \<^verbatim>\<open>nav_message[i] := read_u(3)\<close>.\<close>
  "HAS_MSG_NAV_MESSAGE_LENGTH = 3"

definition HAS_MSG_VALIDITY_INDEX_LENGTH :: nat where
  \<comment> \<open>Modelled from the spec: the header is missing; validity interval indices are \<^verbatim>\<open>read_u(4)\<close>.\<close>
  "HAS_MSG_VALIDITY_INDEX_LENGTH = 4"

definition HAS_MSG_IOD_GPS_LENGTH :: nat where
  \<comment> \<open>Modelled from the spec: the header is missing; "GPS IOD width 8".\<close>
  "HAS_MSG_IOD_GPS_LENGTH = 8"

definition HAS_MSG_IOD_GAL_LENGTH :: nat where
  \<comment> \<open>Modelled from the spec: the header is missing; "Galileo IOD width 10".\<close>
  "HAS_MSG_IOD_GAL_LENGTH = 10"

definition HAS_MSG_DELTA_RADIAL_LENGTH :: nat where
  \<comment> \<open>Modelled from the spec: the header is missing; "delta radial 13".\<close>
  "HAS_MSG_DELTA_RADIAL_LENGTH = 13"

definition HAS_MSG_DELTA_ALONG_TRACK_LENGTH :: nat where
  \<comment> \<open>Modelled from the spec: the header is missing; "along/cross 12".\<close>
  "HAS_MSG_DELTA_ALONG_TRACK_LENGTH = 12"

definition HAS_MSG_DELTA_CROSS_TRACK_LENGTH :: nat where
  \<comment> \<open>Modelled from the spec: the header is missing; "along/cross 12".\<close>
  "HAS_MSG_DELTA_CROSS_TRACK_LENGTH = 12"

definition HAS_MSG_DELTA_CLOCK_C0_MULTIPLIER_LENGTH :: nat where
  \<comment> \<open>Modelled from the spec: the header is missing; \<^verbatim>\<open>c0_multiplier[i] := read_u(2)\<close>.\<close>
  "HAS_MSG_DELTA_CLOCK_C0_MULTIPLIER_LENGTH = 2"

definition HAS_MSG_DELTA_CLOCK_C0_LENGTH :: nat where
  \<comment> \<open>Modelled from the spec: the header is missing; "delta c0 13".\<close>
  "HAS_MSG_DELTA_CLOCK_C0_LENGTH = 13"

definition HAS_MSG_NSYSPRIME_LENGTH :: nat where
  \<comment> \<open>Modelled from the spec: the header is missing; \<^verbatim>\<open>Nsysprime := read_u(4)\<close>.\<close>
  "HAS_MSG_NSYSPRIME_LENGTH = 4"

definition HAS_MSG_ID_CLOCK_SUBSET_LENGTH :: nat where
  \<comment> \<open>Modelled from the spec: the header is missing; \<^verbatim>\<open>gnss_id_sub[i] := read_u(4)\<close>.\<close>
  "HAS_MSG_ID_CLOCK_SUBSET_LENGTH = 4"

definition HAS_MSG_DELTA_CLOCK_MULTIPLIER_SUBSET_LENGTH :: nat where
  \<comment> \<open>Modelled from the spec: the header is missing; \<^verbatim>\<open>c0_multiplier_sub[i] := read_u(2) + 1\<close>.\<close>
  "HAS_MSG_DELTA_CLOCK_MULTIPLIER_SUBSET_LENGTH = 2"

definition HAS_MSG_DELTA_CLOCK_C0_SUBSET_LENGTH :: nat where
  \<comment> \<open>Modelled from the spec: the header is missing; \<^verbatim>\<open>delta_c0_sub[i][j] := read_i(13)\<close>.\<close>
  "HAS_MSG_DELTA_CLOCK_C0_SUBSET_LENGTH = 13"

definition HAS_MSG_CODE_BIAS_LENGTH :: nat where
  \<comment> \<open>Modelled from the spec: the header is missing; "code bias 11".\<close>
  "HAS_MSG_CODE_BIAS_LENGTH = 11"

definition HAS_MSG_PHASE_BIAS_LENGTH :: nat where
  \<comment> \<open>Modelled from the spec: the header is missing; "phase bias 11".\<close>
  "HAS_MSG_PHASE_BIAS_LENGTH = 11"

definition HAS_MSG_PHASE_DISCONTINUITY_INDICATOR_LENGTH :: nat where
  \<comment> \<open>Modelled from the spec: the header is missing; "phase discontinuity 2".\<close>
  "HAS_MSG_PHASE_DISCONTINUITY_INDICATOR_LENGTH = 2"

text \<open>
  The specification does not fix the MT1 header layout consistently (it names a
  24-bit header but lists 29 bits of fields) and leaves the mask padding width to the
  ICD, so these missing constants are a parameter of the model: the header length
  and, for each header field, the pair (position counted from 1 at the MSB, width)
  that the source passes to the header readers, and the width of the reserved bits
  after the mask.
\<close>

record mt1_layout =
  GALILEO_CNAV_MT1_HEADER_BITS :: nat
  GALILEO_MT1_HEADER_TOH :: "int \<times> int"
  GALILEO_MT1_HEADER_MASK_ID :: "int \<times> int"
  GALILEO_MT1_HEADER_IOD_ID :: "int \<times> int"
  GALILEO_MT1_HEADER_MASK_FLAG :: "int \<times> int"
  GALILEO_MT1_HEADER_ORBIT_CORRECTION_FLAG :: "int \<times> int"
  GALILEO_MT1_HEADER_CLOCK_FULLSET_FLAG :: "int \<times> int"
  GALILEO_MT1_HEADER_CLOCK_SUBSET_FLAG :: "int \<times> int"
  GALILEO_MT1_HEADER_CODE_BIAS_FLAG :: "int \<times> int"
  GALILEO_MT1_HEADER_PHASE_BIAS_FLAG :: "int \<times> int"
  GALILEO_MT1_HEADER_URA_FLAG :: "int \<times> int"
  HAS_MSG_MASK_RESERVED_LENGTH :: nat

subsection \<open>Pages, records and receiver state\<close>

text \<open>\<^verbatim>\<open>Galileo_HAS_page\<close>, with the fields the receiver reads.\<close>

record Galileo_HAS_page =
  has_status :: u8
  message_type :: u8
  message_id :: u8
  message_size :: u8
  message_page_id :: u8
  has_message_string :: string

record mt1_header =
  toh :: u16
  mask_id :: u8
  iod_id :: u8
  mask_flag :: bool
  orbit_correction_flag :: bool
  clock_fullset_flag :: bool
  clock_subset_flag :: bool
  code_bias_flag :: bool
  phase_bias_flag :: bool
  ura_flag :: bool

text \<open>\<^verbatim>\<open>Galileo_HAS_data\<close>, with the fields the parser writes.\<close>

record Galileo_HAS_data =
  header :: mt1_header
  Nsys :: u8
  gnss_id_mask :: "u8 list"
  satellite_mask :: "u64 list"
  signal_mask :: "u16 list"
  cell_mask_availability_flag :: "bool list"
  cell_mask :: "bool list list list"
  nav_message :: "u8 list"
  validity_interval_index_orbit_corrections :: u8
  gnss_iod :: "u16 list"
  delta_radial :: "i16 list"
  delta_along_track :: "i16 list"
  delta_cross_track :: "i16 list"
  validity_interval_index_clock_fullset_corrections :: u8
  delta_clock_c0_multiplier :: "u8 list"
  iod_change_flag :: "bool list"
  delta_clock_c0 :: "i16 list"
  validity_interval_index_clock_subset_corrections :: u8
  Nsysprime :: u8
  gnss_id_clock_subset :: "u8 list"
  delta_clock_c0_multiplier_clock_subset :: "u8 list"
  satellite_submask :: "u64 list list"
  iod_change_flag_clock_subset :: "bool list"
  delta_clock_c0_clock_subset :: "i16 list"
  validity_interval_index_code_bias_corrections :: u8
  code_bias :: "i16 list list"
  validity_interval_index_phase_bias_corrections :: u8
  phase_bias :: "i16 list list"
  phase_discontinuity_indicator :: "u8 list list"

text \<open>A value-initialised \<^verbatim>\<open>Galileo_HAS_data()\<close>: zeros and empty vectors.\<close>

definition empty_header :: mt1_header where
  "empty_header = \<lparr>toh = 0, mask_id = 0, iod_id = 0, mask_flag = False,
     orbit_correction_flag = False, clock_fullset_flag = False, clock_subset_flag = False,
     code_bias_flag = False, phase_bias_flag = False, ura_flag = False\<rparr>"

definition empty_HAS_data :: Galileo_HAS_data where
  "empty_HAS_data = \<lparr>header = empty_header, Nsys = 0, gnss_id_mask = [],
     satellite_mask = [], signal_mask = [], cell_mask_availability_flag = [],
     cell_mask = [], nav_message = [],
     validity_interval_index_orbit_corrections = 0, gnss_iod = [], delta_radial = [],
     delta_along_track = [], delta_cross_track = [],
     validity_interval_index_clock_fullset_corrections = 0,
     delta_clock_c0_multiplier = [], iod_change_flag = [], delta_clock_c0 = [],
     validity_interval_index_clock_subset_corrections = 0, Nsysprime = 0,
     gnss_id_clock_subset = [], delta_clock_c0_multiplier_clock_subset = [],
     satellite_submask = [], iod_change_flag_clock_subset = [],
     delta_clock_c0_clock_subset = [],
     validity_interval_index_code_bias_corrections = 0, code_bias = [],
     validity_interval_index_phase_bias_corrections = 0, phase_bias = [],
     phase_discontinuity_indicator = []\<rparr>"

text \<open>
  The mask cache: the members \<^verbatim>\<open>d_nsat_in_mask_id\<close>, \<^verbatim>\<open>d_nsys_in_mask\<close>,
  \<^verbatim>\<open>d_gnss_id_in_mask\<close>, ... of the receiver, all vectors of
  \<^verbatim>\<open>HAS_MSG_NUMBER_MASK_IDS\<close> entries indexed by mask id; the per-system vectors
  have \<^verbatim>\<open>HAS_MSG_NUMBER_GNSS_IDS\<close> entries. They are functions of the index here, and
  every access of the source that can leave the vector is checked where it is made.
\<close>

record mask_cache =
  d_nsat_in_mask_id :: "nat \<Rightarrow> nat"
  d_nsys_in_mask :: "nat \<Rightarrow> u8"
  d_gnss_id_in_mask :: "nat \<Rightarrow> nat \<Rightarrow> u8"
  d_satellite_mask :: "nat \<Rightarrow> nat \<Rightarrow> u64"
  d_signal_mask :: "nat \<Rightarrow> nat \<Rightarrow> u16"
  d_cell_mask_availability_flag :: "nat \<Rightarrow> nat \<Rightarrow> bool"
  d_cell_mask :: "nat \<Rightarrow> bool list list list"
  d_nav_message_mask :: "nat \<Rightarrow> nat \<Rightarrow> u8"

record Nav_Message_Packet =
  system :: string
  signal :: string
  prn :: int
  tow_at_current_symbol_ms :: int
  nav_message_bits :: string

text \<open>
  The receiver object. \<^verbatim>\<open>d_C_matrix\<close> (32 x 255 x 53) maps a message id, a row
  (page id - 1) and an octet index to the octet; \<^verbatim>\<open>d_M_matrix\<close> (32 x 53) maps a
  row and a column to the octet; \<^verbatim>\<open>d_received_pids\<close> maps a message id to the page
  ids received, in arrival order. Every access of the source that can leave one of
  these vectors is checked where it is made. The two output ports are the lists of
  what has been published on them, oldest first.
\<close>

record receiver =
  d_C_matrix :: "nat \<Rightarrow> nat \<Rightarrow> nat \<Rightarrow> u8"
  d_M_matrix :: "nat \<Rightarrow> nat \<Rightarrow> u8"
  d_received_pids :: "nat \<Rightarrow> u8 list"
  d_mask :: mask_cache
  d_HAS_data :: Galileo_HAS_data
  d_nav_msg_packet :: Nav_Message_Packet
  d_new_message :: bool
  d_enable_navdata_monitor :: bool
  E6_HAS_to_PVT :: "Galileo_HAS_data list"
  Nav_msg_from_TLM :: "Nav_Message_Packet list"

subsection \<open>Outcomes\<close>

text \<open>
  A call returns normally, leaves by a C++ exception (with the object as it is at the
  throw), has undefined behaviour (an index outside a vector or a bitset, which C++
  does not check), or does not return.
\<close>

datatype cxx_exception = Out_of_range | Length_error | Invalid_argument

datatype 'a outcome = Normal 'a | Raised cxx_exception 'a | Undefined | No_return

fun obind :: "'a outcome \<Rightarrow> ('a \<Rightarrow> 'a outcome) \<Rightarrow> 'a outcome" where
  "obind (Normal x) f = f x"
| "obind (Raised e x) f = Raised e x"
| "obind Undefined f = Undefined"
| "obind No_return f = No_return"

text \<open>A counted \<^verbatim>\<open>for\<close> loop over the given indices, left at the first failure.\<close>

primrec for_each :: "'i list \<Rightarrow> ('i \<Rightarrow> 'a \<Rightarrow> 'a outcome) \<Rightarrow> 'a \<Rightarrow> 'a outcome" where
  "for_each [] f s = Normal s"
| "for_each (i # is) f s = obind (f i s) (for_each is f)"

section \<open>The MT1 header\<close>

text \<open>
  \<^verbatim>\<open>std::bitset<N>(str)\<close> for a string of at most N characters '0'/'1': bit 0 is
  the last character, missing high bits are zero. The header string is cut from the
  decoded message, which \<^verbatim>\<open>std::bitset::to_string\<close> produced, so it holds no other
  character. The bitset is the list of its bits, bit 0 first.
\<close>

definition bitset_of_string :: "nat \<Rightarrow> string \<Rightarrow> bool list" where
  "bitset_of_string N str =
     rev (map (\<lambda>c. c = CHR ''1'') str) @ replicate (N - length str) False"

text \<open>
  \<^verbatim>\<open>bits[GALILEO_CNAV_MT1_HEADER_BITS - parameter.first - j]\<close>: the index is
  computed on \<^verbatim>\<open>int\<close>; \<^verbatim>\<open>std::bitset::operator[]\<close> does not check it, so an
  index outside the bitset is undefined behaviour (\<open>None\<close>).
\<close>

definition header_bit :: "mt1_layout \<Rightarrow> bool list \<Rightarrow> int \<Rightarrow> int \<Rightarrow> bool option" where
  "header_bit L bits first j =
     (let idx = int (GALILEO_CNAV_MT1_HEADER_BITS L) - first - j
      in if 0 \<le> idx \<and> idx < int (length bits) then Some (bits ! nat idx) else None)"

text \<open>
  The loop of \<^verbatim>\<open>read_has_message_header_parameter_uint16\<close> and \<^verbatim>\<open>_uint8\<close>, for
  \<open>j\<close> from 0 while \<open>j < parameter.second\<close>.
\<close>

primrec header_loop :: "mt1_layout \<Rightarrow> bool list \<Rightarrow> int \<Rightarrow> nat list \<Rightarrow> 'a::len word \<Rightarrow> 'a word option" where
  "header_loop L bits first [] v = Some v"
| "header_loop L bits first (j # js) v =
     (case header_bit L bits first (int j) of
        None \<Rightarrow> None
      | Some b \<Rightarrow> header_loop L bits first js (let v1 = push_bit 1 v in if b then v1 + 1 else v1))"

definition read_has_message_header_parameter_uint16 :: "mt1_layout \<Rightarrow> bool list \<Rightarrow> int \<times> int \<Rightarrow> u16 option" where
  "read_has_message_header_parameter_uint16 L bits parameter =
     header_loop L bits (fst parameter) [0..<nat (snd parameter)] 0"

definition read_has_message_header_parameter_uint8 :: "mt1_layout \<Rightarrow> bool list \<Rightarrow> int \<times> int \<Rightarrow> u8 option" where
  "read_has_message_header_parameter_uint8 L bits parameter =
     header_loop L bits (fst parameter) [0..<nat (snd parameter)] 0"

definition read_has_message_header_parameter_bool :: "mt1_layout \<Rightarrow> bool list \<Rightarrow> int \<times> int \<Rightarrow> bool option" where
  "read_has_message_header_parameter_bool L bits parameter = header_bit L bits (fst parameter) 0"

text \<open>\<^verbatim>\<open>read_MT1_header\<close>: the ten fields in the order of the source.\<close>

definition read_MT1_header :: "mt1_layout \<Rightarrow> string \<Rightarrow> mt1_header option" where
  "read_MT1_header L message_header =
     (let has_mt1_header = bitset_of_string (GALILEO_CNAV_MT1_HEADER_BITS L) message_header in
      case read_has_message_header_parameter_uint16 L has_mt1_header (GALILEO_MT1_HEADER_TOH L) of
        None \<Rightarrow> None | Some f_toh \<Rightarrow>
      case read_has_message_header_parameter_uint8 L has_mt1_header (GALILEO_MT1_HEADER_MASK_ID L) of
        None \<Rightarrow> None | Some f_mask_id \<Rightarrow>
      case read_has_message_header_parameter_uint8 L has_mt1_header (GALILEO_MT1_HEADER_IOD_ID L) of
        None \<Rightarrow> None | Some f_iod_id \<Rightarrow>
      case read_has_message_header_parameter_bool L has_mt1_header (GALILEO_MT1_HEADER_MASK_FLAG L) of
        None \<Rightarrow> None | Some f_mask \<Rightarrow>
      case read_has_message_header_parameter_bool L has_mt1_header (GALILEO_MT1_HEADER_ORBIT_CORRECTION_FLAG L) of
        None \<Rightarrow> None | Some f_orbit \<Rightarrow>
      case read_has_message_header_parameter_bool L has_mt1_header (GALILEO_MT1_HEADER_CLOCK_FULLSET_FLAG L) of
        None \<Rightarrow> None | Some f_full \<Rightarrow>
      case read_has_message_header_parameter_bool L has_mt1_header (GALILEO_MT1_HEADER_CLOCK_SUBSET_FLAG L) of
        None \<Rightarrow> None | Some f_sub \<Rightarrow>
      case read_has_message_header_parameter_bool L has_mt1_header (GALILEO_MT1_HEADER_CODE_BIAS_FLAG L) of
        None \<Rightarrow> None | Some f_code \<Rightarrow>
      case read_has_message_header_parameter_bool L has_mt1_header (GALILEO_MT1_HEADER_PHASE_BIAS_FLAG L) of
        None \<Rightarrow> None | Some f_phase \<Rightarrow>
      case read_has_message_header_parameter_bool L has_mt1_header (GALILEO_MT1_HEADER_URA_FLAG L) of
        None \<Rightarrow> None | Some f_ura \<Rightarrow>
      Some \<lparr>toh = f_toh, mask_id = f_mask_id, iod_id = f_iod_id, mask_flag = f_mask,
         orbit_correction_flag = f_orbit, clock_fullset_flag = f_full,
         clock_subset_flag = f_sub, code_bias_flag = f_code, phase_bias_flag = f_phase,
         ura_flag = f_ura\<rparr>)"

section \<open>The MT1 body\<close>

text \<open>
  \<^verbatim>\<open>read_MT1_body\<close> works on a local copy \<^verbatim>\<open>message\<close> of the body, the locals
  \<^verbatim>\<open>Nsat\<close> and \<^verbatim>\<open>have_mask\<close>, the member \<^verbatim>\<open>d_HAS_data\<close> and the mask cache;
  it touches no other member of the receiver.
\<close>

record parse_st =
  message :: string
  Nsat :: nat
  have_mask :: bool
  hd_data :: Galileo_HAS_data
  hd_mask :: mask_cache

text \<open>
  \<^verbatim>\<open>message = std::string(message.begin() + n, message.end())\<close>. When fewer than
  \<open>n\<close> characters are left the iterator range is invalid; the standard library
  then computes a length near \<^verbatim>\<open>SIZE_MAX\<close> and throws \<^verbatim>\<open>std::length_error\<close>,
  which is the error the \<^verbatim>\<open>catch\<close> clauses of \<^verbatim>\<open>decode_message_type1\<close> are
  written for. \<^verbatim>\<open>message.substr(0, n)\<close> never throws: it is \<open>take n\<close>.
\<close>

definition advance :: "nat \<Rightarrow> parse_st \<Rightarrow> parse_st outcome" where
  "advance n st =
     (if n \<le> length (message st) then Normal (st\<lparr>message := drop n (message st)\<rparr>)
      else Raised Length_error st)"

definition count_char :: "char \<Rightarrow> string \<Rightarrow> nat" where
  "count_char c str = length (filter (\<lambda>x. x = c) str)"

definition upd_data :: "(Galileo_HAS_data \<Rightarrow> Galileo_HAS_data) \<Rightarrow> parse_st \<Rightarrow> parse_st" where
  "upd_data f st = st\<lparr>hd_data := f (hd_data st)\<rparr>"

definition upd_mask :: "(mask_cache \<Rightarrow> mask_cache) \<Rightarrow> parse_st \<Rightarrow> parse_st" where
  "upd_mask f st = st\<lparr>hd_mask := f (hd_mask st)\<rparr>"

definition the_mask_id :: "parse_st \<Rightarrow> nat" where
  "the_mask_id st = unat (mask_id (header (hd_data st)))"

subsection \<open>Mask block\<close>

text \<open>
  The cell mask of one system: \<open>ns\<close> rows of \<open>nc\<close> bits, read from
  \<^verbatim>\<open>message[pos]\<close> with \<open>pos\<close> counting up from 0. The source does not check
  \<open>pos\<close> against the length. \<^verbatim>\<open>operator[]\<close> of \<^verbatim>\<open>std::string\<close> gives the
  terminating NUL at \<open>pos = size()\<close>, which is not '1'; an index beyond that is
  undefined behaviour, and \<^verbatim>\<open>read_mask_system\<close> below gives \<open>Undefined\<close> before
  such a read is made.
\<close>

definition char_at :: "string \<Rightarrow> nat \<Rightarrow> char" where
  "char_at str pos = (if pos < length str then str ! pos else CHR 0x00)"

definition read_cell_mask :: "string \<Rightarrow> nat \<Rightarrow> nat \<Rightarrow> bool list list" where
  "read_cell_mask str ns nc =
     map (\<lambda>s. map (\<lambda>sig. char_at str (s * nc + sig) = CHR ''1'') [0..<nc]) [0..<ns]"

text \<open>
  One iteration of the loop over the \<open>Nsys\<close> systems of the mask (lines 381 to 425).
  The vectors of \<^verbatim>\<open>d_HAS_data\<close> have \<open>Nsys\<close> entries and \<open>i < Nsys\<close>; \<open>Nsys\<close>
  is read from at most four bits, so \<open>i\<close> is also inside the cache's vectors of 16.
  The cell mask loop reads the positions \<open>0\<close> to \<open>size_cell - 1\<close> of the message;
  when the last of them lies beyond the terminating NUL the behaviour is undefined.
\<close>

definition read_mask_system :: "nat \<Rightarrow> parse_st \<Rightarrow> parse_st outcome" where
  "read_mask_system i st0 =
     (let m = the_mask_id st0;
          g = read_has_message_body_uint8 (take HAS_MSG_ID_MASK_LENGTH (message st0));
          st1 = upd_mask (\<lambda>c. c\<lparr>d_gnss_id_in_mask := (d_gnss_id_in_mask c)(m := (d_gnss_id_in_mask c m)(i := g))\<rparr>)
                  (upd_data (\<lambda>d. d\<lparr>gnss_id_mask := (gnss_id_mask d)[i := g]\<rparr>) st0)
      in obind (advance HAS_MSG_ID_MASK_LENGTH st1) (\<lambda>st2.
     let msg = take HAS_MSG_SATELLITE_MASK_LENGTH (message st2);
         sm = read_has_message_body_uint64 msg;
         ones_in_satellite_mask = count_char CHR ''1'' msg;
         st3 = upd_mask (\<lambda>c. c\<lparr>d_satellite_mask := (d_satellite_mask c)(m := (d_satellite_mask c m)(i := sm))\<rparr>)
                 (upd_data (\<lambda>d. d\<lparr>satellite_mask := (satellite_mask d)[i := sm]\<rparr>) st2);
         st4 = st3\<lparr>Nsat := Nsat st3 + ones_in_satellite_mask\<rparr>
      in obind (advance HAS_MSG_SATELLITE_MASK_LENGTH st4) (\<lambda>st5.
     let msg2 = take HAS_MSG_SIGNAL_MASK_LENGTH (message st5);
         sg = read_has_message_body_uint16 msg2;
         ones_in_signal_mask = count_char CHR ''1'' msg2;
         st6 = upd_mask (\<lambda>c. c\<lparr>d_signal_mask := (d_signal_mask c)(m := (d_signal_mask c m)(i := sg))\<rparr>)
                 (upd_data (\<lambda>d. d\<lparr>signal_mask := (signal_mask d)[i := sg]\<rparr>) st5)
      in obind (advance HAS_MSG_SIGNAL_MASK_LENGTH st6) (\<lambda>st7.
     let st8 = upd_data (\<lambda>d. d\<lparr>cell_mask := (cell_mask d)
                   [i := replicate ones_in_satellite_mask (replicate ones_in_signal_mask False)]\<rparr>) st7;
         av = (take 1 (message st8) = ''1'');
         st9 = upd_mask (\<lambda>c. c\<lparr>d_cell_mask_availability_flag :=
                   (d_cell_mask_availability_flag c)(m := (d_cell_mask_availability_flag c m)(i := av))\<rparr>)
                 (upd_data (\<lambda>d. d\<lparr>cell_mask_availability_flag := (cell_mask_availability_flag d)[i := av]\<rparr>) st8)
      in obind (advance 1 st9) (\<lambda>st10.
     let size_cell = ones_in_satellite_mask * ones_in_signal_mask
      in if size_cell > length (message st10) + 1 then Undefined
         else
     let st11 = upd_data (\<lambda>d. d\<lparr>cell_mask := (cell_mask d)
                   [i := read_cell_mask (message st10) ones_in_satellite_mask ones_in_signal_mask]\<rparr>) st10
      in obind (advance size_cell st11) (\<lambda>st12.
     let nv = read_has_message_body_uint8 (take HAS_MSG_NAV_MESSAGE_LENGTH (message st12));
         st13 = upd_mask (\<lambda>c. c\<lparr>d_nav_message_mask := (d_nav_message_mask c)(m := (d_nav_message_mask c m)(i := nv))\<rparr>)
                  (upd_data (\<lambda>d. d\<lparr>nav_message := (nav_message d)[i := nv]\<rparr>) st12)
      in advance HAS_MSG_NAV_MESSAGE_LENGTH st13))))))"

text \<open>
  The branch \<^verbatim>\<open>if (d_HAS_data.header.mask_flag)\<close> (lines 366 to 434). \<open>Nsys\<close> is
  read and cached first; the message is advanced past it only when it is not zero.
\<close>

definition read_mask_block :: "mt1_layout \<Rightarrow> parse_st \<Rightarrow> parse_st outcome" where
  "read_mask_block L st0 =
     (let m = the_mask_id st0;
          n = read_has_message_body_uint8 (take HAS_MSG_NSYS_LENGTH (message st0));
          st1 = upd_mask (\<lambda>c. c\<lparr>d_nsys_in_mask := (d_nsys_in_mask c)(m := n)\<rparr>)
                  (upd_data (\<lambda>d. d\<lparr>Nsys := n\<rparr>) st0)
      in obind
          (if n \<noteq> 0 then
             obind (advance HAS_MSG_NSYS_LENGTH st1) (\<lambda>st2.
             let st3 = upd_data (\<lambda>d. d\<lparr>
                         gnss_id_mask := replicate (unat n) 0,
                         cell_mask := replicate (unat n)
                           (replicate 40 (replicate 16 False)),
                         cell_mask_availability_flag := replicate (unat n) False,
                         nav_message := replicate (unat n) 0,
                         satellite_mask := replicate (unat n) 0,
                         signal_mask := replicate (unat n) 0\<rparr>) st2
             in obind (for_each [0..<unat n] read_mask_system st3) (\<lambda>st4.
             let st5 = upd_mask (\<lambda>c. c\<lparr>
                         d_nsat_in_mask_id := (d_nsat_in_mask_id c)(m := Nsat st4),
                         d_cell_mask := (d_cell_mask c)(m := cell_mask (hd_data st4))\<rparr>) st4
             in advance (HAS_MSG_MASK_RESERVED_LENGTH L) st5))
           else Normal st1)
          (\<lambda>st6. Normal (if Nsat st6 \<noteq> 0 then st6\<lparr>have_mask := True\<rparr> else st6)))"

text \<open>
  The \<^verbatim>\<open>else\<close> branch (lines 448 to 471): the mask comes from the cache.
  \<^verbatim>\<open>std::copy\<close> appends the first \<open>Nsys\<close> cached entries to the vectors of
  \<^verbatim>\<open>d_HAS_data\<close>; a cached \<open>Nsys\<close> above the 16 entries of the cache would read
  past their end.
\<close>

definition use_cached_mask :: "parse_st \<Rightarrow> parse_st outcome" where
  "use_cached_mask st0 =
     (let m = the_mask_id st0; c = hd_mask st0;
          st1 = st0\<lparr>Nsat := d_nsat_in_mask_id c m\<rparr>
      in if Nsat st1 \<noteq> 0 then
           let n = d_nsys_in_mask c m in
           if unat n > HAS_MSG_NUMBER_GNSS_IDS then Undefined
           else Normal ((upd_data (\<lambda>d. d\<lparr>
                  Nsys := n,
                  gnss_id_mask := gnss_id_mask d @ map (d_gnss_id_in_mask c m) [0..<unat n],
                  satellite_mask := satellite_mask d @ map (d_satellite_mask c m) [0..<unat n],
                  signal_mask := signal_mask d @ map (d_signal_mask c m) [0..<unat n],
                  cell_mask_availability_flag := cell_mask_availability_flag d
                     @ map (d_cell_mask_availability_flag c m) [0..<unat n],
                  cell_mask := d_cell_mask c m,
                  nav_message := nav_message d @ map (d_nav_message_mask c m) [0..<unat n]\<rparr>) st1)
                \<lparr>have_mask := True\<rparr>)
         else Normal st1)"

text \<open>The check "discard data if crazy values" (lines 474 to 479).\<close>

definition toh_gate :: "parse_st \<Rightarrow> parse_st" where
  "toh_gate st =
     (if unat (toh (header (hd_data st))) > HAS_MSG_NUMBER_MAX_TOH then
        upd_mask (\<lambda>c. c\<lparr>d_nsat_in_mask_id := (d_nsat_in_mask_id c)(the_mask_id st := 0)\<rparr>)
          (st\<lparr>have_mask := False\<rparr>)
      else st)"

subsection \<open>Orbit corrections\<close>

text \<open>
  One iteration of the loop over the \<open>Nsat\<close> satellites (lines 490 to 510). The
  system is looked up as \<^verbatim>\<open>d_HAS_data.gnss_id_mask[i]\<close> with the satellite index
  \<open>i\<close>; the vector has \<open>Nsys\<close> entries and \<^verbatim>\<open>operator[]\<close> does not check the
  index. The two \<^verbatim>\<open>if\<close>s are not exclusive in the source; no branch handles
  another system.
\<close>

definition read_orbit_sat :: "nat \<Rightarrow> parse_st \<Rightarrow> parse_st outcome" where
  "read_orbit_sat i st0 =
     (if i \<ge> length (gnss_id_mask (hd_data st0)) then Undefined
      else
        obind
          (if gnss_id_mask (hd_data st0) ! i = HAS_MSG_GPS_SYSTEM then
             advance HAS_MSG_IOD_GPS_LENGTH
               (upd_data (\<lambda>d. d\<lparr>gnss_iod := (gnss_iod d)
                  [i := read_has_message_body_uint16 (take HAS_MSG_IOD_GPS_LENGTH (message st0))]\<rparr>) st0)
           else Normal st0) (\<lambda>st1.
        obind
          (if gnss_id_mask (hd_data st1) ! i = HAS_MSG_GALILEO_SYSTEM then
             advance HAS_MSG_IOD_GAL_LENGTH
               (upd_data (\<lambda>d. d\<lparr>gnss_iod := (gnss_iod d)
                  [i := read_has_message_body_uint16 (take HAS_MSG_IOD_GAL_LENGTH (message st1))]\<rparr>) st1)
           else Normal st1) (\<lambda>st2.
        obind
          (advance HAS_MSG_DELTA_RADIAL_LENGTH
             (upd_data (\<lambda>d. d\<lparr>delta_radial := (delta_radial d)
                [i := read_has_message_body_int16 (take HAS_MSG_DELTA_RADIAL_LENGTH (message st2))]\<rparr>) st2)) (\<lambda>st3.
        obind
          (advance HAS_MSG_DELTA_ALONG_TRACK_LENGTH
             (upd_data (\<lambda>d. d\<lparr>delta_along_track := (delta_along_track d)
                [i := read_has_message_body_int16 (take HAS_MSG_DELTA_ALONG_TRACK_LENGTH (message st3))]\<rparr>) st3)) (\<lambda>st4.
        advance HAS_MSG_DELTA_CROSS_TRACK_LENGTH
          (upd_data (\<lambda>d. d\<lparr>delta_cross_track := (delta_cross_track d)
             [i := read_has_message_body_int16 (take HAS_MSG_DELTA_CROSS_TRACK_LENGTH (message st4))]\<rparr>) st4))))))"

definition read_orbit_block :: "parse_st \<Rightarrow> parse_st outcome" where
  "read_orbit_block st0 =
     obind
       (advance HAS_MSG_VALIDITY_INDEX_LENGTH
          (upd_data (\<lambda>d. d\<lparr>validity_interval_index_orbit_corrections :=
             read_has_message_body_uint8 (take HAS_MSG_VALIDITY_INDEX_LENGTH (message st0))\<rparr>) st0)) (\<lambda>st1.
     let st2 = upd_data (\<lambda>d. d\<lparr>
                 gnss_iod := replicate (Nsat st1) 0,
                 delta_radial := replicate (Nsat st1) 0,
                 delta_along_track := replicate (Nsat st1) 0,
                 delta_cross_track := replicate (Nsat st1) 0\<rparr>) st1
     in for_each [0..<Nsat st2] read_orbit_sat st2)"

subsection \<open>Clock full-set corrections\<close>

definition read_clock_multiplier :: "nat \<Rightarrow> parse_st \<Rightarrow> parse_st outcome" where
  "read_clock_multiplier i st =
     advance HAS_MSG_DELTA_CLOCK_C0_MULTIPLIER_LENGTH
       (upd_data (\<lambda>d. d\<lparr>delta_clock_c0_multiplier := (delta_clock_c0_multiplier d)
          [i := read_has_message_body_uint8
                  (take HAS_MSG_DELTA_CLOCK_C0_MULTIPLIER_LENGTH (message st))]\<rparr>) st)"

text \<open>\<^verbatim>\<open>message[0] == '1'\<close> on an empty string compares the terminating NUL.\<close>

definition read_clock_sat :: "nat \<Rightarrow> parse_st \<Rightarrow> parse_st outcome" where
  "read_clock_sat i st0 =
     obind
       (advance 1
          (upd_data (\<lambda>d. d\<lparr>iod_change_flag := (iod_change_flag d)
             [i := (char_at (message st0) 0 = CHR ''1'')]\<rparr>) st0)) (\<lambda>st1.
     advance HAS_MSG_DELTA_CLOCK_C0_LENGTH
       (upd_data (\<lambda>d. d\<lparr>delta_clock_c0 := (delta_clock_c0 d)
          [i := read_has_message_body_int16 (take HAS_MSG_DELTA_CLOCK_C0_LENGTH (message st1))]\<rparr>) st1))"

definition read_clock_fullset_block :: "parse_st \<Rightarrow> parse_st outcome" where
  "read_clock_fullset_block st0 =
     obind
       (advance HAS_MSG_VALIDITY_INDEX_LENGTH
          (upd_data (\<lambda>d. d\<lparr>validity_interval_index_clock_fullset_corrections :=
             read_has_message_body_uint8 (take HAS_MSG_VALIDITY_INDEX_LENGTH (message st0))\<rparr>) st0)) (\<lambda>st1.
     let st2 = upd_data (\<lambda>d. d\<lparr>delta_clock_c0_multiplier := replicate (unat (Nsys d)) 0\<rparr>) st1
     in obind (for_each [0..<unat (Nsys (hd_data st2))] read_clock_multiplier st2) (\<lambda>st3.
     let st4 = upd_data (\<lambda>d. d\<lparr>iod_change_flag := replicate (Nsat st3) False,
                                   delta_clock_c0 := replicate (Nsat st3) 0\<rparr>) st3
     in for_each [0..<Nsat st4] read_clock_sat st4))"

subsection \<open>Clock subset corrections\<close>

text \<open>
  \<^verbatim>\<open>std::bitset<40>(satellite_mask).to_string()\<close> and the count of its '1'
  characters: the number of set bits among the low 40.
\<close>

definition ones_in_bitset40 :: "u64 \<Rightarrow> nat" where
  "ones_in_bitset40 w = length (filter (\<lambda>k. bit w k) [0..<40])"

definition read_submask_bit :: "nat \<Rightarrow> nat \<Rightarrow> parse_st \<Rightarrow> parse_st outcome" where
  "read_submask_bit i j st =
     advance 1
       (upd_data (\<lambda>d. d\<lparr>satellite_submask := (satellite_submask d)
          [i := (satellite_submask d ! i)
                  [j := read_has_message_body_uint64 (take 1 (message st))]]\<rparr>) st)"

text \<open>
  The inner loop of lines 587 to 591: every delta that is read is assigned to the one
  element \<^verbatim>\<open>delta_clock_c0_clock_subset[i]\<close>.
\<close>

definition read_subset_delta :: "nat \<Rightarrow> nat \<Rightarrow> parse_st \<Rightarrow> parse_st outcome" where
  "read_subset_delta i j st =
     advance HAS_MSG_DELTA_CLOCK_C0_SUBSET_LENGTH
       (upd_data (\<lambda>d. d\<lparr>delta_clock_c0_clock_subset := (delta_clock_c0_clock_subset d)
          [i := read_has_message_body_int16
                  (take HAS_MSG_DELTA_CLOCK_C0_SUBSET_LENGTH (message st))]\<rparr>) st)"

text \<open>
  One iteration of the loop over the \<open>Nsysprime\<close> subsystems (lines 568 to 591).
  \<^verbatim>\<open>d_HAS_data.satellite_mask[i]\<close> is read with the subsystem index; the vector
  has \<open>Nsys\<close> entries.
\<close>

definition read_clock_subset_sys :: "nat \<Rightarrow> parse_st \<Rightarrow> parse_st outcome" where
  "read_clock_subset_sys i st0 =
     obind
       (advance HAS_MSG_ID_CLOCK_SUBSET_LENGTH
          (upd_data (\<lambda>d. d\<lparr>gnss_id_clock_subset := (gnss_id_clock_subset d)
             [i := read_has_message_body_uint8 (take HAS_MSG_ID_CLOCK_SUBSET_LENGTH (message st0))]\<rparr>) st0)) (\<lambda>st1.
     let clock_multiplier = read_has_message_body_uint8
                              (take HAS_MSG_DELTA_CLOCK_MULTIPLIER_SUBSET_LENGTH (message st1))
     in obind
       (advance HAS_MSG_DELTA_CLOCK_MULTIPLIER_SUBSET_LENGTH
          (upd_data (\<lambda>d. d\<lparr>delta_clock_c0_multiplier_clock_subset :=
             (delta_clock_c0_multiplier_clock_subset d)[i := clock_multiplier + 1]\<rparr>) st1)) (\<lambda>st2.
     if i \<ge> length (satellite_mask (hd_data st2)) then Undefined
     else
       let number_sats_this_gnss_id = ones_in_bitset40 (satellite_mask (hd_data st2) ! i);
           st3 = upd_data (\<lambda>d. d\<lparr>satellite_submask := (satellite_submask d)
                   [i := replicate number_sats_this_gnss_id 0]\<rparr>) st2
       in obind (for_each [0..<number_sats_this_gnss_id] (read_submask_bit i) st3) (\<lambda>st4.
       let Nsatprime = length (filter (\<lambda>x. x = 1) (satellite_submask (hd_data st4) ! i))
       in for_each [0..<Nsatprime] (read_subset_delta i) st4)))"

definition read_clock_subset_block :: "parse_st \<Rightarrow> parse_st outcome" where
  "read_clock_subset_block st0 =
     obind
       (advance HAS_MSG_VALIDITY_INDEX_LENGTH
          (upd_data (\<lambda>d. d\<lparr>validity_interval_index_clock_subset_corrections :=
             read_has_message_body_uint8 (take HAS_MSG_VALIDITY_INDEX_LENGTH (message st0))\<rparr>) st0)) (\<lambda>st1.
     obind
       (advance HAS_MSG_NSYSPRIME_LENGTH
          (upd_data (\<lambda>d. d\<lparr>Nsysprime :=
             read_has_message_body_uint8 (take HAS_MSG_NSYSPRIME_LENGTH (message st1))\<rparr>) st1)) (\<lambda>st2.
     let st3 = (if Nsysprime (hd_data st2) = 0 then
                  upd_mask (\<lambda>c. c\<lparr>d_nsat_in_mask_id := (d_nsat_in_mask_id c)(the_mask_id st2 := 0)\<rparr>)
                    (st2\<lparr>have_mask := False\<rparr>)
                else st2);
         np = unat (Nsysprime (hd_data st3));
         st4 = upd_data (\<lambda>d. d\<lparr>
                 gnss_id_clock_subset := replicate np 0,
                 delta_clock_c0_multiplier_clock_subset := replicate np 0,
                 satellite_submask := replicate np (replicate HAS_MSG_NUMBER_SATELLITE_IDS 0),
                 iod_change_flag_clock_subset := replicate np False,
                 delta_clock_c0_clock_subset := replicate np 0\<rparr>) st3
     in for_each [0..<np] read_clock_subset_sys st4))"

subsection \<open>Code and phase biases\<close>

text \<open>
  The population count \<^verbatim>\<open>while (n) { count += n & 1; n >>= 1; }\<close> on a 64-bit
  value.
\<close>

function count_bits :: "u64 \<Rightarrow> u64 \<Rightarrow> u64" where
  "count_bits n acc = (if n = 0 then acc else count_bits (drop_bit 1 n) (acc + (n AND 1)))"
  by pat_completeness auto
termination
proof (relation "measure (\<lambda>(n, acc). unat n)")
  show "wf (measure (\<lambda>(n :: u64, acc :: u64). unat n))" by simp
next
  fix n acc :: u64
  assume "n \<noteq> 0"
  then have "unat n \<noteq> 0" by (simp add: unat_eq_0)
  then have "unat n div 2 < unat n" by simp
  then show "((drop_bit 1 n, acc + (n AND 1)), (n, acc)) \<in> measure (\<lambda>(n, acc). unat n)"
    by (simp add: drop_bit_eq_div unat_div)
qed

text \<open>
  The first loop of the code-bias and of the phase-bias block, for one system: the
  number of satellites and of signals. With a cell mask they are
  \<^verbatim>\<open>cell_mask[sys].size()\<close> and \<^verbatim>\<open>cell_mask[sys][0].size()\<close>, the latter
  undefined for a system without satellites; without one they are the population
  counts of the two masks.
\<close>

definition count_sats_signals :: "Galileo_HAS_data \<Rightarrow> nat \<Rightarrow> (nat \<times> nat) option" where
  "count_sats_signals d sys =
     (if sys \<ge> length (cell_mask_availability_flag d) then None
      else if cell_mask_availability_flag d ! sys then
        (if sys \<ge> length (cell_mask d) then None
         else if cell_mask d ! sys = [] then None
         else Some (length (cell_mask d ! sys), length (cell_mask d ! sys ! 0)))
      else
        (if sys \<ge> length (satellite_mask d) \<or> sys \<ge> length (signal_mask d) then None
         else Some (unat (count_bits (satellite_mask d ! sys) 0),
                    unat (count_bits (ucast (signal_mask d ! sys)) 0))))"

primrec count_all_systems :: "Galileo_HAS_data \<Rightarrow> nat list \<Rightarrow> (nat \<times> nat) list option" where
  "count_all_systems d [] = Some []"
| "count_all_systems d (sys # rest) =
     (case count_sats_signals d sys of
        None \<Rightarrow> None
      | Some c \<Rightarrow> (case count_all_systems d rest of None \<Rightarrow> None | Some cs \<Rightarrow> Some (c # cs)))"

definition max_signals_of :: "(nat \<times> nat) list \<Rightarrow> nat" where
  "max_signals_of counts = foldl (\<lambda>m c. if snd c > m then snd c else m) 0 counts"

text \<open>
  The triple loop over systems, satellites and signals, with the running satellite
  index \<open>sat\<close>, as the list of its iterations \<open>(sys, s, c, sat)\<close> in order.
\<close>

primrec bias_cells :: "nat \<Rightarrow> nat \<Rightarrow> (nat \<times> nat) list \<Rightarrow> (nat \<times> nat \<times> nat \<times> nat) list" where
  "bias_cells sys sat [] = []"
| "bias_cells sys sat (n # rest) =
     concat (map (\<lambda>s. map (\<lambda>c. (sys, s, c, sat + s)) [0..<snd n]) [0..<fst n])
       @ bias_cells (Suc sys) (sat + fst n) rest"

text \<open>
  Whether the cell \<open>(sys, s, c)\<close> carries a bias:
  \<^verbatim>\<open>flag[sys] == false || (flag[sys] == true && cell_mask[sys][s][c])\<close>; \<open>None\<close> when
  an index leaves a vector.
\<close>

definition cell_present :: "Galileo_HAS_data \<Rightarrow> nat \<Rightarrow> nat \<Rightarrow> nat \<Rightarrow> bool option" where
  "cell_present d sys s c =
     (if sys \<ge> length (cell_mask_availability_flag d) then None
      else if \<not> cell_mask_availability_flag d ! sys then Some True
      else if sys \<ge> length (cell_mask d) then None
      else if s \<ge> length (cell_mask d ! sys) then None
      else if c \<ge> length (cell_mask d ! sys ! s) then None
      else Some (cell_mask d ! sys ! s ! c))"

definition read_code_bias_cell :: "nat \<times> nat \<times> nat \<times> nat \<Rightarrow> parse_st \<Rightarrow> parse_st outcome" where
  "read_code_bias_cell cell st =
     (case cell of (sys, s, c, sat) \<Rightarrow>
       (case cell_present (hd_data st) sys s c of
          None \<Rightarrow> Undefined
        | Some False \<Rightarrow> Normal st
        | Some True \<Rightarrow>
            if sat \<ge> length (code_bias (hd_data st)) \<or> c \<ge> length (code_bias (hd_data st) ! sat)
            then Undefined
            else advance HAS_MSG_CODE_BIAS_LENGTH
                   (upd_data (\<lambda>d. d\<lparr>code_bias := (code_bias d)
                      [sat := (code_bias d ! sat)
                         [c := read_has_message_body_int16
                                 (take HAS_MSG_CODE_BIAS_LENGTH (message st))]]\<rparr>) st)))"

definition read_code_bias_block :: "parse_st \<Rightarrow> parse_st outcome" where
  "read_code_bias_block st0 =
     obind
       (advance HAS_MSG_VALIDITY_INDEX_LENGTH
          (upd_data (\<lambda>d. d\<lparr>validity_interval_index_code_bias_corrections :=
             read_has_message_body_uint8 (take HAS_MSG_VALIDITY_INDEX_LENGTH (message st0))\<rparr>) st0)) (\<lambda>st1.
     case count_all_systems (hd_data st1) [0..<unat (Nsys (hd_data st1))] of
       None \<Rightarrow> Undefined
     | Some counts \<Rightarrow>
         let st2 = upd_data (\<lambda>d. d\<lparr>code_bias :=
                     replicate (Nsat st1) (replicate (max_signals_of counts) 0)\<rparr>) st1
         in for_each (bias_cells 0 0 counts) read_code_bias_cell st2)"

definition read_phase_bias_cell :: "nat \<times> nat \<times> nat \<times> nat \<Rightarrow> parse_st \<Rightarrow> parse_st outcome" where
  "read_phase_bias_cell cell st =
     (case cell of (sys, s, p, sat) \<Rightarrow>
       (case cell_present (hd_data st) sys s p of
          None \<Rightarrow> Undefined
        | Some False \<Rightarrow> Normal st
        | Some True \<Rightarrow>
            if sat \<ge> length (phase_bias (hd_data st)) \<or> p \<ge> length (phase_bias (hd_data st) ! sat)
            then Undefined
            else obind
              (advance HAS_MSG_PHASE_BIAS_LENGTH
                 (upd_data (\<lambda>d. d\<lparr>phase_bias := (phase_bias d)
                    [sat := (phase_bias d ! sat)
                       [p := read_has_message_body_int16
                               (take HAS_MSG_PHASE_BIAS_LENGTH (message st))]]\<rparr>) st)) (\<lambda>st1.
              if sat \<ge> length (phase_discontinuity_indicator (hd_data st1))
                 \<or> p \<ge> length (phase_discontinuity_indicator (hd_data st1) ! sat)
              then Undefined
              else advance HAS_MSG_PHASE_DISCONTINUITY_INDICATOR_LENGTH
                 (upd_data (\<lambda>d. d\<lparr>phase_discontinuity_indicator := (phase_discontinuity_indicator d)
                    [sat := (phase_discontinuity_indicator d ! sat)
                       [p := read_has_message_body_uint8
                               (take HAS_MSG_PHASE_DISCONTINUITY_INDICATOR_LENGTH (message st1))]]\<rparr>) st1))))"

definition read_phase_bias_block :: "parse_st \<Rightarrow> parse_st outcome" where
  "read_phase_bias_block st0 =
     obind
       (advance HAS_MSG_VALIDITY_INDEX_LENGTH
          (upd_data (\<lambda>d. d\<lparr>validity_interval_index_phase_bias_corrections :=
             read_has_message_body_uint8 (take HAS_MSG_VALIDITY_INDEX_LENGTH (message st0))\<rparr>) st0)) (\<lambda>st1.
     case count_all_systems (hd_data st1) [0..<unat (Nsys (hd_data st1))] of
       None \<Rightarrow> Undefined
     | Some counts \<Rightarrow>
         let st2 = upd_data (\<lambda>d. d\<lparr>
                     phase_bias := replicate (Nsat st1) (replicate (max_signals_of counts) 0),
                     phase_discontinuity_indicator :=
                       replicate (Nsat st1) (replicate (max_signals_of counts) 0)\<rparr>) st1
         in for_each (bias_cells 0 0 counts) read_phase_bias_cell st2)"

subsection \<open>The whole body\<close>

text \<open>
  The correction blocks in the order of the source, each guarded by its header flag
  and the current \<^verbatim>\<open>have_mask\<close>. The URA block is commented out in the source.
\<close>

definition guarded :: "(mt1_header \<Rightarrow> bool) \<Rightarrow> (parse_st \<Rightarrow> parse_st outcome) \<Rightarrow> parse_st \<Rightarrow> parse_st outcome" where
  "guarded flag block st = (if flag (header (hd_data st)) \<and> have_mask st then block st else Normal st)"

definition read_corrections :: "parse_st \<Rightarrow> parse_st outcome" where
  "read_corrections st0 =
     obind (guarded orbit_correction_flag read_orbit_block st0) (\<lambda>st1.
     obind (guarded clock_fullset_flag read_clock_fullset_block st1) (\<lambda>st2.
     obind (guarded clock_subset_flag read_clock_subset_block st2) (\<lambda>st3.
     obind (guarded code_bias_flag read_code_bias_block st3) (\<lambda>st4.
     guarded phase_bias_flag read_phase_bias_block st4))))"

text \<open>
  \<^verbatim>\<open>read_MT1_body\<close>, from \<^verbatim>\<open>d_HAS_data\<close> (whose header is already set) and the
  mask cache. Both branches start with an access to the cache at
  \<^verbatim>\<open>header.mask_id\<close>, an 8-bit value, while the cache has
  \<^verbatim>\<open>HAS_MSG_NUMBER_MASK_IDS\<close> entries.
\<close>

definition read_MT1_body :: "mt1_layout \<Rightarrow> string \<Rightarrow> Galileo_HAS_data \<Rightarrow> mask_cache \<Rightarrow> parse_st outcome" where
  "read_MT1_body L message_body d c =
     (let st0 = \<lparr>message = message_body, Nsat = 0, have_mask = False, hd_data = d, hd_mask = c\<rparr>
      in if the_mask_id st0 \<ge> HAS_MSG_NUMBER_MASK_IDS then Undefined
         else obind (if mask_flag (header d) then read_mask_block L st0 else use_cached_mask st0)
                (\<lambda>st1. read_corrections (toh_gate st1)))"

section \<open>Reed-Solomon reconstruction\<close>

text \<open>
  The Reed-Solomon codec \<^verbatim>\<open>ReedSolomon::decode\<close> is an external collaborator and a
  parameter of the model: from the column and the erasure positions it gives the
  result code and the column as the decoder leaves it.
\<close>

type_synonym rs_decoder = "u8 list \<Rightarrow> int list \<Rightarrow> int \<times> u8 list"

text \<open>
  The first erasure loop, \<^verbatim>\<open>for (uint8_t i = 1; i < message_size + 1; i++)\<close>. The
  comparison is made on \<^verbatim>\<open>int\<close> and the counter wraps at 256, so the loop does not
  end for a message size of 255.
\<close>

partial_function (option) erasure_loop :: "u8 \<Rightarrow> u8 \<Rightarrow> u8 list \<Rightarrow> int list \<Rightarrow> int list option" where
  "erasure_loop i msize pids acc =
     (if uint i < uint msize + 1 then
        erasure_loop (i + 1) msize pids (if i \<notin> set pids then acc @ [uint i - 1] else acc)
      else Some acc)"

declare erasure_loop.simps [code]

text \<open>The second loop, \<^verbatim>\<open>for (int i = 33; i < 256; i++)\<close>, appends to the same vector.\<close>

definition parity_erasures :: "u8 list \<Rightarrow> int list" where
  "parity_erasures pids =
     map (\<lambda>i. int i - 1) (filter (\<lambda>i. (of_nat i :: u8) \<notin> set pids) [33..<256])"

definition zero_C_slot :: "nat \<Rightarrow> nat \<Rightarrow> u8" where
  "zero_C_slot = (\<lambda>row k. 0)"

definition reset_slot :: "nat \<Rightarrow> receiver \<Rightarrow> receiver" where
  "reset_slot m s = s\<lparr>d_received_pids := (d_received_pids s)(m := []),
                        d_C_matrix := (d_C_matrix s)(m := zero_C_slot)\<rparr>"

text \<open>
  \<^verbatim>\<open>C_column[pid - 1] = d_C_matrix[message_id][pid - 1][col]\<close> for every received
  page id, on a column of 255 zeros. A page id of 0 would index at -1.
\<close>

primrec fill_column :: "(nat \<Rightarrow> nat \<Rightarrow> u8) \<Rightarrow> nat \<Rightarrow> u8 list \<Rightarrow> u8 list \<Rightarrow> u8 list option" where
  "fill_column C col [] C_column = Some C_column"
| "fill_column C col (pid # pids) C_column =
     (if pid = 0 then None
      else fill_column C col pids (C_column[unat pid - 1 := C (unat pid - 1) col]))"

text \<open>
  The loop over the 53 columns ("vertical decoding"). The result is \<open>None\<close> for
  undefined behaviour, and otherwise the receiver with whether every column decoded:
  at the first column whose decoding fails the source returns -1 at once.
\<close>

primrec decode_columns :: "rs_decoder \<Rightarrow> nat \<Rightarrow> int list \<Rightarrow> nat list \<Rightarrow> receiver \<Rightarrow> (bool \<times> receiver) option" where
  "decode_columns rs m erasure_positions [] s = Some (True, s)"
| "decode_columns rs m erasure_positions (col # cols) s =
     (case fill_column (d_C_matrix s m) col (d_received_pids s m)
             (replicate GALILEO_CNAV_MAX_NUMBER_SYMBOLS_ENCODED_BLOCK 0) of
        None \<Rightarrow> None
      | Some C_column \<Rightarrow>
          (case rs C_column erasure_positions of (result, C_decoded) \<Rightarrow>
             if result < 0 then Some (False, s)
             else if length C_decoded < GALILEO_CNAV_INFORMATION_VECTOR_LENGTH then None
             else decode_columns rs m erasure_positions cols
                    (s\<lparr>d_M_matrix := (\<lambda>i. if i < GALILEO_CNAV_INFORMATION_VECTOR_LENGTH
                                              then (d_M_matrix s i)(col := C_decoded ! i)
                                              else d_M_matrix s i)\<rparr>)))"

text \<open>\<^verbatim>\<open>std::bitset<8>(octet).to_string()\<close>: eight characters, most significant bit first.\<close>

definition octet_to_string :: "u8 \<Rightarrow> string" where
  "octet_to_string v = map (\<lambda>k. if bit v k then CHR ''1'' else CHR ''0'') (rev [0..<8])"

definition message_of_rows :: "(nat \<Rightarrow> nat \<Rightarrow> u8) \<Rightarrow> nat \<Rightarrow> string" where
  "message_of_rows M msize =
     concat (map (\<lambda>row. concat (map (\<lambda>col. octet_to_string (M row col))
                                     [0..<GALILEO_CNAV_OCTETS_IN_SUBPAGE])) [0..<msize])"

text \<open>
  \<^verbatim>\<open>decode_message_type1\<close> returns -1 or 0 with the receiver it leaves. It is
  embedded in three parts. The first part (lines 193 to 228) computes the erasure
  positions and gives up when there are more than 223 of them.
\<close>

definition erasure_positions_of :: "u8 \<Rightarrow> u8 list \<Rightarrow> int list option" where
  "erasure_positions_of msize pids =
     (case erasure_loop 1 msize pids [] of
        None \<Rightarrow> None
      | Some info_erasures \<Rightarrow> Some (info_erasures @ parity_erasures pids))"

text \<open>
  The third part (lines 264 to 324), once every column is decoded: the message string
  is formed from the first \<open>message_size\<close> rows of \<^verbatim>\<open>d_M_matrix\<close> (which has
  32 rows), it is published on the monitor port when that is enabled, the page slot
  is reset, and header and body are read. The \<^verbatim>\<open>try\<close> block covers the
  construction of the body string and \<^verbatim>\<open>read_MT1_body\<close>; every exception ends in
  \<^verbatim>\<open>return -1\<close>, with what the parser had written so far left in
  \<^verbatim>\<open>d_HAS_data\<close> and in the mask cache.
\<close>

definition publish_and_parse :: "mt1_layout \<Rightarrow> nat \<Rightarrow> u8 \<Rightarrow> receiver \<Rightarrow> (int \<times> receiver) outcome" where
  "publish_and_parse L m msize s2 =
     (if unat msize > GALILEO_CNAV_INFORMATION_VECTOR_LENGTH then Undefined
      else
        let decoded_message_type_1 = message_of_rows (d_M_matrix s2) (unat msize);
            s3 = (if d_enable_navdata_monitor s2 then
                    let pkt = (d_nav_msg_packet s2)\<lparr>nav_message_bits := decoded_message_type_1\<rparr>
                    in s2\<lparr>d_nav_msg_packet := pkt,
                          Nav_msg_from_TLM := Nav_msg_from_TLM s2 @ [pkt]\<rparr>
                  else s2);
            s4 = (reset_slot m s3)\<lparr>d_HAS_data := empty_HAS_data\<rparr>
        in case read_MT1_header L (take (GALILEO_CNAV_MT1_HEADER_BITS L) decoded_message_type_1) of
          None \<Rightarrow> Undefined
        | Some h \<Rightarrow>
          let s5 = s4\<lparr>d_HAS_data := (d_HAS_data s4)\<lparr>header := h\<rparr>\<rparr> in
          if GALILEO_CNAV_MT1_HEADER_BITS L > length decoded_message_type_1 then Normal (- 1, s5)
          else
            (case read_MT1_body L (drop (GALILEO_CNAV_MT1_HEADER_BITS L) decoded_message_type_1)
                    (d_HAS_data s5) (d_mask s5) of
               Normal st \<Rightarrow> Normal (0, s5\<lparr>d_HAS_data := hd_data st, d_mask := hd_mask st\<rparr>)
             | Raised e st \<Rightarrow> Normal (- 1, s5\<lparr>d_HAS_data := hd_data st, d_mask := hd_mask st\<rparr>)
             | Undefined \<Rightarrow> Undefined
             | No_return \<Rightarrow> No_return))"

text \<open>
  The second part (lines 230 to 262), from the erasure positions on:
  \<^verbatim>\<open>d_M_matrix\<close> is cleared and the columns are decoded; the third part follows
  when every column decoded.
\<close>

definition reconstruct_and_parse :: "rs_decoder \<Rightarrow> mt1_layout \<Rightarrow> nat \<Rightarrow> u8 \<Rightarrow> int list \<Rightarrow> receiver \<Rightarrow> (int \<times> receiver) outcome" where
  "reconstruct_and_parse rs L m msize erasure_positions s =
     (let s1 = s\<lparr>d_M_matrix := (\<lambda>row col. 0)\<rparr> in
      case decode_columns rs m erasure_positions [0..<GALILEO_CNAV_OCTETS_IN_SUBPAGE] s1 of
        None \<Rightarrow> Undefined
      | Some (False, s2) \<Rightarrow> Normal (- 1, s2)
      | Some (True, s2) \<Rightarrow> publish_and_parse L m msize s2)"

definition decode_message_type1 :: "rs_decoder \<Rightarrow> mt1_layout \<Rightarrow> u8 \<Rightarrow> u8 \<Rightarrow> receiver \<Rightarrow> (int \<times> receiver) outcome" where
  "decode_message_type1 rs L mid msize s =
     (let m = unat mid in
      if m \<ge> HAS_MSG_NUMBER_MESSAGE_IDS then Undefined
      else case erasure_positions_of msize (d_received_pids s m) of
        None \<Rightarrow> No_return
      | Some erasure_positions \<Rightarrow>
          if length erasure_positions > 223 then Normal (- 1, reset_slot m s)
          else reconstruct_and_parse rs L m msize erasure_positions s)"

text \<open>
  The erasure positions as the specification words them: the page ids of
  \<open>[1..message_size]\<close> and of \<open>[33..255]\<close> that were not received, each as the
  0-based index \<open>pid - 1\<close>.
\<close>

definition spec_erasure_positions :: "nat \<Rightarrow> u8 list \<Rightarrow> int list" where
  "spec_erasure_positions msize pids =
     map (\<lambda>pid. int pid - 1)
       (filter (\<lambda>pid. (of_nat pid :: u8) \<notin> set pids) ([1..<msize + 1] @ [33..<256]))"

section \<open>Page accumulation and the message handler\<close>

text \<open>
  One iteration of the loop over the 53 octets of a new page (lines 155 to 160):
  \<^verbatim>\<open>substr(k * 8, 8)\<close> throws \<^verbatim>\<open>std::out_of_range\<close> when the payload has fewer
  than \<open>k * 8\<close> characters, and the \<^verbatim>\<open>std::bitset<8>\<close> constructor throws
  \<^verbatim>\<open>std::invalid_argument\<close> for a character other than '0' and '1'.
\<close>

definition store_octet :: "string \<Rightarrow> nat \<Rightarrow> nat \<Rightarrow> nat \<Rightarrow> receiver \<Rightarrow> receiver outcome" where
  "store_octet page_string m row k s =
     (if k * 8 > length page_string then Raised Out_of_range s
      else
        let bits8 = take 8 (drop (k * 8) page_string) in
        if \<not> list_all (\<lambda>c. c = CHR ''0'' \<or> c = CHR ''1'') bits8 then Raised Invalid_argument s
        else Normal (s\<lparr>d_C_matrix := (d_C_matrix s)
               (m := (d_C_matrix s m)(row := (d_C_matrix s m row)(k := (shift_in 0 bits8 :: u8))))\<rparr>))"

text \<open>The nested screening conditions of \<^verbatim>\<open>process_HAS_page\<close> (lines 142 to 151).\<close>

definition accepted :: "Galileo_HAS_page \<Rightarrow> receiver \<Rightarrow> bool" where
  "accepted has_page s =
     ((has_status has_page = 0 \<or> has_status has_page = 1)
      \<and> message_page_id has_page \<noteq> 0
      \<and> message_type has_page = 1
      \<and> unat (message_id has_page) < 32
      \<and> message_page_id has_page \<notin> set (d_received_pids s (unat (message_id has_page))))"

definition accumulate :: "Galileo_HAS_page \<Rightarrow> receiver \<Rightarrow> receiver outcome" where
  "accumulate has_page s =
     (if accepted has_page s then
        let m = unat (message_id has_page);
            s1 = s\<lparr>d_received_pids := (d_received_pids s)
                    (m := d_received_pids s m @ [message_page_id has_page])\<rparr>
        in for_each [0..<GALILEO_CNAV_OCTETS_IN_SUBPAGE]
             (store_octet (has_message_string has_page) m (unat (message_page_id has_page) - 1)) s1
      else Normal s)"

text \<open>
  \<^verbatim>\<open>process_HAS_page\<close>. After the screening, and outside of it, the source clears
  \<^verbatim>\<open>d_new_message\<close> and compares \<^verbatim>\<open>d_received_pids[has_page.message_id].size()\<close>
  with the page's message size; the index is the 8-bit message id of the page,
  unchecked, into a vector of \<^verbatim>\<open>HAS_MSG_NUMBER_MESSAGE_IDS\<close> entries.
\<close>

definition process_HAS_page :: "rs_decoder \<Rightarrow> mt1_layout \<Rightarrow> Galileo_HAS_page \<Rightarrow> receiver \<Rightarrow> receiver outcome" where
  "process_HAS_page rs L has_page s =
     obind (accumulate has_page s) (\<lambda>s1.
       let s2 = s1\<lparr>d_new_message := False\<rparr>; m = unat (message_id has_page) in
       if m \<ge> HAS_MSG_NUMBER_MESSAGE_IDS then Undefined
       else if length (d_received_pids s2 m) = unat (message_size has_page) then
         (case decode_message_type1 rs L (message_id has_page) (message_size has_page) s2 of
            Normal (res, s3) \<Rightarrow>
              Normal (if res = 0
                         \<and> d_nsat_in_mask_id (d_mask s3) (unat (mask_id (header (d_HAS_data s3)))) \<noteq> 0
                      then s3\<lparr>d_new_message := True\<rparr> else s3)
          | Raised e x \<Rightarrow> Raised e (snd x)
          | Undefined \<Rightarrow> Undefined
          | No_return \<Rightarrow> No_return)
       else Normal s2)"

text \<open>
  The message handler. The message is a \<^verbatim>\<open>Galileo_HAS_page\<close> or an object of
  another type, which is only logged. The \<^verbatim>\<open>catch\<close> clause is for
  \<^verbatim>\<open>boost::bad_any_cast\<close>, which the cast after the type test does not throw; any
  other exception leaves the handler, past the publication. The type test and the
  cast are calls into \<^verbatim>\<open>pmt\<close> and \<^verbatim>\<open>boost\<close>, which are not among the sources;
  they are taken to do what the handler uses them for, so that a page reaches
  \<^verbatim>\<open>process_HAS_page\<close> and any other object the \<^verbatim>\<open>else\<close> branch.
\<close>

datatype pmt_msg = HAS_page_msg Galileo_HAS_page | Other_msg

definition publish_to_PVT :: "receiver \<Rightarrow> receiver" where
  "publish_to_PVT s =
     (if d_new_message s then
        s\<lparr>E6_HAS_to_PVT := E6_HAS_to_PVT s @ [d_HAS_data s], d_new_message := False\<rparr>
      else s)"

definition msg_handler_galileo_e6_has :: "rs_decoder \<Rightarrow> mt1_layout \<Rightarrow> pmt_msg \<Rightarrow> receiver \<Rightarrow> receiver outcome" where
  "msg_handler_galileo_e6_has rs L msg s =
     obind (case msg of HAS_page_msg has_page \<Rightarrow> process_HAS_page rs L has_page s
                      | Other_msg \<Rightarrow> Normal s)
           (\<lambda>s1. Normal (publish_to_PVT s1))"

definition set_enable_navdata_monitor :: "bool \<Rightarrow> receiver \<Rightarrow> receiver" where
  "set_enable_navdata_monitor enable s = s\<lparr>d_enable_navdata_monitor := enable\<rparr>"

text \<open>
  The constructor. The initial values of \<^verbatim>\<open>d_new_message\<close> and
  \<^verbatim>\<open>d_enable_navdata_monitor\<close> are set in the class declaration, which is not among
  the sources; they are parameters here.
\<close>

definition empty_mask_cache :: mask_cache where
  "empty_mask_cache = \<lparr>d_nsat_in_mask_id = (\<lambda>m. 0), d_nsys_in_mask = (\<lambda>m. 0),
     d_gnss_id_in_mask = (\<lambda>m i. 0), d_satellite_mask = (\<lambda>m i. 0),
     d_signal_mask = (\<lambda>m i. 0), d_cell_mask_availability_flag = (\<lambda>m i. False),
     d_cell_mask = (\<lambda>m. replicate HAS_MSG_NUMBER_GNSS_IDS
                          (replicate HAS_MSG_NUMBER_SATELLITE_IDS
                             (replicate HAS_MSG_NUMBER_SIGNAL_MASKS False))),
     d_nav_message_mask = (\<lambda>m i. 0)\<rparr>"

definition galileo_e6_has_msg_receiver :: "bool \<Rightarrow> bool \<Rightarrow> receiver" where
  "galileo_e6_has_msg_receiver new_message0 enable0 =
     \<lparr>d_C_matrix = (\<lambda>m. zero_C_slot), d_M_matrix = (\<lambda>row col. 0),
      d_received_pids = (\<lambda>m. []), d_mask = empty_mask_cache,
      d_HAS_data = empty_HAS_data,
      d_nav_msg_packet = \<lparr>system = ''E'', signal = ''E6'', prn = 0,
                            tow_at_current_symbol_ms = 0, nav_message_bits = []\<rparr>,
      d_new_message = new_message0, d_enable_navdata_monitor = enable0,
      E6_HAS_to_PVT = [], Nav_msg_from_TLM = []\<rparr>"

text \<open>
  A run of the receiver over a sequence of messages; it stops at the first call that
  does not return normally.
\<close>

primrec run_handler :: "rs_decoder \<Rightarrow> mt1_layout \<Rightarrow> pmt_msg list \<Rightarrow> receiver \<Rightarrow> receiver outcome" where
  "run_handler rs L [] s = Normal s"
| "run_handler rs L (msg # msgs) s =
     obind (msg_handler_galileo_e6_has rs L msg s) (run_handler rs L msgs)"

text \<open>
  The receiver is driven by message deliveries and by calls of
  \<^verbatim>\<open>set_enable_navdata_monitor\<close>.
\<close>

datatype receiver_call = Deliver pmt_msg | Set_monitor bool

definition do_call :: "rs_decoder \<Rightarrow> mt1_layout \<Rightarrow> receiver_call \<Rightarrow> receiver \<Rightarrow> receiver outcome" where
  "do_call rs L c s =
     (case c of Deliver msg \<Rightarrow> msg_handler_galileo_e6_has rs L msg s
              | Set_monitor enable \<Rightarrow> Normal (set_enable_navdata_monitor enable s))"

definition run_calls :: "rs_decoder \<Rightarrow> mt1_layout \<Rightarrow> receiver_call list \<Rightarrow> receiver \<Rightarrow> receiver outcome" where
  "run_calls rs L calls s = for_each calls (do_call rs L) s"

section \<open>Notions used in the statements\<close>

text \<open>
  What \<^verbatim>\<open>process_HAS_page\<close> stores for a new page whose payload is long enough:
  octet \<open>k\<close> of the row is the value of the characters \<open>8k\<close> to \<open>8k + 7\<close>.
\<close>

definition page_octet :: "string \<Rightarrow> nat \<Rightarrow> u8" where
  "page_octet str k = shift_in 0 (take 8 (drop (k * 8) str))"

definition with_page :: "Galileo_HAS_page \<Rightarrow> receiver \<Rightarrow> receiver" where
  "with_page has_page s =
     (let m = unat (message_id has_page); row = unat (message_page_id has_page) - 1 in
      s\<lparr>d_received_pids := (d_received_pids s)(m := d_received_pids s m @ [message_page_id has_page]),
        d_C_matrix := (d_C_matrix s)(m := (d_C_matrix s m)
           (row := (\<lambda>k. if k < GALILEO_CNAV_OCTETS_IN_SUBPAGE
                        then page_octet (has_message_string has_page) k
                        else d_C_matrix s m row k)))\<rparr>)"

text \<open>
  The call of \<^verbatim>\<open>decode_message_type1\<close> that \<^verbatim>\<open>process_HAS_page\<close> makes for a
  page, with what it returns: \<open>None\<close> when the page does not complete its slot (or
  when the call does not return).
\<close>

definition attempted_decode :: "rs_decoder \<Rightarrow> mt1_layout \<Rightarrow> Galileo_HAS_page \<Rightarrow> receiver \<Rightarrow> (int \<times> receiver) option" where
  "attempted_decode rs L has_page s =
     (case accumulate has_page s of
        Normal s1 \<Rightarrow>
          let m = unat (message_id has_page) in
          if m < HAS_MSG_NUMBER_MESSAGE_IDS
             \<and> length (d_received_pids s1 m) = unat (message_size has_page)
          then (case decode_message_type1 rs L (message_id has_page) (message_size has_page)
                       (s1\<lparr>d_new_message := False\<rparr>) of
                  Normal r \<Rightarrow> Some r
                | _ \<Rightarrow> None)
          else None
      | _ \<Rightarrow> None)"

text \<open>The cached satellite count of the mask id of the record in \<^verbatim>\<open>d_HAS_data\<close>.\<close>

definition cached_Nsat :: "receiver \<Rightarrow> nat" where
  "cached_Nsat s = d_nsat_in_mask_id (d_mask s) (unat (mask_id (header (d_HAS_data s))))"

text \<open>
  A message is a successful decode with a mask when it is a page whose processing
  calls the decoder, the decoder returns 0, and the cached satellite count is not 0.
\<close>

definition decoded_with_mask :: "rs_decoder \<Rightarrow> mt1_layout \<Rightarrow> pmt_msg \<Rightarrow> receiver \<Rightarrow> bool" where
  "decoded_with_mask rs L msg s =
     (case msg of
        Other_msg \<Rightarrow> False
      | HAS_page_msg has_page \<Rightarrow>
          (case attempted_decode rs L has_page s of
             None \<Rightarrow> False
           | Some (res, s3) \<Rightarrow> res = 0 \<and> cached_Nsat s3 \<noteq> 0))"

text \<open>The number of such messages in a run, each judged in the state it arrives in.\<close>

primrec count_decoded_with_mask :: "rs_decoder \<Rightarrow> mt1_layout \<Rightarrow> pmt_msg list \<Rightarrow> receiver \<Rightarrow> nat" where
  "count_decoded_with_mask rs L [] s = 0"
| "count_decoded_with_mask rs L (msg # msgs) s =
     (if decoded_with_mask rs L msg s then 1 else 0)
     + (case msg_handler_galileo_e6_has rs L msg s of
          Normal s' \<Rightarrow> count_decoded_with_mask rs L msgs s'
        | _ \<Rightarrow> 0)"

text \<open>Readers of an outcome.\<close>

definition returned :: "'a outcome \<Rightarrow> 'a option" where
  "returned r = (case r of Normal x \<Rightarrow> Some x | _ \<Rightarrow> None)"

definition escaped :: "'a outcome \<Rightarrow> cxx_exception option" where
  "escaped r = (case r of Raised e x \<Rightarrow> Some e | _ \<Rightarrow> None)"

text \<open>
  A payload as the data model describes it: 424 characters '0' or '1'.
\<close>

definition payload_well_formed :: "string \<Rightarrow> bool" where
  "payload_well_formed str =
     (length str = 424 \<and> list_all (\<lambda>c. c = CHR ''0'' \<or> c = CHR ''1'') str)"

text \<open>
  The header of a monitor packet as the constructor sets it, and the receiver states
  in which the packet member and every published packet carry it.
\<close>

definition constructed_header :: "Nav_Message_Packet \<Rightarrow> bool" where
  "constructed_header pkt =
     (system pkt = ''E'' \<and> signal pkt = ''E6'' \<and> prn pkt = 0 \<and> tow_at_current_symbol_ms pkt = 0)"

definition monitor_invariant :: "receiver \<Rightarrow> bool" where
  "monitor_invariant s =
     (constructed_header (d_nav_msg_packet s) \<and> list_all constructed_header (Nav_msg_from_TLM s))"

section \<open>Worked inputs\<close>

text \<open>
  An instance of the layout for the worked inputs: a 32-bit header with the time of
  hour in bits 1 to 12, the mask id in 13 to 17, the IOD id in 18 to 22 and the seven
  flags in 23 to 29, and 6 reserved bits after the mask.
\<close>

definition example_layout :: mt1_layout where
  "example_layout = \<lparr>GALILEO_CNAV_MT1_HEADER_BITS = 32,
     GALILEO_MT1_HEADER_TOH = (1, 12), GALILEO_MT1_HEADER_MASK_ID = (13, 5),
     GALILEO_MT1_HEADER_IOD_ID = (18, 5), GALILEO_MT1_HEADER_MASK_FLAG = (23, 1),
     GALILEO_MT1_HEADER_ORBIT_CORRECTION_FLAG = (24, 1),
     GALILEO_MT1_HEADER_CLOCK_FULLSET_FLAG = (25, 1),
     GALILEO_MT1_HEADER_CLOCK_SUBSET_FLAG = (26, 1),
     GALILEO_MT1_HEADER_CODE_BIAS_FLAG = (27, 1),
     GALILEO_MT1_HEADER_PHASE_BIAS_FLAG = (28, 1),
     GALILEO_MT1_HEADER_URA_FLAG = (29, 1),
     HAS_MSG_MASK_RESERVED_LENGTH = 6\<rparr>"

text \<open>
  A decoder run that finds every information symbol in place: result 0 and the column
  as it was given.
\<close>

definition rs_keep :: rs_decoder where
  "rs_keep C_column erasure_positions = (0, C_column)"

text \<open>
  A decoder that accepts one list of erasure positions only: handed the list
  \<open>expected\<close> it behaves as \<open>rs_keep\<close>, handed any other list it fails.
\<close>

definition rs_expect :: "int list \<Rightarrow> rs_decoder" where
  "rs_expect expected C_column erasure_positions =
     (if erasure_positions = expected then (0, C_column) else (- 1, C_column))"

text \<open>
  The receiver when the columns of a message of one page (page id 1, message size 1)
  have been decoded by \<open>rs_keep\<close>: the page is stored, row 0 of
  \<^verbatim>\<open>d_M_matrix\<close> holds its octets and every other row is zero.
\<close>

definition single_page_decoded :: "Galileo_HAS_page \<Rightarrow> receiver \<Rightarrow> receiver" where
  "single_page_decoded has_page s =
     (with_page has_page s)\<lparr>d_new_message := False,
        d_M_matrix := (\<lambda>i c. if i = 0 \<and> c < 53
                              then page_octet (has_message_string has_page) c else 0)\<rparr>"

text \<open>
  The same receiver after the message has been published on the monitor port (when
  that is enabled) and its slot reset, before header and body are read.
\<close>

definition after_single_page :: "Galileo_HAS_page \<Rightarrow> receiver \<Rightarrow> receiver" where
  "after_single_page has_page s =
     (let str = has_message_string has_page; m = unat (message_id has_page);
          pkt = (d_nav_msg_packet s)\<lparr>nav_message_bits := str\<rparr>
      in s\<lparr>d_M_matrix := (\<lambda>i c. if i = 0 \<and> c < 53 then page_octet str c else 0),
           d_C_matrix := (d_C_matrix s)(m := zero_C_slot),
           d_received_pids := (d_received_pids s)(m := []),
           d_new_message := False,
           d_nav_msg_packet := (if d_enable_navdata_monitor s then pkt else d_nav_msg_packet s),
           Nav_msg_from_TLM := (if d_enable_navdata_monitor s then Nav_msg_from_TLM s @ [pkt]
                                else Nav_msg_from_TLM s),
           d_HAS_data := empty_HAS_data\<rparr>)"

primrec zeros :: "nat \<Rightarrow> string" where
  "zeros 0 = []"
| "zeros (Suc n) = CHR ''0'' # zeros n"

primrec ones :: "nat \<Rightarrow> string" where
  "ones 0 = []"
| "ones (Suc n) = CHR ''1'' # ones n"

definition page :: "nat \<Rightarrow> nat \<Rightarrow> nat \<Rightarrow> nat \<Rightarrow> string \<Rightarrow> Galileo_HAS_page" where
  "page status mid msize pid bits =
     \<lparr>has_status = of_nat status, message_type = 1, message_id = of_nat mid,
      message_size = of_nat msize, message_page_id = of_nat pid,
      has_message_string = bits @ zeros (424 - length bits)\<rparr>"

definition header_with :: "bool \<Rightarrow> bool \<Rightarrow> bool \<Rightarrow> mt1_header" where
  "header_with f_mask f_orbit f_sub =
     empty_header\<lparr>mask_flag := f_mask, orbit_correction_flag := f_orbit, clock_subset_flag := f_sub\<rparr>"

text \<open>
  A mask block for one system: \<open>Nsys = 1\<close>, the system id in four bits, a satellite
  mask whose first \<open>nsat\<close> bits are set, a signal mask with its first bit set, no cell
  mask (the flag is 0, the \<open>nsat\<close> cell bits are 0), navigation message 0 and the six
  reserved bits.
\<close>

definition one_system_mask :: "string \<Rightarrow> nat \<Rightarrow> string" where
  "one_system_mask gnss nsat =
     ''0001'' @ gnss @ ones nsat @ zeros (40 - nsat) @ ''1'' @ zeros 15
       @ ''0'' @ zeros nsat @ ''000'' @ zeros 6"

text \<open>
  The worked runs start from the constructed receiver with the monitor enabled and
  use the decoder \<open>rs_keep\<close> and the layout \<open>example_layout\<close>.
\<close>

definition init_receiver :: receiver where
  "init_receiver = galileo_e6_has_msg_receiver False True"

definition receiver_after :: "pmt_msg list \<Rightarrow> receiver" where
  "receiver_after msgs =
     (case run_handler rs_keep example_layout msgs init_receiver of
        Normal s \<Rightarrow> s
      | _ \<Rightarrow> init_receiver)"

text \<open>
  Page A is a complete message of one page for message id 0: a header with only the
  mask flag set (time of hour 0, mask id 0) and a mask of one Galileo system with one
  satellite. Page B is a complete message of one page for message id 1 with the same
  header and a mask block that announces 15 systems, more than fit in the page.
\<close>

definition page_A :: Galileo_HAS_page where
  "page_A = page 0 0 1 1 (zeros 22 @ ''1'' @ zeros 9 @ one_system_mask ''0010'' 1)"

definition page_B :: Galileo_HAS_page where
  "page_B = page 0 1 1 1 (zeros 22 @ ''1'' @ zeros 9 @ ''1111'')"

text \<open>
  Two pages of a message of size 5 for message id 0, with page ids 3 and 4, and a
  page with the reserved page id 0 for the same message id that names a message
  size of 2.
\<close>

definition page_3 :: Galileo_HAS_page where
  "page_3 = page 0 0 5 3 []"

definition page_4 :: Galileo_HAS_page where
  "page_4 = page 0 0 5 4 []"

definition page_reserved :: Galileo_HAS_page where
  "page_reserved = page 0 0 2 0 []"

text \<open>A page whose payload has one character only.\<close>

definition page_short :: Galileo_HAS_page where
  "page_short = (page 0 0 1 1 [])\<lparr>has_message_string := ''0''\<rparr>"

text \<open>
  A body with a mask of one Galileo system with two satellites, followed by a clock
  subset block: validity index 0, \<open>Nsysprime = 1\<close>, system id 2, multiplier 0, the
  submask \<open>11\<close> selecting both satellites, and the two deltas 1 and 2.
\<close>

definition body_two_deltas :: string where
  "body_two_deltas = one_system_mask ''0010'' 2 @ ''0000'' @ ''0001'' @ ''0010'' @ ''00'' @ ''11''
      @ ''0000000000001'' @ ''0000000000010''"

text \<open>
  A body with a mask of one system with the reserved system id 1 and one satellite,
  followed by an orbit block: validity index 0 and, with no IOD field, the three
  deltas -1, 1 and 2.
\<close>

definition body_other_system :: string where
  "body_other_system = one_system_mask ''0001'' 1 @ ''0000''
      @ ''1111111111111'' @ ''000000000001'' @ ''000000000010''"

text \<open>
  A body with a mask of two systems, GPS with two satellites (and the two cell bits
  that go with them) and Galileo with none, followed by an orbit block as a sender
  lays it out for two GPS satellites: validity index 0, then for the first satellite
  the 8-bit IOD 1 and three zero deltas, for the second the 8-bit IOD 255, the
  radial delta -2048 and two zero deltas. Two more zeros stand for the padding of
  the page.
\<close>

definition body_gps_two_sats :: string where
  "body_gps_two_sats =
     ''0010'' @ ''0000'' @ ones 2 @ zeros 38 @ ''1'' @ zeros 15 @ ''0'' @ zeros 2 @ ''000''
       @ ''0010'' @ zeros 40 @ ''1'' @ zeros 15 @ ''0'' @ ''000'' @ zeros 6
       @ ''0000''
       @ ''00000001'' @ zeros 13 @ zeros 12 @ zeros 12
       @ ''11111111'' @ ''11'' @ zeros 11 @ zeros 12 @ zeros 12
       @ zeros 2"

text \<open>
  A record with time of hour 3700 that carries a mask for mask id 0 and an orbit
  block, and a later record for the same mask id without a mask.
\<close>

definition header_toh_3700 :: mt1_header where
  "header_toh_3700 = empty_header\<lparr>toh := 3700, mask_flag := True, orbit_correction_flag := True\<rparr>"

definition body_galileo_orbit :: string where
  "body_galileo_orbit = one_system_mask ''0010'' 1 @ ''0000'' @ ''0000000001''
      @ ''1111111111111'' @ ''000000000001'' @ ''000000000010''"

section \<open>The signed reader is two's complement\<close>

lemma dbl_mask: "(v * 2) AND (0xFFFE :: 16 word) = v * 2"
proof -
  have e: "(0xFFFE :: 16 word) = NOT 1" by simp
  show ?thesis unfolding e
    by (rule bit_word_eqI) (auto simp add: bit_simps mult.commute [of v 2] bit_double_iff)
qed

lemma bits_value_acc: "bits_value acc bits = acc * 2 ^ length bits + bits_value 0 bits"
proof (induction bits arbitrary: acc)
  case Nil then show ?case by simp
next
  case (Cons c cs)
  show ?case
    using Cons.IH [of "2 * acc + (if c = CHR ''1'' then 1 else 0)"]
          Cons.IH [of "(if c = CHR ''1'' then 1 else 0)"]
    by (simp add: algebra_simps)
qed

lemma bits_value_Cons:
  "bits_value 0 (c # cs) = (if c = CHR ''1'' then 1 else 0) * 2 ^ length cs + bits_value 0 cs"
  using bits_value_acc [of "(if c = CHR ''1'' then 1 else 0)" cs] by simp

lemma bits_value_bound: "bits_value 0 bits < 2 ^ length bits"
proof (induction bits)
  case Nil then show ?case by simp
next
  case (Cons c cs)
  then show ?case unfolding bits_value_Cons by simp
qed

lemma int16_loop_eq: "int16_loop v bits = v * 2 ^ length bits + of_nat (bits_value 0 bits)"
proof (induction bits arbitrary: v)
  case Nil then show ?case by simp
next
  case (Cons c cs)
  show ?case unfolding bits_value_Cons
    by (simp add: Cons.IH dbl_mask Let_def algebra_simps)
qed

lemma sint16_of_int: "- (2 ^ 15) \<le> x \<Longrightarrow> x < 2 ^ 15 \<Longrightarrow> sint (word_of_int x :: 16 word) = x"
  by (simp add: sint_sbintrunc' signed_take_bit_int_eq_self)

lemma read_int16_twos:
  assumes n: "length bits = n" "0 < n" "n \<le> 16"
  shows "sint (read_has_message_body_int16 bits) = twos_complement n bits"
proof -
  obtain c cs where bits: "bits = c # cs" using n by (cases bits) auto
  let ?u = "bits_value 0 bits"
  have lo: "bits_value 0 cs < 2 ^ (n - 1)" using bits_value_bound [of cs] n bits by auto
  have il: "int (bits_value 0 cs) < 2 ^ (n - 1)" using lo
    by (metis of_nat_less_iff of_nat_numeral of_nat_power)
  have pwi: "(2::int) ^ n = 2 * 2 ^ (n - 1)" using n by (cases n) auto
  have le15: "(2::int) ^ (n - 1) \<le> 2 ^ 15" using n by (intro power_increasing) auto
  have p15: "(2::int) ^ 15 = 32768" by simp
  show ?thesis
  proof (cases "c = CHR ''1''")
    case True
    have u: "?u = 2 ^ (n - 1) + bits_value 0 cs"
      using True n unfolding bits bits_value_Cons by auto
    have m1: "(0 XOR 0xFFFF :: 16 word) = - 1" by simp
    have "read_has_message_body_int16 bits = int16_loop (- 1) bits"
      using True unfolding read_has_message_body_int16_def bits
      by (simp only: m1 Let_def list.case refl if_True)
    then have "read_has_message_body_int16 bits = (- 1) * 2 ^ n + of_nat ?u"
      using n by (simp only: int16_loop_eq)
    also have "\<dots> = (word_of_int (int ?u - 2 ^ n) :: 16 word)"
      by simp
    finally have eq: "read_has_message_body_int16 bits = (word_of_int (int ?u - 2 ^ n) :: 16 word)" .
    have iu: "int ?u = 2 ^ (n - 1) + int (bits_value 0 cs)" unfolding u by simp
    have r1: "- (2 ^ 15) \<le> int ?u - 2 ^ n" using iu pwi le15 il p15 by linarith
    have r2: "int ?u - 2 ^ n < 2 ^ 15" using iu pwi il p15 by linarith
    have "sint (read_has_message_body_int16 bits) = int ?u - 2 ^ n"
      unfolding eq by (rule sint16_of_int [OF r1 r2])
    moreover have "twos_complement n bits = int ?u - 2 ^ n"
      using u by (simp add: twos_complement_def Let_def)
    ultimately show ?thesis by simp
  next
    case False
    have u: "?u = bits_value 0 cs"
      using False n unfolding bits bits_value_Cons by auto
    have "read_has_message_body_int16 bits = (word_of_int (int ?u) :: 16 word)"
      using False n by (simp add: read_has_message_body_int16_def bits int16_loop_eq)
    then have eq: "read_has_message_body_int16 bits = (word_of_int (int ?u) :: 16 word)" .
    have r1: "- (2 ^ 15) \<le> int ?u" by simp
    have r2: "int ?u < 2 ^ 15" using u il le15 p15 by linarith
    have "sint (read_has_message_body_int16 bits) = int ?u"
      unfolding eq by (rule sint16_of_int [OF r1 r2])
    moreover have "twos_complement n bits = int ?u"
      using u lo by (simp add: twos_complement_def Let_def)
    ultimately show ?thesis by simp
  qed
qed

lemma twos_complement_range:
  assumes "length bits = n" "0 < n"
  shows "- (2 ^ (n - 1)) \<le> twos_complement n bits \<and> twos_complement n bits \<le> 2 ^ (n - 1) - 1"
proof -
  have ub: "int (bits_value 0 bits) < 2 ^ n" using bits_value_bound [of bits] assms
    by (metis of_nat_less_iff of_nat_numeral of_nat_power)
  have pwi: "(2::int) ^ n = 2 * 2 ^ (n - 1)" using assms by (cases n) auto
  show ?thesis using ub pwi by (auto simp: twos_complement_def Let_def)
qed

text \<open>
  Claim C9. For the widths 11, 12 and 13 of the body parser and every string of that
  many characters, the value that \<^verbatim>\<open>read_has_message_body_int16\<close> returns, read as a
  signed 16-bit integer, is the two's-complement interpretation of the bits taken
  MSB-first, and it lies between \<open>-2^(n-1)\<close> and \<open>2^(n-1) - 1\<close>. (A character
  other than '1' counts as a 0 bit, in the reader and in the specification's reading
  alike, so the statement needs no restriction to '0' and '1'.)
\<close>

theorem signed_reader_twos_complement:
  assumes "n \<in> {11, 12, 13}" and "length bits = n"
  shows "sint (read_has_message_body_int16 bits) = twos_complement n bits
         \<and> - (2 ^ (n - 1)) \<le> sint (read_has_message_body_int16 bits)
         \<and> sint (read_has_message_body_int16 bits) \<le> 2 ^ (n - 1) - 1"
proof -
  have n: "0 < n" "n \<le> 16" using assms(1) by auto
  have eq: "sint (read_has_message_body_int16 bits) = twos_complement n bits"
    by (rule read_int16_twos [OF assms(2) n])
  show ?thesis
    unfolding eq using twos_complement_range [OF assms(2) n(1)] by simp
qed

theorem signed_reader_twos_complement_witness:
  "(13::nat) \<in> {11, 12, 13} \<and> length ''1111111111110'' = 13
   \<and> sint (read_has_message_body_int16 ''1111111111110'') = - 2
   \<and> twos_complement 13 ''1111111111110'' = - 2"
proof -
  have a: "(13::nat) \<in> {11, 12, 13}" by simp
  have b: "length ''1111111111110'' = 13" by simp
  have t: "twos_complement 13 ''1111111111110'' = - 2"
    by (simp add: twos_complement_def)
  show ?thesis
    using signed_reader_twos_complement [OF a b] a b t by simp
qed

section \<open>Evaluation, frames and closed forms of the loops\<close>

lemma obind_weak_cong: "r = r' \<Longrightarrow> obind r f = obind r' f"
  by simp

lemma upt_numeral_unfold: "[i..<numeral n] = (if i < numeral n then i # [Suc i..<numeral n] else [])"
  by (rule upt_rec)

lemma zeros_numeral: "zeros (numeral k) = CHR ''0'' # zeros (pred_numeral k)"
  by (simp add: numeral_eq_Suc)

lemma ones_numeral: "ones (numeral k) = CHR ''1'' # ones (pred_numeral k)"
  by (simp add: numeral_eq_Suc)

lemmas width_defs =
  HAS_MSG_NSYS_LENGTH_def HAS_MSG_ID_MASK_LENGTH_def HAS_MSG_SATELLITE_MASK_LENGTH_def
  HAS_MSG_SIGNAL_MASK_LENGTH_def HAS_MSG_NAV_MESSAGE_LENGTH_def HAS_MSG_VALIDITY_INDEX_LENGTH_def
  HAS_MSG_IOD_GPS_LENGTH_def HAS_MSG_IOD_GAL_LENGTH_def HAS_MSG_DELTA_RADIAL_LENGTH_def
  HAS_MSG_DELTA_ALONG_TRACK_LENGTH_def HAS_MSG_DELTA_CROSS_TRACK_LENGTH_def
  HAS_MSG_DELTA_CLOCK_C0_MULTIPLIER_LENGTH_def HAS_MSG_DELTA_CLOCK_C0_LENGTH_def
  HAS_MSG_NSYSPRIME_LENGTH_def HAS_MSG_ID_CLOCK_SUBSET_LENGTH_def
  HAS_MSG_DELTA_CLOCK_MULTIPLIER_SUBSET_LENGTH_def HAS_MSG_DELTA_CLOCK_C0_SUBSET_LENGTH_def
  HAS_MSG_CODE_BIAS_LENGTH_def HAS_MSG_PHASE_BIAS_LENGTH_def
  HAS_MSG_PHASE_DISCONTINUITY_INDICATOR_LENGTH_def

lemmas size_defs =
  GALILEO_CNAV_OCTETS_IN_SUBPAGE_def GALILEO_CNAV_MAX_NUMBER_SYMBOLS_ENCODED_BLOCK_def
  GALILEO_CNAV_INFORMATION_VECTOR_LENGTH_def HAS_MSG_NUMBER_MESSAGE_IDS_def
  HAS_MSG_NUMBER_MASK_IDS_def HAS_MSG_NUMBER_GNSS_IDS_def HAS_MSG_NUMBER_SATELLITE_IDS_def
  HAS_MSG_NUMBER_SIGNAL_MASKS_def HAS_MSG_NUMBER_MAX_TOH_def HAS_MSG_GPS_SYSTEM_def
  HAS_MSG_GALILEO_SYSTEM_def

lemmas reader_defs =
  read_has_message_body_uint8_def read_has_message_body_uint16_def
  read_has_message_body_uint64_def read_has_message_body_int16_def

lemmas parser_defs =
  read_MT1_body_def read_mask_block_def read_mask_system_def use_cached_mask_def toh_gate_def
  read_corrections_def guarded_def read_orbit_block_def read_orbit_sat_def
  read_clock_fullset_block_def read_clock_multiplier_def read_clock_sat_def
  read_clock_subset_block_def read_clock_subset_sys_def read_submask_bit_def
  read_subset_delta_def read_code_bias_block_def read_code_bias_cell_def
  read_phase_bias_block_def read_phase_bias_cell_def count_sats_signals_def
  max_signals_of_def cell_present_def ones_in_bitset40_def
  advance_def upd_data_def upd_mask_def the_mask_id_def count_char_def read_cell_mask_def
  char_at_def

lemmas example_defs =
  example_layout_def rs_keep_def zeros_numeral ones_numeral page_def header_with_def
  one_system_mask_def empty_HAS_data_def empty_header_def empty_mask_cache_def
  returned_def escaped_def

lemma obind_Normal_iff:
  "obind r f = Normal y \<longleftrightarrow> (\<exists>x. r = Normal x \<and> f x = Normal y)"
  by (cases r) auto

lemma obind_Raised_iff:
  "obind r f = Raised e y \<longleftrightarrow> (r = Raised e y \<or> (\<exists>x. r = Normal x \<and> f x = Raised e y))"
  by (cases r) auto

lemma for_each_keeps:
  assumes step: "\<And>i s s'. f i s = Normal s' \<Longrightarrow> P s \<Longrightarrow> P s'"
      and stepR: "\<And>i s e s'. f i s = Raised e s' \<Longrightarrow> P s \<Longrightarrow> P s'"
  shows "P s \<Longrightarrow> (for_each xs f s = Normal s' \<longrightarrow> P s') \<and> (for_each xs f s = Raised e s' \<longrightarrow> P s')"
proof (induction xs arbitrary: s)
  case Nil
  then show ?case by auto
next
  case (Cons i xs)
  show ?case
  proof (cases "f i s")
    case (Normal x)
    then have "P x" using step Cons.prems by blast
    then show ?thesis using Cons.IH [of x] Normal by simp
  next
    case (Raised e' x)
    then have "P x" using stepR Cons.prems by blast
    then show ?thesis using Raised by auto
  qed simp_all
qed

lemma uint_lt_succ: "(uint (i :: u8) < uint (m :: u8) + 1) = (unat i < unat m + 1)"
  unfolding uint_nat by linarith

lemma uint_minus1: "uint (i :: u8) - 1 = int (unat i) - 1"
  unfolding uint_nat by simp

lemma erasure_loop_closed:
  assumes "unat msize < 255"
  shows "unat i \<le> unat msize + 1 \<Longrightarrow>
         erasure_loop i msize pids acc =
           Some (acc @ map (\<lambda>k. int k - 1) (filter (\<lambda>k. (of_nat k :: u8) \<notin> set pids) [unat i..<unat msize + 1]))"
proof (induction "unat msize + 1 - unat i" arbitrary: i acc)
  case 0
  then have e: "unat i = unat msize + 1" by simp
  have "\<not> uint i < uint msize + 1"
    using e uint_lt_succ [of i msize] by simp
  then show ?case using e by (subst erasure_loop.simps) simp
next
  case (Suc n)
  then have lt: "unat i < unat msize + 1" by simp
  then have c: "uint i < uint msize + 1" by (simp only: uint_lt_succ)
  have i1: "unat (i + 1) = unat i + 1"
    using lt assms by (simp add: unat_word_ariths)
  have n: "n = unat msize + 1 - unat (i + 1)" using Suc.hyps(2) i1 by simp
  have le: "unat (i + 1) \<le> unat msize + 1" using lt i1 by simp
  have up: "[unat i..<unat msize + 1] = unat i # [unat (i + 1)..<unat msize + 1]"
    using lt i1 by (simp add: upt_conv_Cons)
  have oi: "(of_nat (unat i) :: u8) = i" by simp
  show ?case
    apply (subst erasure_loop.simps)
    apply (simp only: c if_True Suc.hyps(1) [OF n le] up)
    apply (simp only: uint_minus1)
    apply (simp add: oi)
    done
qed

lemma erasure_positions_of_spec:
  assumes "unat msize < 255"
  shows "erasure_positions_of msize pids = Some (spec_erasure_positions (unat msize) pids)"
proof -
  have "erasure_loop 1 msize pids [] =
          Some (map (\<lambda>k. int k - 1) (filter (\<lambda>k. (of_nat k :: u8) \<notin> set pids) [1..<unat msize + 1]))"
    using erasure_loop_closed [OF assms, of 1 pids "[]"] by simp
  then show ?thesis
    by (simp add: erasure_positions_of_def spec_erasure_positions_def parity_erasures_def
          del: upt_rec_numeral)
qed

lemma set_spec_erasure_positions:
  "set (spec_erasure_positions n pids) =
     (\<lambda>pid. int pid - 1) ` (({1..n} \<union> {33..255}) - {pid. (of_nat pid :: u8) \<in> set pids})"
proof -
  have "set ([1..<n + 1] @ [33..<256]) = {1..n} \<union> {33..255}"
    unfolding set_append set_upt by auto
  then show ?thesis
    unfolding spec_erasure_positions_def set_map set_filter by blast
qed

lemma decode_message_type1_split:
  assumes "unat mid < 32" "unat msize < 255"
  shows "decode_message_type1 rs L mid msize s =
     (let E = spec_erasure_positions (unat msize) (d_received_pids s (unat mid)) in
      if length E > 223 then Normal (- 1, reset_slot (unat mid) s)
      else reconstruct_and_parse rs L (unat mid) msize E s)"
  using assms
  by (simp add: decode_message_type1_def erasure_positions_of_spec HAS_MSG_NUMBER_MESSAGE_IDS_def Let_def)

lemma store_octet_frame:
  "store_octet str m row k s = Normal s' \<or> store_octet str m row k s = Raised e s'
     \<Longrightarrow> \<exists>C'. s' = s\<lparr>d_C_matrix := C'\<rparr>"
  by (auto simp: store_octet_def Let_def split: if_splits intro: exI [of _ "d_C_matrix s"])

lemma store_loop_frame:
  assumes "for_each ks (store_octet str m row) s = Normal s'
           \<or> for_each ks (store_octet str m row) s = Raised e s'"
  shows "\<exists>C'. s' = s\<lparr>d_C_matrix := C'\<rparr>"
proof -
  let ?P = "\<lambda>x. \<exists>C'. x = s\<lparr>d_C_matrix := C'\<rparr>"
  have P0: "?P s" by (rule exI [of _ "d_C_matrix s"]) simp
  have "(for_each ks (store_octet str m row) s = Normal s' \<longrightarrow> ?P s')
        \<and> (for_each ks (store_octet str m row) s = Raised e s' \<longrightarrow> ?P s')"
  proof (rule for_each_keeps [where P = ?P, OF _ _ P0])
    fix i x x' assume "store_octet str m row i x = Normal x'" "?P x"
    then show "?P x'" using store_octet_frame [of str m row i x x'] by force
  next
    fix i x e' x' assume "store_octet str m row i x = Raised e' x'" "?P x"
    then show "?P x'" using store_octet_frame [of str m row i x x' e'] by force
  qed
  then show ?thesis using assms by blast
qed

lemma accumulate_frame:
  assumes "accumulate p s = Normal s' \<or> accumulate p s = Raised e s'"
  shows "\<exists>P' C'. s' = s\<lparr>d_received_pids := P', d_C_matrix := C'\<rparr>"
proof (cases "accepted p s")
  case False
  then have "s' = s" using assms by (simp add: accumulate_def)
  then show ?thesis
    by (intro exI [of _ "d_received_pids s"] exI [of _ "d_C_matrix s"]) simp
next
  case True
  let ?m = "unat (message_id p)"
  let ?s1 = "s\<lparr>d_received_pids := (d_received_pids s)(?m := d_received_pids s ?m @ [message_page_id p])\<rparr>"
  have "for_each [0..<GALILEO_CNAV_OCTETS_IN_SUBPAGE]
           (store_octet (has_message_string p) ?m (unat (message_page_id p) - 1)) ?s1 = Normal s'
        \<or> for_each [0..<GALILEO_CNAV_OCTETS_IN_SUBPAGE]
           (store_octet (has_message_string p) ?m (unat (message_page_id p) - 1)) ?s1 = Raised e s'"
    using assms True by (simp add: accumulate_def Let_def)
  from store_loop_frame [OF this] obtain C' where "s' = ?s1\<lparr>d_C_matrix := C'\<rparr>" ..
  then show ?thesis by (intro exI [of _ "d_received_pids ?s1"] exI [of _ C']) simp
qed

lemma decode_columns_frame:
  "decode_columns rs m E cols s = Some (ok, s') \<Longrightarrow> \<exists>M'. s' = s\<lparr>d_M_matrix := M'\<rparr>"
proof (induction cols arbitrary: s)
  case Nil
  then show ?case by (auto intro: exI [of _ "d_M_matrix s"])
next
  case (Cons col cols)
  show ?case
  proof (cases "fill_column (d_C_matrix s m) col (d_received_pids s m)
             (replicate GALILEO_CNAV_MAX_NUMBER_SYMBOLS_ENCODED_BLOCK 0)")
    case None
    then show ?thesis using Cons.prems by simp
  next
    case (Some C_column)
    obtain result C_decoded where r: "rs C_column E = (result, C_decoded)" by (cases "rs C_column E")
    show ?thesis
    proof (cases "result < 0")
      case True
      then have "s' = s" using Cons.prems Some r by simp
      then show ?thesis by (auto intro: exI [of _ "d_M_matrix s"])
    next
      case False
      let ?s1 = "s\<lparr>d_M_matrix := (\<lambda>i. if i < GALILEO_CNAV_INFORMATION_VECTOR_LENGTH
                                              then (d_M_matrix s i)(col := C_decoded ! i)
                                              else d_M_matrix s i)\<rparr>"
      have "decode_columns rs m E cols ?s1 = Some (ok, s')"
        using Cons.prems Some r False by (simp split: if_splits)
      from Cons.IH [OF this] obtain M' where "s' = ?s1\<lparr>d_M_matrix := M'\<rparr>" ..
      then show ?thesis by (intro exI [of _ M']) simp
    qed
  qed
qed

text \<open>What the second part of the decoder leaves of the receiver.\<close>

lemma reconstruct_and_parse_frame:
  assumes "reconstruct_and_parse rs L m msize E s = Normal (r, s')"
  shows "E6_HAS_to_PVT s' = E6_HAS_to_PVT s \<and> d_new_message s' = d_new_message s
         \<and> d_enable_navdata_monitor s' = d_enable_navdata_monitor s"
proof -
  obtain ok s2 where dc: "decode_columns rs m E [0..<GALILEO_CNAV_OCTETS_IN_SUBPAGE]
      (s\<lparr>d_M_matrix := (\<lambda>row col. 0)\<rparr>) = Some (ok, s2)"
    using assms by (auto simp: reconstruct_and_parse_def Let_def split: option.splits)
  from decode_columns_frame [OF dc] obtain M' where s2: "s2 = s\<lparr>d_M_matrix := M'\<rparr>" by auto
  show ?thesis
    using assms unfolding reconstruct_and_parse_def publish_and_parse_def Let_def dc
    by (auto simp: s2 reset_slot_def split: option.splits outcome.splits if_splits bool.splits)
qed

lemma decode_message_type1_frame:
  assumes "decode_message_type1 rs L mid msize s = Normal (r, s')"
  shows "E6_HAS_to_PVT s' = E6_HAS_to_PVT s \<and> d_new_message s' = d_new_message s
         \<and> d_enable_navdata_monitor s' = d_enable_navdata_monitor s"
  using assms reconstruct_and_parse_frame [of rs L "unat mid" msize _ s r s']
  by (auto simp: decode_message_type1_def Let_def reset_slot_def split: option.splits if_splits)

lemma decode_message_type1_never_raises:
  "decode_message_type1 rs L mid msize s \<noteq> Raised e x"
  by (auto simp: decode_message_type1_def reconstruct_and_parse_def publish_and_parse_def Let_def
           split: option.splits outcome.splits if_splits bool.splits prod.splits)

lemma process_HAS_page_result:
  assumes "process_HAS_page rs L p s = Normal s'"
  shows "E6_HAS_to_PVT s' = E6_HAS_to_PVT s
         \<and> d_new_message s' = decoded_with_mask rs L (HAS_page_msg p) s"
proof -
  obtain s1 where acc: "accumulate p s = Normal s1"
    using assms by (auto simp: process_HAS_page_def obind_Normal_iff)
  from accumulate_frame [of p s s1] acc
  have e1: "E6_HAS_to_PVT s1 = E6_HAS_to_PVT s" by auto
  let ?s2 = "s1\<lparr>d_new_message := False\<rparr>"
  let ?m = "unat (message_id p)"
  have m: "?m < HAS_MSG_NUMBER_MESSAGE_IDS"
    using assms acc by (auto simp: process_HAS_page_def Let_def split: if_splits)
  show ?thesis
  proof (cases "length (d_received_pids s1 ?m) = unat (message_size p)")
    case False
    then have "s' = ?s2" using assms acc m by (simp add: process_HAS_page_def Let_def)
    moreover have "attempted_decode rs L p s = None"
      using acc False by (simp add: attempted_decode_def Let_def)
    ultimately show ?thesis using e1 by (simp add: decoded_with_mask_def)
  next
    case True
    then obtain res s3 where
      dec: "decode_message_type1 rs L (message_id p) (message_size p) ?s2 = Normal (res, s3)"
      and s': "s' = (if res = 0 \<and> d_nsat_in_mask_id (d_mask s3) (unat (mask_id (header (d_HAS_data s3)))) \<noteq> 0
                     then s3\<lparr>d_new_message := True\<rparr> else s3)"
      using assms acc m
      by (auto simp: process_HAS_page_def Let_def split: outcome.splits prod.splits if_splits)
    from decode_message_type1_frame [OF dec]
    have f: "E6_HAS_to_PVT s3 = E6_HAS_to_PVT s1" "d_new_message s3 = False" by auto
    have ad: "attempted_decode rs L p s = Some (res, s3)"
      using acc True m dec by (simp add: attempted_decode_def Let_def)
    show ?thesis
      using s' f e1 ad by (auto simp: decoded_with_mask_def cached_Nsat_def)
  qed
qed

lemma process_HAS_page_raised:
  assumes "process_HAS_page rs L p s = Raised e s'"
  shows "E6_HAS_to_PVT s' = E6_HAS_to_PVT s"
proof -
  have "accumulate p s = Raised e s'"
    using assms decode_message_type1_never_raises
    by (auto simp: process_HAS_page_def obind_Raised_iff Let_def
             split: if_splits outcome.splits prod.splits)
  from accumulate_frame [of p s s' e] this show ?thesis by auto
qed

text \<open>One call of the handler for a page.\<close>

lemma handler_page_publishes:
  assumes "msg_handler_galileo_e6_has rs L (HAS_page_msg p) s = Normal s'"
  shows "E6_HAS_to_PVT s' = E6_HAS_to_PVT s
           @ (if decoded_with_mask rs L (HAS_page_msg p) s then [d_HAS_data s'] else [])
         \<and> \<not> d_new_message s'"
proof -
  obtain s1 where p: "process_HAS_page rs L p s = Normal s1" and s': "s' = publish_to_PVT s1"
    using assms by (auto simp: msg_handler_galileo_e6_has_def obind_Normal_iff)
  from process_HAS_page_result [OF p] show ?thesis
    unfolding s' by (auto simp: publish_to_PVT_def)
qed

lemma handler_page_raised:
  assumes "msg_handler_galileo_e6_has rs L (HAS_page_msg p) s = Raised e s'"
  shows "E6_HAS_to_PVT s' = E6_HAS_to_PVT s"
  using assms process_HAS_page_raised [of rs L p s e s']
  by (auto simp: msg_handler_galileo_e6_has_def obind_Raised_iff)

lemma run_pages_count:
  "run_handler rs L (map HAS_page_msg pages) s = Normal s' \<Longrightarrow>
   length (E6_HAS_to_PVT s') = length (E6_HAS_to_PVT s)
      + count_decoded_with_mask rs L (map HAS_page_msg pages) s"
proof (induction pages arbitrary: s)
  case Nil
  then show ?case by simp
next
  case (Cons p pages)
  from Cons.prems obtain s1 where
    h: "msg_handler_galileo_e6_has rs L (HAS_page_msg p) s = Normal s1"
    and r: "run_handler rs L (map HAS_page_msg pages) s1 = Normal s'"
    by (auto simp: obind_Normal_iff)
  from handler_page_publishes [OF h] Cons.IH [OF r] h
  show ?case by simp
qed

lemma fill_column_Some:
  "0 \<notin> set pids \<Longrightarrow> fill_column C col pids v \<noteq> None \<and> length (the (fill_column C col pids v)) = length v"
  by (induction pids arbitrary: v) auto

lemma decode_columns_keep:
  "k \<le> n \<Longrightarrow> 0 \<notin> set (d_received_pids s m) \<Longrightarrow> decode_columns rs_keep m E [k..<n] s =
     Some (True, s\<lparr>d_M_matrix := (\<lambda>i c.
        if i < 32 \<and> k \<le> c \<and> c < n
        then the (fill_column (d_C_matrix s m) c (d_received_pids s m) (replicate 255 0)) ! i
        else d_M_matrix s i c)\<rparr>)"
proof (induction "n - k" arbitrary: k s rule: less_induct)
  case less
  show ?case
  proof (cases "k = n")
    case True
    have "(\<lambda>i c. if i < 32 \<and> n \<le> c \<and> c < n
        then the (fill_column (d_C_matrix s m) c (d_received_pids s m) (replicate 255 0)) ! i
        else d_M_matrix s i c) = d_M_matrix s"
      by (auto simp: fun_eq_iff)
    then show ?thesis using True by simp
  next
    case False
    then have kn: "k < n" using less.prems(1) by simp
    let ?col = "fill_column (d_C_matrix s m) k (d_received_pids s m) (replicate 255 0)"
    from fill_column_Some [OF less.prems(2), of "d_C_matrix s m" k "replicate 255 0"]
    obtain cv where cv: "?col = Some cv" and len: "length cv = 255" by auto
    let ?s1 = "s\<lparr>d_M_matrix := (\<lambda>i. if i < GALILEO_CNAV_INFORMATION_VECTOR_LENGTH
                                   then (d_M_matrix s i)(k := cv ! i) else d_M_matrix s i)\<rparr>"
    have step: "decode_columns rs_keep m E [k..<n] s = decode_columns rs_keep m E [Suc k..<n] ?s1"
      using kn cv len
      by (simp add: upt_conv_Cons rs_keep_def size_defs del: upt_Suc)
    have pids1: "0 \<notin> set (d_received_pids ?s1 m)" using less.prems(2) by simp
    have ih: "decode_columns rs_keep m E [Suc k..<n] ?s1 =
       Some (True, ?s1\<lparr>d_M_matrix := (\<lambda>i c.
        if i < 32 \<and> Suc k \<le> c \<and> c < n
        then the (fill_column (d_C_matrix ?s1 m) c (d_received_pids ?s1 m) (replicate 255 0)) ! i
        else d_M_matrix ?s1 i c)\<rparr>)"
      by (rule less.hyps [of "Suc k" ?s1]) (use kn pids1 in auto)
    let ?F = "(\<lambda>i c.
        if i < 32 \<and> Suc k \<le> c \<and> c < n
        then the (fill_column (d_C_matrix ?s1 m) c (d_received_pids ?s1 m) (replicate 255 0)) ! i
        else d_M_matrix ?s1 i c)"
    let ?G = "(\<lambda>i c.
        if i < 32 \<and> k \<le> c \<and> c < n
        then the (fill_column (d_C_matrix s m) c (d_received_pids s m) (replicate 255 0)) ! i
        else d_M_matrix s i c)"
    have fe: "?F = ?G"
      using cv kn by (auto simp: fun_eq_iff le_Suc_eq size_defs)
    have "?s1\<lparr>d_M_matrix := ?F\<rparr> = s\<lparr>d_M_matrix := ?F\<rparr>" by simp
    also have "\<dots> = s\<lparr>d_M_matrix := ?G\<rparr>" by (simp only: fe)
    finally have "?s1\<lparr>d_M_matrix := ?F\<rparr> = s\<lparr>d_M_matrix := ?G\<rparr>" .
    then show ?thesis
      unfolding step ih by (simp only:)
  qed
qed

lemma for_each_append: "for_each (xs @ ys) f s = obind (for_each xs f s) (for_each ys f)"
proof (induction xs arbitrary: s)
  case Nil
  then show ?case by simp
next
  case (Cons x xs)
  then show ?case by (cases "f x s") simp_all
qed

lemma obind_Normal_right: "obind r Normal = r"
  by (cases r) simp_all

lemma for_each_Nil_fun: "for_each [] f = Normal"
  by (rule ext) simp

lemma store_loop_closed:
  assumes ok: "\<And>k. k < n \<Longrightarrow> k * 8 \<le> length str
                 \<and> list_all (\<lambda>c. c = CHR ''0'' \<or> c = CHR ''1'') (take 8 (drop (k * 8) str))"
  shows "for_each [0..<n] (store_octet str m row) s =
     Normal (s\<lparr>d_C_matrix := (d_C_matrix s)(m := (d_C_matrix s m)
        (row := (\<lambda>k. if k < n then page_octet str k else d_C_matrix s m row k)))\<rparr>)"
  using ok
proof (induction n)
  case 0
  have "(d_C_matrix s)(m := (d_C_matrix s m)(row := (\<lambda>k. d_C_matrix s m row k))) = d_C_matrix s"
    by (simp add: fun_eq_iff)
  then show ?case by simp
next
  case (Suc n)
  have ih: "for_each [0..<n] (store_octet str m row) s =
     Normal (s\<lparr>d_C_matrix := (d_C_matrix s)(m := (d_C_matrix s m)
        (row := (\<lambda>k. if k < n then page_octet str k else d_C_matrix s m row k)))\<rparr>)"
  proof (rule Suc.IH)
    fix k assume "k < n"
    then show "k * 8 \<le> length str
                 \<and> list_all (\<lambda>c. c = CHR ''0'' \<or> c = CHR ''1'') (take 8 (drop (k * 8) str))"
      using Suc.prems [of k] by simp
  qed
  have okn: "n * 8 \<le> length str"
       "list_all (\<lambda>c. c = CHR ''0'' \<or> c = CHR ''1'') (take 8 (drop (n * 8) str))"
    using Suc.prems [of n] by auto
  have fe: "(\<lambda>k. if k < n then page_octet str k else d_C_matrix s m row k)(n := page_octet str n)
          = (\<lambda>k. if k < Suc n then page_octet str k else d_C_matrix s m row k)"
    by (auto simp: fun_eq_iff)
  let ?s1 = "s\<lparr>d_C_matrix := (d_C_matrix s)(m := (d_C_matrix s m)
        (row := (\<lambda>k. if k < n then page_octet str k else d_C_matrix s m row k)))\<rparr>"
  have "for_each [0..<Suc n] (store_octet str m row) s
          = obind (for_each [0..<n] (store_octet str m row) s) (for_each [n] (store_octet str m row))"
    by (simp only: upt_Suc_append [OF le0] for_each_append)
  also have "\<dots> = store_octet str m row n ?s1"
    by (simp only: ih obind.simps for_each.simps for_each_Nil_fun obind_Normal_right)
  also have "store_octet str m row n ?s1 = Normal (?s1\<lparr>d_C_matrix := (d_C_matrix ?s1)
               (m := (d_C_matrix ?s1 m)(row := (d_C_matrix ?s1 m row)(n := page_octet str n)))\<rparr>)"
    using okn by (simp only: store_octet_def page_octet_def Let_def) simp
  also have "\<dots> = Normal (s\<lparr>d_C_matrix := (d_C_matrix s)(m := (d_C_matrix s m)
        (row := (\<lambda>k. if k < Suc n then page_octet str k else d_C_matrix s m row k)))\<rparr>)"
    by (simp add: fe)
  finally show ?case .
qed

lemma list_all_take_drop:
  "list_all P xs \<Longrightarrow> list_all P (take a (drop b xs))"
  by (simp add: list_all_iff) (meson in_set_dropD in_set_takeD)

lemma accumulate_well_formed:
  assumes "accepted p s" "length (has_message_string p) = 424"
      "list_all (\<lambda>c. c = CHR ''0'' \<or> c = CHR ''1'') (has_message_string p)"
  shows "accumulate p s = Normal (with_page p s)"
proof -
  have ok: "\<And>k. k < GALILEO_CNAV_OCTETS_IN_SUBPAGE \<Longrightarrow> k * 8 \<le> length (has_message_string p)
        \<and> list_all (\<lambda>c. c = CHR ''0'' \<or> c = CHR ''1'') (take 8 (drop (k * 8) (has_message_string p)))"
    using assms(2) list_all_take_drop [OF assms(3)] by (simp add: size_defs)
  show ?thesis
    using assms(1)
    by (simp only: accumulate_def Let_def if_True store_loop_closed [OF ok] with_page_def)
       (simp cong: if_cong)
qed

lemma reconstruct_keep:
  assumes "0 \<notin> set (d_received_pids s m)"
  shows "reconstruct_and_parse rs_keep L m msize E s =
     publish_and_parse L m msize (s\<lparr>d_M_matrix := (\<lambda>i c.
        if i < 32 \<and> c < 53
        then the (fill_column (d_C_matrix s m) c (d_received_pids s m) (replicate 255 0)) ! i
        else 0)\<rparr>)"
proof -
  let ?s1 = "s\<lparr>d_M_matrix := (\<lambda>row col. 0)\<rparr>"
  have p: "0 \<notin> set (d_received_pids ?s1 m)" using assms by simp
  have "decode_columns rs_keep m E [0..<53] ?s1 =
     Some (True, ?s1\<lparr>d_M_matrix := (\<lambda>i c.
        if i < 32 \<and> 0 \<le> c \<and> c < 53
        then the (fill_column (d_C_matrix ?s1 m) c (d_received_pids ?s1 m) (replicate 255 0)) ! i
        else d_M_matrix ?s1 i c)\<rparr>)"
    by (rule decode_columns_keep [OF _ p]) simp
  then show ?thesis
    by (simp add: reconstruct_and_parse_def GALILEO_CNAV_OCTETS_IN_SUBPAGE_def del: upt_rec_numeral cong: if_cong)
qed

lemmas header_defs =
  read_MT1_header_def read_has_message_header_parameter_uint16_def
  read_has_message_header_parameter_uint8_def read_has_message_header_parameter_bool_def
  header_bit_def bitset_of_string_def

lemmas handler_defs =
  msg_handler_galileo_e6_has_def process_HAS_page_def publish_to_PVT_def accepted_def
  with_page_def page_octet_def publish_and_parse_def message_of_rows_def octet_to_string_def
  reset_slot_def spec_erasure_positions_def galileo_e6_has_msg_receiver_def

lemma bit_shift_step:
  fixes v :: "'a::len word"
  shows "bit (if c = CHR ''1'' then push_bit 1 v + 1 else push_bit 1 v) j
         \<longleftrightarrow> j < LENGTH('a) \<and> (if j = 0 then c = CHR ''1'' else bit v (j - 1))"
proof -
  have ev: "even (v * 2)" by simp
  have pb: "bit (v * 2) j \<longleftrightarrow> j < LENGTH('a) \<and> 1 \<le> j \<and> bit v (j - 1)"
    by (auto simp: mult.commute [of v 2] bit_double_iff possible_bit_word
             dest: bit_imp_le_length)
  have s: "bit (v * 2 + 1) j \<longleftrightarrow> j = 0 \<or> bit (v * 2) j"
    using even_bit_succ_iff [OF ev, of j] by (auto simp: add.commute)
  have e: "push_bit 1 v = v * 2" by (simp add: push_bit_eq_mult)
  show ?thesis
    unfolding e by (cases "c = CHR ''1''") (auto simp: s pb)
qed

lemma bit_shift_in:
  fixes v :: "'a::len word"
  shows "bit (shift_in v bs) k \<longleftrightarrow>
     k < LENGTH('a) \<and> (if k < length bs then bs ! (length bs - 1 - k) = CHR ''1''
                        else bit v (k - length bs))"
proof (induction bs arbitrary: v)
  case Nil
  then show ?case by (auto simp: bit_imp_le_length)
next
  case (Cons c cs)
  let ?v' = "if c = CHR ''1'' then push_bit 1 v + 1 else push_bit 1 v"
  have sh: "shift_in v (c # cs) = shift_in ?v' cs" by (simp add: Let_def)
  show ?case
  proof (cases "k < length cs")
    case True
    then have "(c # cs) ! (length (c # cs) - 1 - k) = cs ! (length cs - 1 - k)"
      by (simp add: nth_Cons' diff_commute)
    then show ?thesis unfolding sh Cons.IH using True by simp
  next
    case False
    show ?thesis
    proof (cases "k = length cs")
      case True
      then show ?thesis unfolding sh Cons.IH bit_shift_step by auto
    next
      case False
      then have gt: "k > length cs" using \<open>\<not> k < length cs\<close> by simp
      then have "k - length cs - 1 = k - length (c # cs)" by simp
      then show ?thesis unfolding sh Cons.IH bit_shift_step using gt by auto
    qed
  qed
qed

lemma octet_roundtrip:
  assumes "length bs = 8" "list_all (\<lambda>c. c = CHR ''0'' \<or> c = CHR ''1'') bs"
  shows "octet_to_string (shift_in 0 bs :: u8) = bs"
proof (rule nth_equalityI)
  show "length (octet_to_string (shift_in 0 bs :: u8)) = length bs"
    using assms by (simp add: octet_to_string_def)
next
  fix i assume "i < length (octet_to_string (shift_in 0 bs :: u8))"
  then have i: "i < 8" by (simp add: octet_to_string_def)
  have r: "rev [0..<8] ! i = 7 - i" using i by (simp add: rev_nth)
  have b: "bs ! i = CHR ''0'' \<or> bs ! i = CHR ''1''"
    using assms i by (simp add: list_all_length)
  have "octet_to_string (shift_in 0 bs :: u8) ! i
        = (if bit (shift_in 0 bs :: u8) (7 - i) then CHR ''1'' else CHR ''0'')"
    using i r by (simp add: octet_to_string_def del: upt_rec_numeral rev.simps)
  also have "\<dots> = (if bs ! i = CHR ''1'' then CHR ''1'' else CHR ''0'')"
    using i assms(1) by (simp add: bit_shift_in)
  also have "\<dots> = bs ! i" using b by auto
  finally show "octet_to_string (shift_in 0 bs :: u8) ! i = bs ! i" .
qed

lemma concat_chunks:
  "n * 8 \<le> length str \<Longrightarrow> concat (map (\<lambda>k. take 8 (drop (k * 8) str)) [0..<n]) = take (n * 8) str"
proof (induction n)
  case 0
  then show ?case by simp
next
  case (Suc n)
  have e: "Suc n * 8 = n * 8 + 8" by simp
  have "take (Suc n * 8) str = take (n * 8) str @ take 8 (drop (n * 8) str)"
    unfolding e by (rule take_add)
  moreover have "concat (map (\<lambda>k. take 8 (drop (k * 8) str)) [0..<n]) = take (n * 8) str"
    using Suc by simp
  ultimately show ?case by (simp del: mult_Suc)
qed

lemma length_erasures_single: "length (spec_erasure_positions 1 [1]) = 223"
  by (simp add: spec_erasure_positions_def upt_numeral_unfold)

lemma message_of_single_row:
  assumes len: "length str = 424"
      and bin: "list_all (\<lambda>c. c = CHR ''0'' \<or> c = CHR ''1'') str"
  shows "message_of_rows (\<lambda>i c. if i = 0 \<and> c < 53 then page_octet str c else 0) 1 = str"
proof -
  have oct: "\<And>c. c \<in> set [0..<53] \<Longrightarrow>
      octet_to_string (if (0::nat) = 0 \<and> c < 53 then page_octet str c else 0) = take 8 (drop (c * 8) str)"
  proof -
    fix c :: nat assume "c \<in> set [0..<53]"
    then have c: "c < 53" by (simp del: upt_rec_numeral)
    have l8: "length (take 8 (drop (c * 8) str)) = 8" using c len by simp
    have b8: "list_all (\<lambda>c. c = CHR ''0'' \<or> c = CHR ''1'') (take 8 (drop (c * 8) str))"
      by (rule list_all_take_drop [OF bin])
    show "octet_to_string (if (0::nat) = 0 \<and> c < 53 then page_octet str c else 0)
            = take 8 (drop (c * 8) str)"
      using c octet_roundtrip [OF l8 b8] by (simp add: page_octet_def)
  qed
  have "message_of_rows (\<lambda>i c. if i = 0 \<and> c < 53 then page_octet str c else 0) 1
        = concat (map (\<lambda>col. octet_to_string (if (0::nat) = 0 \<and> col < 53 then page_octet str col else 0)) [0..<53])"
    by (simp add: message_of_rows_def GALILEO_CNAV_OCTETS_IN_SUBPAGE_def del: upt_rec_numeral)
  also have "\<dots> = concat (map (\<lambda>col. take 8 (drop (col * 8) str)) [0..<53])"
    using oct by (simp only: map_cong [OF refl oct])
  also have "\<dots> = take (53 * 8) str"
    by (rule concat_chunks) (simp add: len)
  also have "\<dots> = str" using len by simp
  finally show ?thesis .
qed

text \<open>A message of one page through the decoder that keeps the column.\<close>

lemma decode_single_page:
  assumes p: "message_page_id p = 1" "message_size p = 1" "unat (message_id p) < 32"
      and len: "length (has_message_string p) = 424"
      and bin: "list_all (\<lambda>c. c = CHR ''0'' \<or> c = CHR ''1'') (has_message_string p)"
      and slot: "d_received_pids s (unat (message_id p)) = []"
  shows "decode_message_type1 rs_keep L (message_id p) (message_size p)
           ((with_page p s)\<lparr>d_new_message := False\<rparr>) =
     (case read_MT1_header L (take (GALILEO_CNAV_MT1_HEADER_BITS L) (has_message_string p)) of
        None \<Rightarrow> Undefined
      | Some h \<Rightarrow>
          let s5 = (after_single_page p s)\<lparr>d_HAS_data := empty_HAS_data\<lparr>header := h\<rparr>\<rparr> in
          if GALILEO_CNAV_MT1_HEADER_BITS L > 424 then Normal (- 1, s5)
          else
            (case read_MT1_body L (drop (GALILEO_CNAV_MT1_HEADER_BITS L) (has_message_string p))
                    (empty_HAS_data\<lparr>header := h\<rparr>) (d_mask s) of
               Normal st \<Rightarrow> Normal (0, s5\<lparr>d_HAS_data := hd_data st, d_mask := hd_mask st\<rparr>)
             | Raised e st \<Rightarrow> Normal (- 1, s5\<lparr>d_HAS_data := hd_data st, d_mask := hd_mask st\<rparr>)
             | Undefined \<Rightarrow> Undefined
             | No_return \<Rightarrow> No_return))"
proof -
  let ?m = "unat (message_id p)"
  let ?str = "has_message_string p"
  let ?s2 = "(with_page p s)\<lparr>d_new_message := False\<rparr>"
  have pids2: "d_received_pids ?s2 ?m = [1]"
    using slot p(1) by (simp add: with_page_def Let_def)
  have C2: "\<And>c. c < 53 \<Longrightarrow> d_C_matrix ?s2 ?m 0 c = page_octet ?str c"
    using p(1) by (simp add: with_page_def Let_def GALILEO_CNAV_OCTETS_IN_SUBPAGE_def)
  have ms: "unat (message_size p) < 255" "unat (message_size p) = 1" using p(2) by simp_all
  have E: "length (spec_erasure_positions (unat (message_size p)) (d_received_pids ?s2 ?m)) = 223"
    unfolding pids2 ms(2) by (rule length_erasures_single)
  have nz: "0 \<notin> set (d_received_pids ?s2 ?m)" unfolding pids2 by simp
  let ?M = "(\<lambda>i c. if i < 32 \<and> c < 53
        then the (fill_column (d_C_matrix ?s2 ?m) c (d_received_pids ?s2 ?m) (replicate 255 0)) ! i
        else 0)"
  have M: "?M = (\<lambda>i c. if i = 0 \<and> c < 53 then page_octet ?str c else 0)"
  proof (intro ext)
    fix i c :: nat
    show "?M i c = (if i = 0 \<and> c < 53 then page_octet ?str c else 0)"
      unfolding pids2 using C2 [of c] by (auto simp: nth_list_update)
  qed
  have d1: "decode_message_type1 rs_keep L (message_id p) (message_size p) ?s2
        = publish_and_parse L ?m (message_size p) (?s2\<lparr>d_M_matrix := ?M\<rparr>)"
    unfolding decode_message_type1_split [OF p(3) ms(1)] Let_def E
    using reconstruct_keep [OF nz] by simp
  let ?pkt = "(d_nav_msg_packet s)\<lparr>nav_message_bits := ?str\<rparr>"
  have msg: "message_of_rows (d_M_matrix (?s2\<lparr>d_M_matrix := ?M\<rparr>)) (unat (message_size p)) = ?str"
    unfolding ms(2) using message_of_single_row [OF len bin] M by simp
  have s4: "(reset_slot ?m
              (if d_enable_navdata_monitor (?s2\<lparr>d_M_matrix := ?M\<rparr>)
               then (?s2\<lparr>d_M_matrix := ?M\<rparr>)\<lparr>d_nav_msg_packet := ?pkt,
                       Nav_msg_from_TLM := Nav_msg_from_TLM (?s2\<lparr>d_M_matrix := ?M\<rparr>) @ [?pkt]\<rparr>
               else ?s2\<lparr>d_M_matrix := ?M\<rparr>))\<lparr>d_HAS_data := empty_HAS_data\<rparr>
            = after_single_page p s"
    unfolding M by (simp add: after_single_page_def with_page_def reset_slot_def Let_def)
  have nav2: "d_nav_msg_packet (?s2\<lparr>d_M_matrix := ?M\<rparr>) = d_nav_msg_packet s"
    by (simp add: with_page_def Let_def)
  have mask5: "\<And>h. d_mask ((after_single_page p s)\<lparr>d_HAS_data := empty_HAS_data\<lparr>header := h\<rparr>\<rparr>) = d_mask s"
    by (simp add: after_single_page_def Let_def)
  have hd4: "d_HAS_data (after_single_page p s) = empty_HAS_data"
    by (simp add: after_single_page_def Let_def)
  show ?thesis
    unfolding d1 publish_and_parse_def msg Let_def nav2 s4
    by (simp add: ms(2) len mask5 hd4 GALILEO_CNAV_INFORMATION_VECTOR_LENGTH_def
             split: option.splits outcome.splits)
qed

lemma process_single_page:
  assumes st: "has_status p = 0 \<or> has_status p = 1" and ty: "message_type p = 1"
      and p: "message_page_id p = 1" "message_size p = 1" "unat (message_id p) < 32"
      and len: "length (has_message_string p) = 424"
      and bin: "list_all (\<lambda>c. c = CHR ''0'' \<or> c = CHR ''1'') (has_message_string p)"
      and slot: "d_received_pids s (unat (message_id p)) = []"
  shows "process_HAS_page rs_keep L p s =
     (case decode_message_type1 rs_keep L (message_id p) (message_size p)
             ((with_page p s)\<lparr>d_new_message := False\<rparr>) of
        Normal (res, s3) \<Rightarrow>
          Normal (if res = 0
                     \<and> d_nsat_in_mask_id (d_mask s3) (unat (mask_id (header (d_HAS_data s3)))) \<noteq> 0
                  then s3\<lparr>d_new_message := True\<rparr> else s3)
      | Raised e x \<Rightarrow> Raised e (snd x)
      | Undefined \<Rightarrow> Undefined
      | No_return \<Rightarrow> No_return)"
proof -
  have acc: "accepted p s" using st ty p slot by (simp add: accepted_def)
  have a: "accumulate p s = Normal (with_page p s)"
    by (rule accumulate_well_formed [OF acc len bin])
  have l: "length (d_received_pids ((with_page p s)\<lparr>d_new_message := False\<rparr>) (unat (message_id p)))
           = unat (message_size p)"
    using slot p by (simp add: with_page_def Let_def)
  show ?thesis
    unfolding process_HAS_page_def a obind.simps Let_def
    using p(3) l by (simp add: HAS_MSG_NUMBER_MESSAGE_IDS_def)
qed

lemma length_zeros: "length (zeros n) = n"
  by (induction n) auto

lemma binary_zeros: "list_all (\<lambda>c. c = CHR ''0'' \<or> c = CHR ''1'') (zeros n)"
  by (induction n) auto

lemma page_fields:
  "has_status (page st mid ms pid bits) = of_nat st"
  "message_type (page st mid ms pid bits) = 1"
  "message_id (page st mid ms pid bits) = of_nat mid"
  "message_size (page st mid ms pid bits) = of_nat ms"
  "message_page_id (page st mid ms pid bits) = of_nat pid"
  "has_message_string (page st mid ms pid bits) = bits @ zeros (424 - length bits)"
  by (simp_all add: page_def)

lemma page_payload_ok:
  assumes "length bits \<le> 424" "list_all (\<lambda>c. c = CHR ''0'' \<or> c = CHR ''1'') bits"
  shows "length (has_message_string (page st mid ms pid bits)) = 424"
    and "list_all (\<lambda>c. c = CHR ''0'' \<or> c = CHR ''1'') (has_message_string (page st mid ms pid bits))"
  using assms by (simp_all add: page_fields length_zeros binary_zeros)

lemma header_A:
  "read_MT1_header example_layout (take 32 (has_message_string page_A)) = Some (header_with True False False)"
  by (simp add: page_A_def page_fields header_defs upt_numeral_unfold example_defs Let_def)

lemma body_A:
  "(case read_MT1_body example_layout (drop 32 (has_message_string page_A))
           (empty_HAS_data\<lparr>header := header_with True False False\<rparr>) c of
      Normal st \<Rightarrow> d_nsat_in_mask_id (hd_mask st) = (d_nsat_in_mask_id c)(0 := 1)
                    \<and> mask_id (header (hd_data st)) = 0
    | _ \<Rightarrow> False)"
  by (simp cong: obind_weak_cong add: page_A_def page_fields upt_numeral_unfold parser_defs width_defs size_defs reader_defs example_defs Let_def)

lemma header_B:
  "read_MT1_header example_layout (take 32 (has_message_string page_B)) = Some (header_with True False False)"
  by (simp add: page_B_def page_fields header_defs upt_numeral_unfold example_defs Let_def)

lemma body_B:
  "(case read_MT1_body example_layout (drop 32 (has_message_string page_B))
           (empty_HAS_data\<lparr>header := header_with True False False\<rparr>) c of
      Raised e st \<Rightarrow> e = Length_error \<and> d_nsat_in_mask_id (hd_mask st) = d_nsat_in_mask_id c
                    \<and> d_nsys_in_mask (hd_mask st) 0 = 15
    | _ \<Rightarrow> False)"
  by (simp cong: obind_weak_cong add: page_B_def page_fields upt_numeral_unfold parser_defs width_defs size_defs reader_defs example_defs Let_def)

section \<open>Erasure positions and the erasure limit\<close>

subsection \<open>Pages that do not complete their slot\<close>

lemma handler_incomplete_page:
  assumes acc: "accepted p s"
      and len: "length (has_message_string p) = 424"
      and bin: "list_all (\<lambda>c. c = CHR ''0'' \<or> c = CHR ''1'') (has_message_string p)"
      and inc: "Suc (length (d_received_pids s (unat (message_id p)))) \<noteq> unat (message_size p)"
  shows "msg_handler_galileo_e6_has rs L (HAS_page_msg p) s
           = Normal ((with_page p s)\<lparr>d_new_message := False\<rparr>)"
proof -
  have m: "unat (message_id p) < 32" using acc by (simp add: accepted_def)
  have a: "accumulate p s = Normal (with_page p s)"
    by (rule accumulate_well_formed [OF acc len bin])
  show ?thesis
    unfolding msg_handler_galileo_e6_has_def pmt_msg.case process_HAS_page_def a obind.simps Let_def
    using m inc by (simp add: with_page_def Let_def HAS_MSG_NUMBER_MESSAGE_IDS_def publish_to_PVT_def)
qed

lemma pages_3_4:
  "run_handler rs L [HAS_page_msg page_3, HAS_page_msg page_4] init_receiver
     = Normal ((with_page page_4 ((with_page page_3 init_receiver)\<lparr>d_new_message := False\<rparr>))
                 \<lparr>d_new_message := False\<rparr>)"
proof -
  have l3: "length (has_message_string page_3) = 424"
   and b3: "list_all (\<lambda>c. c = CHR ''0'' \<or> c = CHR ''1'') (has_message_string page_3)"
    unfolding page_3_def by (rule page_payload_ok; simp)+
  have l4: "length (has_message_string page_4) = 424"
   and b4: "list_all (\<lambda>c. c = CHR ''0'' \<or> c = CHR ''1'') (has_message_string page_4)"
    unfolding page_4_def by (rule page_payload_ok; simp)+
  let ?s3 = "(with_page page_3 init_receiver)\<lparr>d_new_message := False\<rparr>"
  have a3: "accepted page_3 init_receiver"
    by (simp add: accepted_def page_3_def page_fields init_receiver_def galileo_e6_has_msg_receiver_def)
  have i3: "Suc (length (d_received_pids init_receiver (unat (message_id page_3)))) \<noteq> unat (message_size page_3)"
    by (simp add: page_3_def page_fields init_receiver_def galileo_e6_has_msg_receiver_def)
  have h3: "msg_handler_galileo_e6_has rs L (HAS_page_msg page_3) init_receiver = Normal ?s3"
    by (rule handler_incomplete_page [OF a3 l3 b3 i3])
  have p3: "d_received_pids ?s3 0 = [3]"
    by (simp add: with_page_def Let_def page_3_def page_fields init_receiver_def galileo_e6_has_msg_receiver_def)
  have a4: "accepted page_4 ?s3"
    using p3 by (simp add: accepted_def page_4_def page_fields)
  have i4: "Suc (length (d_received_pids ?s3 (unat (message_id page_4)))) \<noteq> unat (message_size page_4)"
    using p3 by (simp add: page_4_def page_fields)
  have h4: "msg_handler_galileo_e6_has rs L (HAS_page_msg page_4) ?s3
              = Normal ((with_page page_4 ?s3)\<lparr>d_new_message := False\<rparr>)"
    by (rule handler_incomplete_page [OF a4 l4 b4 i4])
  show ?thesis by (simp add: h3 h4)
qed

lemma pids_after_3_4:
  "d_received_pids ((with_page page_4 ((with_page page_3 init_receiver)\<lparr>d_new_message := False\<rparr>))
                 \<lparr>d_new_message := False\<rparr>) 0 = [3, 4]"
  by (simp add: with_page_def Let_def page_3_def page_4_def page_fields init_receiver_def
        galileo_e6_has_msg_receiver_def)

lemma length_erasures_3_4: "length (spec_erasure_positions 2 [3, 4]) = 225"
  by (simp add: spec_erasure_positions_def upt_numeral_unfold)

subsection \<open>Too many erasures\<close>

lemma handler_too_many_erasures:
  assumes m: "unat (message_id p) < 32" and ms: "unat (message_size p) < 255"
      and acc: "accumulate p s0 = Normal s"
      and complete: "length (d_received_pids s (unat (message_id p))) = unat (message_size p)"
      and many: "length (spec_erasure_positions (unat (message_size p))
                    (d_received_pids s (unat (message_id p)))) > 223"
  shows "msg_handler_galileo_e6_has rs L (HAS_page_msg p) s0
           = Normal (reset_slot (unat (message_id p)) (s\<lparr>d_new_message := False\<rparr>))"
proof -
  let ?s2 = "s\<lparr>d_new_message := False\<rparr>"
  have d: "decode_message_type1 rs L (message_id p) (message_size p) ?s2
             = Normal (- 1, reset_slot (unat (message_id p)) ?s2)"
    unfolding decode_message_type1_split [OF m ms] Let_def using many by simp
  show ?thesis
    unfolding msg_handler_galileo_e6_has_def pmt_msg.case process_HAS_page_def acc obind.simps Let_def
    using m complete d
    by (simp add: HAS_MSG_NUMBER_MESSAGE_IDS_def publish_to_PVT_def reset_slot_def)
qed

subsection \<open>The list that reaches the decoder\<close>

lemma decode_columns_cong:
  assumes "\<And>C_column. rs' C_column E = rs C_column E"
  shows "decode_columns rs' m E cols s = decode_columns rs m E cols s"
proof (induction cols arbitrary: s)
  case Nil
  then show ?case by simp
next
  case (Cons col cols)
  show ?case
    by (simp add: assms Cons.IH split: option.splits prod.splits)
qed

lemma decode_message_type1_cong:
  assumes m: "unat mid < 32" and ms: "unat msize < 255"
      and eq: "\<And>C_column. rs' C_column (spec_erasure_positions (unat msize) (d_received_pids s (unat mid)))
                 = rs C_column (spec_erasure_positions (unat msize) (d_received_pids s (unat mid)))"
  shows "decode_message_type1 rs' L mid msize s = decode_message_type1 rs L mid msize s"
proof -
  let ?E = "spec_erasure_positions (unat msize) (d_received_pids s (unat mid))"
  have "decode_columns rs' (unat mid) ?E cols x = decode_columns rs (unat mid) ?E cols x" for cols x
    by (rule decode_columns_cong) (rule eq)
  then show ?thesis
    unfolding decode_message_type1_split [OF m ms] Let_def reconstruct_and_parse_def by simp
qed

lemma decode_columns_refused:
  assumes ne: "expected \<noteq> E" and pids: "0 \<notin> set (d_received_pids s m)"
  shows "decode_columns (rs_expect expected) m E (col # cols) s = Some (False, s)"
proof -
  from fill_column_Some [OF pids, of "d_C_matrix s m" col
      "replicate GALILEO_CNAV_MAX_NUMBER_SYMBOLS_ENCODED_BLOCK 0"]
  obtain cv where "fill_column (d_C_matrix s m) col (d_received_pids s m)
             (replicate GALILEO_CNAV_MAX_NUMBER_SYMBOLS_ENCODED_BLOCK 0) = Some cv"
    by auto
  then show ?thesis using ne by (simp add: rs_expect_def)
qed

lemma decode_with_rs_expect:
  assumes m: "unat mid < 32" and ms: "unat msize < 255"
      and few: "length (spec_erasure_positions (unat msize) (d_received_pids s (unat mid))) \<le> 223"
      and pids: "0 \<notin> set (d_received_pids s (unat mid))"
  shows "decode_message_type1 (rs_expect expected) L mid msize s =
     (if expected = spec_erasure_positions (unat msize) (d_received_pids s (unat mid))
      then publish_and_parse L (unat mid) msize (s\<lparr>d_M_matrix := (\<lambda>i c.
             if i < 32 \<and> c < 53
             then the (fill_column (d_C_matrix s (unat mid)) c (d_received_pids s (unat mid))
                         (replicate 255 0)) ! i
             else 0)\<rparr>)
      else Normal (- 1, s\<lparr>d_M_matrix := (\<lambda>row col. 0)\<rparr>))"
proof (cases "expected = spec_erasure_positions (unat msize) (d_received_pids s (unat mid))")
  case True
  let ?E = "spec_erasure_positions (unat msize) (d_received_pids s (unat mid))"
  have "decode_message_type1 (rs_expect ?E) L mid msize s = decode_message_type1 rs_keep L mid msize s"
    by (rule decode_message_type1_cong [OF m ms]) (simp add: rs_expect_def rs_keep_def)
  also have "\<dots> = reconstruct_and_parse rs_keep L (unat mid) msize ?E s"
    unfolding decode_message_type1_split [OF m ms] Let_def using few by simp
  also have "\<dots> = publish_and_parse L (unat mid) msize (s\<lparr>d_M_matrix := (\<lambda>i c.
             if i < 32 \<and> c < 53
             then the (fill_column (d_C_matrix s (unat mid)) c (d_received_pids s (unat mid))
                         (replicate 255 0)) ! i
             else 0)\<rparr>)"
    by (rule reconstruct_keep [OF pids])
  finally show ?thesis using True by simp
next
  case False
  let ?E = "spec_erasure_positions (unat msize) (d_received_pids s (unat mid))"
  let ?s1 = "s\<lparr>d_M_matrix := (\<lambda>row col. 0)\<rparr>"
  have p1: "0 \<notin> set (d_received_pids ?s1 (unat mid))" using pids by simp
  have up: "[0..<GALILEO_CNAV_OCTETS_IN_SUBPAGE] = 0 # [1..<GALILEO_CNAV_OCTETS_IN_SUBPAGE]"
    by (simp add: GALILEO_CNAV_OCTETS_IN_SUBPAGE_def upt_conv_Cons del: upt_rec_numeral)
  have "decode_columns (rs_expect expected) (unat mid) ?E [0..<GALILEO_CNAV_OCTETS_IN_SUBPAGE] ?s1
          = Some (False, ?s1)"
    unfolding up by (rule decode_columns_refused [OF False p1])
  then have "reconstruct_and_parse (rs_expect expected) L (unat mid) msize ?E s = Normal (- 1, ?s1)"
    by (simp add: reconstruct_and_parse_def Let_def)
  then show ?thesis
    unfolding decode_message_type1_split [OF m ms] Let_def using few False by simp
qed

text \<open>
  Claim C2. For a message id below 32 and a message size below 255 (the data model
  has sizes 1 to 32; for 255 the 8-bit loop counter wraps and the first loop does
  not end), the erasure positions that \<^verbatim>\<open>decode_message_type1\<close> computes are the page
  ids of [1..message_size] and [33..255] that were not received, each as pid - 1, and
  this is the list handed on for the column decoding. When it has more than 223
  entries the decoder is not invoked: whatever the decoder, the call returns -1 with
  the slot reset (no received page ids, a zero C matrix), and the handler call that
  completed the slot publishes nothing. When it has at most 223 entries this list is
  the one the decoder is called with: the result of the call depends on the decoder
  only through what it answers on this list, and a decoder that accepts one expected
  list only gets through every column exactly when the expected list is this one,
  and otherwise makes the call return -1 at the first column, the slot kept.
\<close>

theorem erasure_positions_and_precondition:
  assumes m: "unat (message_id p) < 32" and ms: "unat (message_size p) < 255"
      and acc: "accumulate p s0 = Normal s"
      and complete: "length (d_received_pids s (unat (message_id p))) = unat (message_size p)"
  shows "erasure_positions_of (message_size p) (d_received_pids s (unat (message_id p)))
           = Some (spec_erasure_positions (unat (message_size p)) (d_received_pids s (unat (message_id p))))
       \<and> set (spec_erasure_positions (unat (message_size p)) (d_received_pids s (unat (message_id p))))
           = (\<lambda>pid. int pid - 1) ` (({1..unat (message_size p)} \<union> {33..255})
                - {pid. (of_nat pid :: u8) \<in> set (d_received_pids s (unat (message_id p)))})
       \<and> decode_message_type1 rs L (message_id p) (message_size p) (s\<lparr>d_new_message := False\<rparr>)
           = (if length (spec_erasure_positions (unat (message_size p))
                           (d_received_pids s (unat (message_id p)))) > 223
              then Normal (- 1, reset_slot (unat (message_id p)) (s\<lparr>d_new_message := False\<rparr>))
              else reconstruct_and_parse rs L (unat (message_id p)) (message_size p)
                     (spec_erasure_positions (unat (message_size p))
                        (d_received_pids s (unat (message_id p))))
                     (s\<lparr>d_new_message := False\<rparr>))
       \<and> (length (spec_erasure_positions (unat (message_size p))
                      (d_received_pids s (unat (message_id p)))) > 223 \<longrightarrow>
            (\<exists>s'. msg_handler_galileo_e6_has rs L (HAS_page_msg p) s0 = Normal s'
                \<and> d_received_pids s' (unat (message_id p)) = []
                \<and> d_C_matrix s' (unat (message_id p)) = zero_C_slot
                \<and> E6_HAS_to_PVT s' = E6_HAS_to_PVT s0
                \<and> Nav_msg_from_TLM s' = Nav_msg_from_TLM s0))
       \<and> (\<forall>rs'. (\<forall>C_column.
               rs' C_column (spec_erasure_positions (unat (message_size p))
                               (d_received_pids s (unat (message_id p))))
               = rs C_column (spec_erasure_positions (unat (message_size p))
                               (d_received_pids s (unat (message_id p))))) \<longrightarrow>
             decode_message_type1 rs' L (message_id p) (message_size p) (s\<lparr>d_new_message := False\<rparr>)
             = decode_message_type1 rs L (message_id p) (message_size p) (s\<lparr>d_new_message := False\<rparr>))
       \<and> (length (spec_erasure_positions (unat (message_size p))
                      (d_received_pids s (unat (message_id p)))) \<le> 223
            \<and> 0 \<notin> set (d_received_pids s (unat (message_id p))) \<longrightarrow>
            (\<forall>expected.
               decode_message_type1 (rs_expect expected) L (message_id p) (message_size p)
                   (s\<lparr>d_new_message := False\<rparr>)
               = (if expected = spec_erasure_positions (unat (message_size p))
                                  (d_received_pids s (unat (message_id p)))
                  then publish_and_parse L (unat (message_id p)) (message_size p)
                         (s\<lparr>d_new_message := False,
                            d_M_matrix := (\<lambda>i c.
                              if i < 32 \<and> c < 53
                              then the (fill_column (d_C_matrix s (unat (message_id p))) c
                                          (d_received_pids s (unat (message_id p)))
                                          (replicate 255 0)) ! i
                              else 0)\<rparr>)
                  else Normal (- 1, s\<lparr>d_new_message := False, d_M_matrix := (\<lambda>row col. 0)\<rparr>))))"
proof -
  let ?m = "unat (message_id p)"
  let ?E = "spec_erasure_positions (unat (message_size p)) (d_received_pids s ?m)"
  let ?s2 = "s\<lparr>d_new_message := False\<rparr>"
  have f: "E6_HAS_to_PVT s = E6_HAS_to_PVT s0" "Nav_msg_from_TLM s = Nav_msg_from_TLM s0"
    using accumulate_frame [of p s0 s] acc by auto
  have 1: "erasure_positions_of (message_size p) (d_received_pids s ?m) = Some ?E"
    by (rule erasure_positions_of_spec [OF ms])
  have 2: "set ?E = (\<lambda>pid. int pid - 1) ` (({1..unat (message_size p)} \<union> {33..255})
                - {pid. (of_nat pid :: u8) \<in> set (d_received_pids s ?m)})"
    by (rule set_spec_erasure_positions)
  have 3: "decode_message_type1 rs L (message_id p) (message_size p) ?s2
           = (if length ?E > 223
              then Normal (- 1, reset_slot ?m ?s2)
              else reconstruct_and_parse rs L ?m (message_size p) ?E ?s2)"
    using decode_message_type1_split [OF m ms, of rs L ?s2]
    by (simp add: Let_def)
  have 4: "length ?E > 223 \<longrightarrow>
            (\<exists>s'. msg_handler_galileo_e6_has rs L (HAS_page_msg p) s0 = Normal s'
                \<and> d_received_pids s' ?m = [] \<and> d_C_matrix s' ?m = zero_C_slot
                \<and> E6_HAS_to_PVT s' = E6_HAS_to_PVT s0
                \<and> Nav_msg_from_TLM s' = Nav_msg_from_TLM s0)"
  proof
    assume many: "length ?E > 223"
    have h: "msg_handler_galileo_e6_has rs L (HAS_page_msg p) s0
           = Normal (reset_slot ?m ?s2)"
      by (rule handler_too_many_erasures [OF m ms acc complete many])
    show "\<exists>s'. msg_handler_galileo_e6_has rs L (HAS_page_msg p) s0 = Normal s'
                \<and> d_received_pids s' ?m = [] \<and> d_C_matrix s' ?m = zero_C_slot
                \<and> E6_HAS_to_PVT s' = E6_HAS_to_PVT s0
                \<and> Nav_msg_from_TLM s' = Nav_msg_from_TLM s0"
      unfolding h using f by (simp add: reset_slot_def)
  qed
  have 5: "\<forall>rs'. (\<forall>C_column. rs' C_column ?E = rs C_column ?E) \<longrightarrow>
             decode_message_type1 rs' L (message_id p) (message_size p) ?s2
             = decode_message_type1 rs L (message_id p) (message_size p) ?s2"
  proof (intro allI impI)
    fix rs' :: rs_decoder
    assume e: "\<forall>C_column. rs' C_column ?E = rs C_column ?E"
    show "decode_message_type1 rs' L (message_id p) (message_size p) ?s2
             = decode_message_type1 rs L (message_id p) (message_size p) ?s2"
      by (rule decode_message_type1_cong [OF m ms]) (simp add: e)
  qed
  have 6: "length ?E \<le> 223 \<and> 0 \<notin> set (d_received_pids s ?m) \<longrightarrow>
            (\<forall>expected.
               decode_message_type1 (rs_expect expected) L (message_id p) (message_size p) ?s2
               = (if expected = ?E
                  then publish_and_parse L ?m (message_size p)
                         (s\<lparr>d_new_message := False,
                            d_M_matrix := (\<lambda>i c.
                              if i < 32 \<and> c < 53
                              then the (fill_column (d_C_matrix s ?m) c (d_received_pids s ?m)
                                          (replicate 255 0)) ! i
                              else 0)\<rparr>)
                  else Normal (- 1, s\<lparr>d_new_message := False, d_M_matrix := (\<lambda>row col. 0)\<rparr>)))"
  proof (intro allI impI)
    fix expected
    assume a: "length ?E \<le> 223 \<and> 0 \<notin> set (d_received_pids s ?m)"
    have few: "length (spec_erasure_positions (unat (message_size p)) (d_received_pids ?s2 ?m)) \<le> 223"
      using a by simp
    have pids: "0 \<notin> set (d_received_pids ?s2 ?m)" using a by simp
    show "decode_message_type1 (rs_expect expected) L (message_id p) (message_size p) ?s2
               = (if expected = ?E
                  then publish_and_parse L ?m (message_size p)
                         (s\<lparr>d_new_message := False,
                            d_M_matrix := (\<lambda>i c.
                              if i < 32 \<and> c < 53
                              then the (fill_column (d_C_matrix s ?m) c (d_received_pids s ?m)
                                          (replicate 255 0)) ! i
                              else 0)\<rparr>)
                  else Normal (- 1, s\<lparr>d_new_message := False, d_M_matrix := (\<lambda>row col. 0)\<rparr>))"
      using decode_with_rs_expect [OF m ms few pids, of expected L] by (simp cong: if_cong)
  qed
  show ?thesis using 1 2 3 4 5 6 by (intro conjI)
qed

section \<open>Publication to the PVT block\<close>

lemma handler_single_page:
  assumes st: "has_status p = 0 \<or> has_status p = 1" and ty: "message_type p = 1"
      and p: "message_page_id p = 1" "message_size p = 1" "unat (message_id p) < 32"
      and len: "length (has_message_string p) = 424"
      and bin: "list_all (\<lambda>c. c = CHR ''0'' \<or> c = CHR ''1'') (has_message_string p)"
      and slot: "d_received_pids s (unat (message_id p)) = []"
      and hdr: "read_MT1_header L (take (GALILEO_CNAV_MT1_HEADER_BITS L) (has_message_string p)) = Some h"
      and hb: "GALILEO_CNAV_MT1_HEADER_BITS L \<le> 424"
  shows "msg_handler_galileo_e6_has rs_keep L (HAS_page_msg p) s =
     (case read_MT1_body L (drop (GALILEO_CNAV_MT1_HEADER_BITS L) (has_message_string p))
             (empty_HAS_data\<lparr>header := h\<rparr>) (d_mask s) of
        Normal st \<Rightarrow>
          Normal (if d_nsat_in_mask_id (hd_mask st) (unat (mask_id (header (hd_data st)))) \<noteq> 0
                  then (after_single_page p s)\<lparr>d_HAS_data := hd_data st, d_mask := hd_mask st,
                          E6_HAS_to_PVT := E6_HAS_to_PVT s @ [hd_data st]\<rparr>
                  else (after_single_page p s)\<lparr>d_HAS_data := hd_data st, d_mask := hd_mask st\<rparr>)
      | Raised e st \<Rightarrow>
          Normal ((after_single_page p s)\<lparr>d_HAS_data := hd_data st, d_mask := hd_mask st\<rparr>)
      | Undefined \<Rightarrow> Undefined
      | No_return \<Rightarrow> No_return)"
proof -
  have new: "d_new_message (after_single_page p s) = False"
    and e6: "E6_HAS_to_PVT (after_single_page p s) = E6_HAS_to_PVT s"
    by (simp_all add: after_single_page_def Let_def)
  show ?thesis
    unfolding msg_handler_galileo_e6_has_def pmt_msg.case
      process_single_page [OF st ty p len bin slot]
      decode_single_page [OF p len bin slot] hdr option.case Let_def
    using hb
    by (simp add: publish_to_PVT_def new e6 split: outcome.splits)
qed

text \<open>Page A from the constructed receiver: the record is decoded and published.\<close>

lemma page_A_ok:
  "has_status page_A = 0 \<or> has_status page_A = 1" "message_type page_A = 1"
  "message_page_id page_A = 1" "message_size page_A = 1" "unat (message_id page_A) < 32"
  "length (has_message_string page_A) = 424"
  "list_all (\<lambda>c. c = CHR ''0'' \<or> c = CHR ''1'') (has_message_string page_A)"
  by (simp_all add: page_A_def page_fields length_zeros binary_zeros one_system_mask_def
        zeros_numeral ones_numeral)

lemma page_B_ok:
  "has_status page_B = 0 \<or> has_status page_B = 1" "message_type page_B = 1"
  "message_page_id page_B = 1" "message_size page_B = 1" "unat (message_id page_B) < 32"
  "length (has_message_string page_B) = 424"
  "list_all (\<lambda>c. c = CHR ''0'' \<or> c = CHR ''1'') (has_message_string page_B)"
  by (simp_all add: page_B_def page_fields length_zeros binary_zeros zeros_numeral)

lemma example_header_bits: "GALILEO_CNAV_MT1_HEADER_BITS example_layout = 32"
  by (simp add: example_layout_def)

lemma page_A_handled:
  "\<exists>st. read_MT1_body example_layout (drop 32 (has_message_string page_A))
           (empty_HAS_data\<lparr>header := header_with True False False\<rparr>) (d_mask init_receiver) = Normal st
       \<and> d_nsat_in_mask_id (hd_mask st) = (d_nsat_in_mask_id (d_mask init_receiver))(0 := 1)
       \<and> msg_handler_galileo_e6_has rs_keep example_layout (HAS_page_msg page_A) init_receiver
           = Normal ((after_single_page page_A init_receiver)
                        \<lparr>d_HAS_data := hd_data st, d_mask := hd_mask st,
                          E6_HAS_to_PVT := E6_HAS_to_PVT init_receiver @ [hd_data st]\<rparr>)"
proof -
  let ?R = "read_MT1_body example_layout (drop 32 (has_message_string page_A))
           (empty_HAS_data\<lparr>header := header_with True False False\<rparr>) (d_mask init_receiver)"
  from body_A [of "d_mask init_receiver"] obtain st where
    R: "?R = Normal st"
    and n: "d_nsat_in_mask_id (hd_mask st) = (d_nsat_in_mask_id (d_mask init_receiver))(0 := 1)"
    and mi: "mask_id (header (hd_data st)) = 0"
    by (cases ?R) auto
  have slot: "d_received_pids init_receiver (unat (message_id page_A)) = []"
    by (simp add: init_receiver_def galileo_e6_has_msg_receiver_def)
  have hdr: "read_MT1_header example_layout
      (take (GALILEO_CNAV_MT1_HEADER_BITS example_layout) (has_message_string page_A))
        = Some (header_with True False False)"
    unfolding example_header_bits by (rule header_A)
  have hb: "GALILEO_CNAV_MT1_HEADER_BITS example_layout \<le> 424" by (simp add: example_header_bits)
  have "msg_handler_galileo_e6_has rs_keep example_layout (HAS_page_msg page_A) init_receiver
           = Normal ((after_single_page page_A init_receiver)
                        \<lparr>d_HAS_data := hd_data st, d_mask := hd_mask st,
                          E6_HAS_to_PVT := E6_HAS_to_PVT init_receiver @ [hd_data st]\<rparr>)"
    unfolding handler_single_page [OF page_A_ok slot hdr hb] example_header_bits R
    by (simp add: n mi)
  then show ?thesis using R n by blast
qed

text \<open>
  Claim C1. Over any sequence of pages from any state of the receiver, when the run
  returns, the number of records published on the port to the PVT block is the number
  of pages whose processing called the decoder with result 0 while the cached
  satellite count of the decoded record's mask id was not zero; and in each call the
  record published is the decoded one, exactly once in that case and not at all when
  no decode was attempted, the decode returned -1 or the count was zero.
\<close>

theorem pvt_published_once_per_decode:
  assumes "run_handler rs L (map HAS_page_msg pages) s = Normal s'"
  shows "length (E6_HAS_to_PVT s') = length (E6_HAS_to_PVT s)
           + count_decoded_with_mask rs L (map HAS_page_msg pages) s
       \<and> (\<forall>p s1 s2. msg_handler_galileo_e6_has rs L (HAS_page_msg p) s1 = Normal s2 \<longrightarrow>
             E6_HAS_to_PVT s2 = E6_HAS_to_PVT s1
               @ (if decoded_with_mask rs L (HAS_page_msg p) s1 then [d_HAS_data s2] else []))"
  using run_pages_count [OF assms] handler_page_publishes by blast

theorem pvt_published_once_per_decode_witness:
  "map_option (\<lambda>s. length (E6_HAS_to_PVT s))
     (returned (run_handler rs_keep example_layout (map HAS_page_msg [page_A]) init_receiver)) = Some 1
   \<and> count_decoded_with_mask rs_keep example_layout (map HAS_page_msg [page_A]) init_receiver = 1"
proof -
  from page_A_handled obtain sA where
    h: "msg_handler_galileo_e6_has rs_keep example_layout (HAS_page_msg page_A) init_receiver = Normal sA"
    and e: "length (E6_HAS_to_PVT sA) = Suc (length (E6_HAS_to_PVT init_receiver))"
    by auto
  have run: "run_handler rs_keep example_layout (map HAS_page_msg [page_A]) init_receiver = Normal sA"
    by (simp add: h)
  have e0: "E6_HAS_to_PVT init_receiver = []"
    by (simp add: init_receiver_def galileo_e6_has_msg_receiver_def)
  from pvt_published_once_per_decode [OF run]
  have "length (E6_HAS_to_PVT sA) = length (E6_HAS_to_PVT init_receiver)
           + count_decoded_with_mask rs_keep example_layout (map HAS_page_msg [page_A]) init_receiver"
    by blast
  then have c: "count_decoded_with_mask rs_keep example_layout (map HAS_page_msg [page_A]) init_receiver = 1"
    using e by simp
  show ?thesis
    unfolding run using e e0 c by (simp add: returned_def)
qed

section \<open>Pages that fail the screening\<close>

lemma receiver_after_3_4:
  "receiver_after [HAS_page_msg page_3, HAS_page_msg page_4]
     = (with_page page_4 ((with_page page_3 init_receiver)\<lparr>d_new_message := False\<rparr>))
                 \<lparr>d_new_message := False\<rparr>"
  unfolding receiver_after_def pages_3_4 by simp

lemma run_handler_append:
  "run_handler rs L (xs @ ys) s = obind (run_handler rs L xs s) (run_handler rs L ys)"
proof (induction xs arbitrary: s)
  case Nil
  then show ?case by simp
next
  case (Cons x xs)
  then show ?case by (cases "msg_handler_galileo_e6_has rs L x s") simp_all
qed

lemma page_reserved_not_accepted: "accumulate page_reserved s = Normal s"
  by (simp add: accumulate_def accepted_def page_reserved_def page_fields)

lemma page_A_decoded:
  "\<exists>s3. decode_message_type1 rs_keep example_layout (message_id page_A) (message_size page_A)
           ((with_page page_A init_receiver)\<lparr>d_new_message := False\<rparr>) = Normal (0, s3)"
proof -
  let ?R = "read_MT1_body example_layout (drop 32 (has_message_string page_A))
           (empty_HAS_data\<lparr>header := header_with True False False\<rparr>) (d_mask init_receiver)"
  from body_A [of "d_mask init_receiver"] obtain st where R: "?R = Normal st"
    by (cases ?R) auto
  have slot: "d_received_pids init_receiver (unat (message_id page_A)) = []"
    by (simp add: init_receiver_def galileo_e6_has_msg_receiver_def)
  show ?thesis
    unfolding decode_single_page [OF page_A_ok(3-7) slot] example_header_bits header_A
    by (simp add: R Let_def)
qed

theorem erasure_positions_and_precondition_witness:
  "unat (message_id page_reserved) < 32 \<and> unat (message_size page_reserved) < 255
   \<and> accumulate page_reserved (receiver_after [HAS_page_msg page_3, HAS_page_msg page_4])
        = Normal (receiver_after [HAS_page_msg page_3, HAS_page_msg page_4])
   \<and> d_received_pids (receiver_after [HAS_page_msg page_3, HAS_page_msg page_4]) 0 = [3, 4]
   \<and> erasure_positions_of 2 [3, 4] = Some (spec_erasure_positions 2 [3, 4])
   \<and> length (spec_erasure_positions 2 [3, 4]) = 225
   \<and> decode_message_type1 rs_keep example_layout 0 2
        ((receiver_after [HAS_page_msg page_3, HAS_page_msg page_4])\<lparr>d_new_message := False\<rparr>)
        = Normal (- 1, reset_slot 0
            ((receiver_after [HAS_page_msg page_3, HAS_page_msg page_4])\<lparr>d_new_message := False\<rparr>))
   \<and> unat (message_id page_A) < 32 \<and> unat (message_size page_A) < 255
   \<and> accumulate page_A init_receiver = Normal (with_page page_A init_receiver)
   \<and> d_received_pids (with_page page_A init_receiver) 0 = [1]
   \<and> length (spec_erasure_positions 1 [1]) = 223
   \<and> map_option fst (returned (decode_message_type1 (rs_expect (spec_erasure_positions 1 [1]))
          example_layout 0 1 ((with_page page_A init_receiver)\<lparr>d_new_message := False\<rparr>)))
        = Some 0
   \<and> map_option (\<lambda>x. (fst x, d_received_pids (snd x) 0))
        (returned (decode_message_type1 (rs_expect []) example_layout 0 1
           ((with_page page_A init_receiver)\<lparr>d_new_message := False\<rparr>)))
        = Some (- 1, [1])"
proof -
  let ?s = "receiver_after [HAS_page_msg page_3, HAS_page_msg page_4]"
  have m: "unat (message_id page_reserved) < 32" and ms: "unat (message_size page_reserved) < 255"
    by (simp_all add: page_reserved_def page_fields)
  have acc: "accumulate page_reserved ?s = Normal ?s" by (rule page_reserved_not_accepted)
  have pids: "d_received_pids ?s 0 = [3, 4]"
    unfolding receiver_after_3_4 by (rule pids_after_3_4)
  have mid: "unat (message_id page_reserved) = 0" and msz: "unat (message_size page_reserved) = 2"
    and mid': "message_id page_reserved = 0" and msz': "message_size page_reserved = 2"
    by (simp_all add: page_reserved_def page_fields)
  have complete: "length (d_received_pids ?s (unat (message_id page_reserved)))
                    = unat (message_size page_reserved)"
    unfolding mid msz pids by simp
  note t = erasure_positions_and_precondition [OF m ms acc complete, of rs_keep example_layout]
  have e: "erasure_positions_of 2 [3, 4] = Some (spec_erasure_positions 2 [3, 4])"
    using t [THEN conjunct1] by (simp add: mid' msz' pids)
  have d: "decode_message_type1 rs_keep example_layout 0 2 (?s\<lparr>d_new_message := False\<rparr>)
        = Normal (- 1, reset_slot 0 (?s\<lparr>d_new_message := False\<rparr>))"
    using t [THEN conjunct2, THEN conjunct2, THEN conjunct1]
    by (simp add: mid' msz' pids length_erasures_3_4)
  let ?a = "with_page page_A init_receiver"
  have mA: "unat (message_id page_A) < 32" and msA: "unat (message_size page_A) < 255"
    and midA: "unat (message_id page_A) = 0" and mszA: "unat (message_size page_A) = 1"
    and midA': "message_id page_A = 0" and mszA': "message_size page_A = 1"
    by (simp_all add: page_A_def page_fields)
  have slotA: "d_received_pids init_receiver (unat (message_id page_A)) = []"
    by (simp add: init_receiver_def galileo_e6_has_msg_receiver_def)
  have accA: "accumulate page_A init_receiver = Normal ?a"
    by (rule accumulate_well_formed [OF _ page_A_ok(6,7)])
       (use page_A_ok(1-5) slotA in \<open>simp add: accepted_def\<close>)
  have pidsA: "d_received_pids ?a 0 = [1]"
    using slotA page_A_ok(3) by (simp add: with_page_def Let_def midA)
  have completeA: "length (d_received_pids ?a (unat (message_id page_A))) = unat (message_size page_A)"
    unfolding midA mszA pidsA by simp
  note u = erasure_positions_and_precondition [OF mA msA accA completeA, of rs_keep example_layout]
  have un: "unat (0 :: u8) = 0" "unat (1 :: u8) = 1" by simp_all
  have l: "length (spec_erasure_positions 1 [1]) = 223" by (rule length_erasures_single)
  have ne: "[] \<noteq> spec_erasure_positions 1 [1]" using l by auto
  from page_A_decoded obtain s3 where
    dk: "decode_message_type1 rs_keep example_layout 0 1 (?a\<lparr>d_new_message := False\<rparr>) = Normal (0, s3)"
    by (auto simp: midA' mszA')
  have u5: "\<forall>rs'. (\<forall>C_column. rs' C_column (spec_erasure_positions 1 [1])
                                = rs_keep C_column (spec_erasure_positions 1 [1])) \<longrightarrow>
             decode_message_type1 rs' example_layout 0 1 (?a\<lparr>d_new_message := False\<rparr>)
             = decode_message_type1 rs_keep example_layout 0 1 (?a\<lparr>d_new_message := False\<rparr>)"
    using u [THEN conjunct2, THEN conjunct2, THEN conjunct2, THEN conjunct2, THEN conjunct1]
    by (simp only: midA' mszA' un pidsA)
  have de: "decode_message_type1 (rs_expect (spec_erasure_positions 1 [1])) example_layout 0 1
              (?a\<lparr>d_new_message := False\<rparr>) = Normal (0, s3)"
    using u5 [rule_format, of "rs_expect (spec_erasure_positions 1 [1])"] dk
    by (simp add: rs_expect_def rs_keep_def)
  have u6: "length (spec_erasure_positions 1 [1]) \<le> 223 \<and> 0 \<notin> set [1 :: u8] \<longrightarrow>
            (\<forall>expected.
               decode_message_type1 (rs_expect expected) example_layout 0 1 (?a\<lparr>d_new_message := False\<rparr>)
               = (if expected = spec_erasure_positions 1 [1]
                  then publish_and_parse example_layout 0 1
                         (?a\<lparr>d_new_message := False,
                            d_M_matrix := (\<lambda>i c.
                              if i < 32 \<and> c < 53
                              then the (fill_column (d_C_matrix ?a 0) c [1] (replicate 255 0)) ! i
                              else 0)\<rparr>)
                  else Normal (- 1, ?a\<lparr>d_new_message := False, d_M_matrix := (\<lambda>row col. 0)\<rparr>)))"
    using u [THEN conjunct2, THEN conjunct2, THEN conjunct2, THEN conjunct2, THEN conjunct2]
    by (simp only: midA' mszA' un pidsA)
  have dn: "decode_message_type1 (rs_expect []) example_layout 0 1 (?a\<lparr>d_new_message := False\<rparr>)
              = Normal (- 1, ?a\<lparr>d_new_message := False, d_M_matrix := (\<lambda>row col. 0)\<rparr>)"
    using u6 [rule_format, of "[]"] l ne by simp
  show ?thesis
    unfolding de dn
    using m ms acc pids e d length_erasures_3_4 mA msA accA pidsA l
    by (simp add: returned_def)
qed

text \<open>
  Claim C5, at the failing input. After the pages with page ids 3 and 4 of a message
  of size 5, the slot of message id 0 holds the page ids 3 and 4. The page with the
  reserved page id 0 that follows fails the screening (nothing of it is stored), yet
  the size comparison after the screening finds two page ids for a message size of 2
  and calls the decoder, which meets 225 erasures and resets the slot: the handler
  state has changed.
\<close>

theorem reserved_page_resets_slot:
  "message_page_id page_reserved = 0
   \<and> map_option (\<lambda>s. d_received_pids s 0)
        (returned (run_handler rs_keep example_layout
           [HAS_page_msg page_3, HAS_page_msg page_4] init_receiver)) = Some [3, 4]
   \<and> map_option (\<lambda>s. d_received_pids s 0)
        (returned (run_handler rs_keep example_layout
           [HAS_page_msg page_3, HAS_page_msg page_4, HAS_page_msg page_reserved] init_receiver)) = Some []"
proof -
  let ?s = "(with_page page_4 ((with_page page_3 init_receiver)\<lparr>d_new_message := False\<rparr>))
                 \<lparr>d_new_message := False\<rparr>"
  have m: "unat (message_id page_reserved) < 32" and ms: "unat (message_size page_reserved) < 255"
    and mid: "unat (message_id page_reserved) = 0"
    and msz: "unat (message_size page_reserved) = 2"
    by (simp_all add: page_reserved_def page_fields)
  have acc: "accumulate page_reserved ?s = Normal ?s" by (rule page_reserved_not_accepted)
  have complete: "length (d_received_pids ?s (unat (message_id page_reserved)))
                    = unat (message_size page_reserved)"
    unfolding mid msz pids_after_3_4 by simp
  have many: "length (spec_erasure_positions (unat (message_size page_reserved))
                    (d_received_pids ?s (unat (message_id page_reserved)))) > 223"
    unfolding mid msz pids_after_3_4 length_erasures_3_4 by simp
  have h: "msg_handler_galileo_e6_has rs_keep example_layout (HAS_page_msg page_reserved) ?s
           = Normal (reset_slot (unat (message_id page_reserved)) (?s\<lparr>d_new_message := False\<rparr>))"
    by (rule handler_too_many_erasures [OF m ms acc complete many])
  have r2: "run_handler rs_keep example_layout
           [HAS_page_msg page_3, HAS_page_msg page_4] init_receiver = Normal ?s"
    by (rule pages_3_4)
  have r3: "run_handler rs_keep example_layout
           [HAS_page_msg page_3, HAS_page_msg page_4, HAS_page_msg page_reserved] init_receiver
           = Normal (reset_slot 0 (?s\<lparr>d_new_message := False\<rparr>))"
  proof -
    have "run_handler rs_keep example_layout
           ([HAS_page_msg page_3, HAS_page_msg page_4] @ [HAS_page_msg page_reserved]) init_receiver
          = obind (Normal ?s) (run_handler rs_keep example_layout [HAS_page_msg page_reserved])"
      unfolding run_handler_append r2 ..
    also have "\<dots> = Normal (reset_slot 0 (?s\<lparr>d_new_message := False\<rparr>))"
      by (simp only: obind.simps run_handler.simps h mid)
    finally show ?thesis by simp
  qed
  have pid0: "message_page_id page_reserved = 0" by (simp add: page_reserved_def page_fields)
  show ?thesis
    unfolding r2 r3 using pid0 pids_after_3_4 by (simp add: returned_def reset_slot_def)
qed

section \<open>The monitor port\<close>

lemma publish_and_parse_monitor:
  assumes "publish_and_parse L m msize s2 = Normal (res, s3)"
  shows "Nav_msg_from_TLM s3 =
           (if d_enable_navdata_monitor s2
            then Nav_msg_from_TLM s2
                   @ [(d_nav_msg_packet s2)\<lparr>nav_message_bits := message_of_rows (d_M_matrix s2) (unat msize)\<rparr>]
            else Nav_msg_from_TLM s2)
       \<and> d_nav_msg_packet s3 =
           (if d_enable_navdata_monitor s2
            then (d_nav_msg_packet s2)\<lparr>nav_message_bits := message_of_rows (d_M_matrix s2) (unat msize)\<rparr>
            else d_nav_msg_packet s2)"
  using assms unfolding publish_and_parse_def Let_def
  by (auto simp: reset_slot_def split: option.splits outcome.splits if_splits)

lemma reconstruct_and_parse_monitor:
  assumes dc: "decode_columns rs m E [0..<GALILEO_CNAV_OCTETS_IN_SUBPAGE]
                 (s\<lparr>d_M_matrix := (\<lambda>row col. 0)\<rparr>) = Some (ok, s2)"
      and r: "reconstruct_and_parse rs L m msize E s = Normal (res, s3)"
  shows "Nav_msg_from_TLM s3 =
           (if ok \<and> d_enable_navdata_monitor s
            then Nav_msg_from_TLM s
                   @ [(d_nav_msg_packet s)\<lparr>nav_message_bits := message_of_rows (d_M_matrix s2) (unat msize)\<rparr>]
            else Nav_msg_from_TLM s)
       \<and> d_nav_msg_packet s3 =
           (if ok \<and> d_enable_navdata_monitor s
            then (d_nav_msg_packet s)\<lparr>nav_message_bits := message_of_rows (d_M_matrix s2) (unat msize)\<rparr>
            else d_nav_msg_packet s)"
proof -
  from decode_columns_frame [OF dc] obtain M' where s2: "s2 = s\<lparr>d_M_matrix := M'\<rparr>" by auto
  show ?thesis
  proof (cases ok)
    case False
    then have "s3 = s2" using r dc by (simp add: reconstruct_and_parse_def Let_def)
    then show ?thesis using False s2 by simp
  next
    case True
    then have "publish_and_parse L m msize s2 = Normal (res, s3)"
      using r dc by (simp add: reconstruct_and_parse_def Let_def)
    from publish_and_parse_monitor [OF this] show ?thesis using True s2 by simp
  qed
qed

lemma constructed_header_bits:
  "constructed_header pkt \<Longrightarrow> constructed_header (pkt\<lparr>nav_message_bits := b\<rparr>)"
  by (simp add: constructed_header_def)

lemma decode_monitor_invariant:
  assumes d: "decode_message_type1 rs L mid msize s = Normal (res, s')"
      and inv: "monitor_invariant s"
  shows "monitor_invariant s'"
proof -
  have reset: "\<And>x. monitor_invariant (reset_slot (unat mid) x) = monitor_invariant x"
    by (simp add: monitor_invariant_def reset_slot_def)
  show ?thesis
  proof (cases "\<exists>E. reconstruct_and_parse rs L (unat mid) msize E s = Normal (res, s')")
    case False
    then have "s' = reset_slot (unat mid) s"
      using d by (auto simp: decode_message_type1_def Let_def split: option.splits if_splits)
    then show ?thesis using inv reset by simp
  next
    case True
    then obtain E where r: "reconstruct_and_parse rs L (unat mid) msize E s = Normal (res, s')" ..
    then obtain ok s2 where dc: "decode_columns rs (unat mid) E [0..<GALILEO_CNAV_OCTETS_IN_SUBPAGE]
                 (s\<lparr>d_M_matrix := (\<lambda>row col. 0)\<rparr>) = Some (ok, s2)"
      by (auto simp: reconstruct_and_parse_def Let_def split: option.splits)
    from reconstruct_and_parse_monitor [OF dc r] inv constructed_header_bits
    show ?thesis by (auto simp: monitor_invariant_def)
  qed
qed

lemma process_raised_accumulate:
  assumes "process_HAS_page rs L p s = Raised e s'"
  shows "accumulate p s = Raised e s'"
  using assms decode_message_type1_never_raises
  by (auto simp: process_HAS_page_def obind_Raised_iff Let_def
           split: if_splits outcome.splits prod.splits)

lemma accumulate_monitor_invariant:
  assumes "accumulate p s = Normal s' \<or> accumulate p s = Raised e s'"
  shows "monitor_invariant s' = monitor_invariant s"
  using accumulate_frame [OF assms] by (auto simp: monitor_invariant_def)

lemma process_monitor_invariant:
  assumes "process_HAS_page rs L p s = Normal s'" and inv: "monitor_invariant s"
  shows "monitor_invariant s'"
proof -
  obtain s1 where acc: "accumulate p s = Normal s1"
    using assms by (auto simp: process_HAS_page_def obind_Normal_iff)
  have i1: "monitor_invariant (s1\<lparr>d_new_message := False\<rparr>)"
    using accumulate_monitor_invariant [of p s s1] acc inv by (simp add: monitor_invariant_def)
  have flag: "\<And>x b. monitor_invariant (x\<lparr>d_new_message := b\<rparr>) = monitor_invariant x"
    by (simp add: monitor_invariant_def)
  show ?thesis
  proof (cases "length (d_received_pids s1 (unat (message_id p))) = unat (message_size p)")
    case False
    then have "s' = s1\<lparr>d_new_message := False\<rparr>"
      using assms acc by (auto simp: process_HAS_page_def Let_def split: if_splits)
    then show ?thesis using i1 by simp
  next
    case True
    then obtain res s3 where
      dec: "decode_message_type1 rs L (message_id p) (message_size p) (s1\<lparr>d_new_message := False\<rparr>)
              = Normal (res, s3)"
      and s': "s' = s3\<lparr>d_new_message := True\<rparr> \<or> s' = s3"
      using assms acc
      by (auto simp: process_HAS_page_def Let_def split: outcome.splits prod.splits if_splits)
    from decode_monitor_invariant [OF dec i1] s' flag show ?thesis by auto
  qed
qed

lemma do_call_monitor_invariant:
  assumes "do_call rs L c s = Normal s' \<or> do_call rs L c s = Raised e s'"
      and inv: "monitor_invariant s"
  shows "monitor_invariant s'"
proof (cases c)
  case (Set_monitor b)
  then show ?thesis
    using assms by (auto simp: do_call_def set_enable_navdata_monitor_def monitor_invariant_def)
next
  case (Deliver msg)
  show ?thesis
  proof (cases msg)
    case Other_msg
    then show ?thesis
      using assms Deliver
      by (auto simp: do_call_def msg_handler_galileo_e6_has_def monitor_invariant_def publish_to_PVT_def)
  next
    case (HAS_page_msg p)
    have h: "obind (process_HAS_page rs L p s) (\<lambda>s1. Normal (publish_to_PVT s1)) = Normal s'
           \<or> obind (process_HAS_page rs L p s) (\<lambda>s1. Normal (publish_to_PVT s1)) = Raised e s'"
      using assms(1) Deliver HAS_page_msg by (simp add: do_call_def msg_handler_galileo_e6_has_def)
    have pub: "\<And>x. monitor_invariant (publish_to_PVT x) = monitor_invariant x"
      by (simp add: monitor_invariant_def publish_to_PVT_def)
    from h show ?thesis
    proof
      assume "obind (process_HAS_page rs L p s) (\<lambda>s1. Normal (publish_to_PVT s1)) = Normal s'"
      then obtain s1 where "process_HAS_page rs L p s = Normal s1" "s' = publish_to_PVT s1"
        by (auto simp: obind_Normal_iff)
      then show ?thesis using process_monitor_invariant [OF _ inv] pub by simp
    next
      assume "obind (process_HAS_page rs L p s) (\<lambda>s1. Normal (publish_to_PVT s1)) = Raised e s'"
      then have "process_HAS_page rs L p s = Raised e s'" by (auto simp: obind_Raised_iff)
      from process_raised_accumulate [OF this] accumulate_monitor_invariant [of p s s' e] inv
      show ?thesis by simp
    qed
  qed
qed

lemma run_calls_monitor_invariant:
  assumes "run_calls rs L calls s = Normal s' \<or> run_calls rs L calls s = Raised e s'"
      and inv: "monitor_invariant s"
  shows "monitor_invariant s'"
proof -
  have "(for_each calls (do_call rs L) s = Normal s' \<longrightarrow> monitor_invariant s')
      \<and> (for_each calls (do_call rs L) s = Raised e s' \<longrightarrow> monitor_invariant s')"
  proof (rule for_each_keeps [where P = monitor_invariant, OF _ _ inv])
    fix c x x' assume "do_call rs L c x = Normal x'" "monitor_invariant x"
    then show "monitor_invariant x'" using do_call_monitor_invariant [of rs L c x x'] by simp
  next
    fix c x e' x' assume "do_call rs L c x = Raised e' x'" "monitor_invariant x"
    then show "monitor_invariant x'" using do_call_monitor_invariant [of rs L c x x' e'] by simp
  qed
  then show ?thesis using assms(1) by (auto simp: run_calls_def)
qed

lemma constructed_monitor_invariant:
  "monitor_invariant (galileo_e6_has_msg_receiver new_message0 enable0)"
  by (simp add: monitor_invariant_def galileo_e6_has_msg_receiver_def constructed_header_def)

lemma decode_columns_single_page:
  assumes p: "message_page_id p = 1"
      and slot: "d_received_pids s (unat (message_id p)) = []"
  shows "decode_columns rs_keep (unat (message_id p)) E [0..<GALILEO_CNAV_OCTETS_IN_SUBPAGE]
           ((with_page p s)\<lparr>d_new_message := False, d_M_matrix := (\<lambda>row col. 0)\<rparr>)
         = Some (True, single_page_decoded p s)"
proof -
  let ?m = "unat (message_id p)"
  let ?s1 = "(with_page p s)\<lparr>d_new_message := False, d_M_matrix := (\<lambda>row col. 0)\<rparr>"
  have pids: "d_received_pids ?s1 ?m = [1]"
    using slot p by (simp add: with_page_def Let_def)
  have C: "\<And>c. c < 53 \<Longrightarrow> d_C_matrix ?s1 ?m 0 c = page_octet (has_message_string p) c"
    using p by (simp add: with_page_def Let_def GALILEO_CNAV_OCTETS_IN_SUBPAGE_def)
  have nz: "0 \<notin> set (d_received_pids ?s1 ?m)" unfolding pids by simp
  let ?M = "(\<lambda>i c. if i < 32 \<and> 0 \<le> c \<and> c < 53
        then the (fill_column (d_C_matrix ?s1 ?m) c (d_received_pids ?s1 ?m) (replicate 255 0)) ! i
        else d_M_matrix ?s1 i c)"
  have M: "?M = (\<lambda>i c. if i = 0 \<and> c < 53 then page_octet (has_message_string p) c else 0)"
  proof (intro ext)
    fix i c :: nat
    show "?M i c = (if i = 0 \<and> c < 53 then page_octet (has_message_string p) c else 0)"
      unfolding pids using C [of c] by (auto simp: nth_list_update)
  qed
  have "decode_columns rs_keep ?m E [0..<53] ?s1 = Some (True, ?s1\<lparr>d_M_matrix := ?M\<rparr>)"
    by (rule decode_columns_keep [OF _ nz]) simp
  also have "?s1\<lparr>d_M_matrix := ?M\<rparr> = single_page_decoded p s"
    unfolding M by (simp add: single_page_decoded_def)
  finally show ?thesis by (simp only: GALILEO_CNAV_OCTETS_IN_SUBPAGE_def)
qed

lemma decode_single_page_reconstruct:
  assumes p: "message_page_id p = 1" "message_size p = 1" "unat (message_id p) < 32"
      and slot: "d_received_pids s (unat (message_id p)) = []"
  shows "decode_message_type1 rs L (message_id p) (message_size p)
           ((with_page p s)\<lparr>d_new_message := False\<rparr>)
       = reconstruct_and_parse rs L (unat (message_id p)) 1 (spec_erasure_positions 1 [1])
           ((with_page p s)\<lparr>d_new_message := False\<rparr>)"
proof -
  have pids: "d_received_pids ((with_page p s)\<lparr>d_new_message := False\<rparr>) (unat (message_id p)) = [1]"
    using slot p(1) by (simp add: with_page_def Let_def)
  have ms: "unat (message_size p) < 255" "unat (message_size p) = 1" using p(2) by simp_all
  show ?thesis
    unfolding decode_message_type1_split [OF p(3) ms(1)] Let_def pids ms(2) length_erasures_single
    by (simp add: p(2))
qed

text \<open>Page B from the constructed receiver: the parser throws and nothing is published to the PVT block.\<close>

lemma slot_init: "d_received_pids init_receiver m = []"
  by (simp add: init_receiver_def galileo_e6_has_msg_receiver_def)

lemma header_B_layout:
  "read_MT1_header example_layout
      (take (GALILEO_CNAV_MT1_HEADER_BITS example_layout) (has_message_string page_B))
        = Some (header_with True False False)"
  unfolding example_header_bits by (rule header_B)

lemma page_B_decoded:
  "\<exists>st. read_MT1_body example_layout (drop 32 (has_message_string page_B))
           (empty_HAS_data\<lparr>header := header_with True False False\<rparr>) (d_mask s) = Raised Length_error st
       \<and> d_nsat_in_mask_id (hd_mask st) = d_nsat_in_mask_id (d_mask s)
       \<and> (d_received_pids s (unat (message_id page_B)) = [] \<longrightarrow>
          decode_message_type1 rs_keep example_layout (message_id page_B) (message_size page_B)
             ((with_page page_B s)\<lparr>d_new_message := False\<rparr>)
           = Normal (- 1, (after_single_page page_B s)\<lparr>d_HAS_data := hd_data st, d_mask := hd_mask st\<rparr>)
        \<and> msg_handler_galileo_e6_has rs_keep example_layout (HAS_page_msg page_B) s
           = Normal ((after_single_page page_B s)\<lparr>d_HAS_data := hd_data st, d_mask := hd_mask st\<rparr>))"
proof -
  let ?R = "read_MT1_body example_layout (drop 32 (has_message_string page_B))
           (empty_HAS_data\<lparr>header := header_with True False False\<rparr>) (d_mask s)"
  from body_B [of "d_mask s"] obtain st where
    R: "?R = Raised Length_error st"
    and n: "d_nsat_in_mask_id (hd_mask st) = d_nsat_in_mask_id (d_mask s)"
    by (cases ?R) auto
  have hb: "GALILEO_CNAV_MT1_HEADER_BITS example_layout \<le> 424" by (simp add: example_header_bits)
  have "d_received_pids s (unat (message_id page_B)) = [] \<longrightarrow>
          decode_message_type1 rs_keep example_layout (message_id page_B) (message_size page_B)
             ((with_page page_B s)\<lparr>d_new_message := False\<rparr>)
           = Normal (- 1, (after_single_page page_B s)\<lparr>d_HAS_data := hd_data st, d_mask := hd_mask st\<rparr>)
        \<and> msg_handler_galileo_e6_has rs_keep example_layout (HAS_page_msg page_B) s
           = Normal ((after_single_page page_B s)\<lparr>d_HAS_data := hd_data st, d_mask := hd_mask st\<rparr>)"
  proof
    assume slot: "d_received_pids s (unat (message_id page_B)) = []"
    have a: "decode_message_type1 rs_keep example_layout (message_id page_B) (message_size page_B)
             ((with_page page_B s)\<lparr>d_new_message := False\<rparr>)
           = Normal (- 1, (after_single_page page_B s)\<lparr>d_HAS_data := hd_data st, d_mask := hd_mask st\<rparr>)"
      unfolding decode_single_page [OF page_B_ok(3-7) slot] example_header_bits header_B
      by (simp add: R Let_def)
    have b: "msg_handler_galileo_e6_has rs_keep example_layout (HAS_page_msg page_B) s
           = Normal ((after_single_page page_B s)\<lparr>d_HAS_data := hd_data st, d_mask := hd_mask st\<rparr>)"
      unfolding handler_single_page [OF page_B_ok slot header_B_layout hb] example_header_bits R
      by simp
    show "decode_message_type1 rs_keep example_layout (message_id page_B) (message_size page_B)
             ((with_page page_B s)\<lparr>d_new_message := False\<rparr>)
           = Normal (- 1, (after_single_page page_B s)\<lparr>d_HAS_data := hd_data st, d_mask := hd_mask st\<rparr>)
        \<and> msg_handler_galileo_e6_has rs_keep example_layout (HAS_page_msg page_B) s
           = Normal ((after_single_page page_B s)\<lparr>d_HAS_data := hd_data st, d_mask := hd_mask st\<rparr>)"
      using a b by (rule conjI)
  qed
  then show ?thesis using R n by blast
qed

text \<open>
  Claim C10. From the constructed receiver, after any sequence of message deliveries
  and calls of \<^verbatim>\<open>set_enable_navdata_monitor\<close> that returns or ends in an exception,
  the packet member and every packet published on the monitor port carry system E,
  signal E6, \<open>prn = 0\<close> and \<open>tow_at_current_symbol_ms = 0\<close>. And once every column of a
  message has been reconstructed while the monitor is enabled, whatever the decoder
  then returns (0, or -1 for a record that the parser rejects), it has published
  exactly one packet, whose bits are the reconstructed message.
\<close>

theorem monitor_packet_fields_and_order:
  "(run_calls rs L calls (galileo_e6_has_msg_receiver new_message0 enable0) = Normal s'
      \<or> run_calls rs L calls (galileo_e6_has_msg_receiver new_message0 enable0) = Raised e s'
     \<longrightarrow> monitor_invariant s')
   \<and> (decode_columns rs m E [0..<GALILEO_CNAV_OCTETS_IN_SUBPAGE]
          (s\<lparr>d_M_matrix := (\<lambda>row col. 0)\<rparr>) = Some (True, s2)
        \<and> d_enable_navdata_monitor s
        \<and> reconstruct_and_parse rs L m msize E s = Normal (res, s3)
     \<longrightarrow> Nav_msg_from_TLM s3 = Nav_msg_from_TLM s
           @ [(d_nav_msg_packet s)\<lparr>nav_message_bits := message_of_rows (d_M_matrix s2) (unat msize)\<rparr>])"
proof (intro conjI impI)
  assume "run_calls rs L calls (galileo_e6_has_msg_receiver new_message0 enable0) = Normal s'
      \<or> run_calls rs L calls (galileo_e6_has_msg_receiver new_message0 enable0) = Raised e s'"
  then show "monitor_invariant s'"
    by (rule run_calls_monitor_invariant) (rule constructed_monitor_invariant)
next
  assume a: "decode_columns rs m E [0..<GALILEO_CNAV_OCTETS_IN_SUBPAGE]
          (s\<lparr>d_M_matrix := (\<lambda>row col. 0)\<rparr>) = Some (True, s2)
        \<and> d_enable_navdata_monitor s
        \<and> reconstruct_and_parse rs L m msize E s = Normal (res, s3)"
  then have dc: "decode_columns rs m E [0..<GALILEO_CNAV_OCTETS_IN_SUBPAGE]
          (s\<lparr>d_M_matrix := (\<lambda>row col. 0)\<rparr>) = Some (True, s2)"
    and r: "reconstruct_and_parse rs L m msize E s = Normal (res, s3)"
    and en: "d_enable_navdata_monitor s" by auto
  from reconstruct_and_parse_monitor [OF dc r] en
  show "Nav_msg_from_TLM s3 = Nav_msg_from_TLM s
           @ [(d_nav_msg_packet s)\<lparr>nav_message_bits := message_of_rows (d_M_matrix s2) (unat msize)\<rparr>]"
    by simp
qed

theorem monitor_packet_fields_and_order_witness:
  "map_option (\<lambda>s. map (\<lambda>pkt. (system pkt, signal pkt, prn pkt, tow_at_current_symbol_ms pkt))
                     (Nav_msg_from_TLM s))
     (returned (run_calls rs_keep example_layout [Deliver (HAS_page_msg page_B)] init_receiver))
     = Some [(''E'', ''E6'', 0, 0)]
   \<and> decode_columns rs_keep 1 (spec_erasure_positions 1 [1]) [0..<GALILEO_CNAV_OCTETS_IN_SUBPAGE]
        ((with_page page_B init_receiver)\<lparr>d_new_message := False, d_M_matrix := (\<lambda>row col. 0)\<rparr>)
        = Some (True, single_page_decoded page_B init_receiver)
   \<and> d_enable_navdata_monitor ((with_page page_B init_receiver)\<lparr>d_new_message := False\<rparr>)
   \<and> map_option (\<lambda>x. (fst x, map nav_message_bits (Nav_msg_from_TLM (snd x))))
       (returned (reconstruct_and_parse rs_keep example_layout 1 1 (spec_erasure_positions 1 [1])
          ((with_page page_B init_receiver)\<lparr>d_new_message := False\<rparr>)))
     = Some (- 1, [has_message_string page_B])"
proof -
  let ?s = "(with_page page_B init_receiver)\<lparr>d_new_message := False\<rparr>"
  let ?E = "spec_erasure_positions 1 [1]"
  have mid: "unat (message_id page_B) = 1" "message_size page_B = 1"
    by (simp_all add: page_B_def page_fields)
  have slot: "d_received_pids init_receiver (unat (message_id page_B)) = []" by (rule slot_init)
  from page_B_decoded [of init_receiver] slot obtain sB sD where
    h: "msg_handler_galileo_e6_has rs_keep example_layout (HAS_page_msg page_B) init_receiver = Normal sB"
    and d: "decode_message_type1 rs_keep example_layout (message_id page_B) (message_size page_B) ?s
              = Normal (- 1, sD)"
    and nav: "Nav_msg_from_TLM sB = Nav_msg_from_TLM (after_single_page page_B init_receiver)"
    by auto
  have run: "run_calls rs_keep example_layout [Deliver (HAS_page_msg page_B)] init_receiver = Normal sB"
    by (simp add: run_calls_def do_call_def h)
  have en: "d_enable_navdata_monitor ?s"
    by (simp add: with_page_def Let_def init_receiver_def galileo_e6_has_msg_receiver_def)
  have dc: "decode_columns rs_keep 1 ?E [0..<GALILEO_CNAV_OCTETS_IN_SUBPAGE]
              (?s\<lparr>d_M_matrix := (\<lambda>row col. 0)\<rparr>) = Some (True, single_page_decoded page_B init_receiver)"
    using decode_columns_single_page [OF page_B_ok(3) slot, of ?E] by (simp add: mid)
  have r: "reconstruct_and_parse rs_keep example_layout 1 1 ?E ?s = Normal (- 1, sD)"
    using d decode_single_page_reconstruct [OF page_B_ok(3-5) slot, of rs_keep example_layout]
    by (simp add: mid)
  have inv: "monitor_invariant sB"
    using monitor_packet_fields_and_order [where rs = rs_keep and L = example_layout
        and calls = "[Deliver (HAS_page_msg page_B)]" and ?new_message0.0 = False and ?enable0.0 = True
        and s' = sB] run
    by (simp add: init_receiver_def)
  have pub: "Nav_msg_from_TLM sD = Nav_msg_from_TLM ?s
           @ [(d_nav_msg_packet ?s)\<lparr>nav_message_bits :=
                 message_of_rows (d_M_matrix (single_page_decoded page_B init_receiver)) (unat (1 :: u8))\<rparr>]"
    using monitor_packet_fields_and_order [where rs = rs_keep and m = 1 and E = ?E and s = ?s
        and ?s2.0 = "single_page_decoded page_B init_receiver" and L = example_layout and msize = 1
        and res = "- 1" and ?s3.0 = sD] dc en r
    by blast
  have msg: "message_of_rows (d_M_matrix (single_page_decoded page_B init_receiver)) (unat (1 :: u8))
               = has_message_string page_B"
    using message_of_single_row [OF page_B_ok(6,7)] by (simp add: single_page_decoded_def)
  have n1: "length (Nav_msg_from_TLM sB) = 1"
    unfolding nav by (simp add: after_single_page_def Let_def init_receiver_def galileo_e6_has_msg_receiver_def)
  then obtain pkt where l: "Nav_msg_from_TLM sB = [pkt]"
    by (cases "Nav_msg_from_TLM sB") auto
  have f: "system pkt = ''E''" "signal pkt = ''E6''" "prn pkt = 0" "tow_at_current_symbol_ms pkt = 0"
    using inv l by (simp_all add: monitor_invariant_def constructed_header_def)
  have n0: "Nav_msg_from_TLM ?s = []"
    by (simp add: with_page_def Let_def init_receiver_def galileo_e6_has_msg_receiver_def)
  show ?thesis
    unfolding run r
    using l f dc en pub msg n0 by (simp add: returned_def)
qed

section \<open>A record that the parser rejects\<close>

lemma publish_and_parse_raised:
  assumes ms: "unat msize \<le> GALILEO_CNAV_INFORMATION_VECTOR_LENGTH"
      and hdr: "read_MT1_header L (take (GALILEO_CNAV_MT1_HEADER_BITS L)
                    (message_of_rows (d_M_matrix s2) (unat msize))) = Some h"
      and hb: "GALILEO_CNAV_MT1_HEADER_BITS L \<le> length (message_of_rows (d_M_matrix s2) (unat msize))"
      and body: "read_MT1_body L (drop (GALILEO_CNAV_MT1_HEADER_BITS L)
                    (message_of_rows (d_M_matrix s2) (unat msize)))
                   (empty_HAS_data\<lparr>header := h\<rparr>) (d_mask s2) = Raised e st"
  shows "\<exists>s3. publish_and_parse L m msize s2 = Normal (- 1, s3)
           \<and> d_received_pids s3 m = [] \<and> d_C_matrix s3 m = zero_C_slot
           \<and> d_mask s3 = hd_mask st \<and> E6_HAS_to_PVT s3 = E6_HAS_to_PVT s2
           \<and> d_new_message s3 = d_new_message s2"
  using ms hb unfolding publish_and_parse_def Let_def hdr option.case
  by (simp add: body reset_slot_def)

lemma clock_subset_no_systems:
  assumes len: "HAS_MSG_VALIDITY_INDEX_LENGTH + HAS_MSG_NSYSPRIME_LENGTH \<le> length (message st0)"
      and z: "read_has_message_body_uint8
                (take HAS_MSG_NSYSPRIME_LENGTH (drop HAS_MSG_VALIDITY_INDEX_LENGTH (message st0))) = 0"
  shows "\<exists>st'. read_clock_subset_block st0 = Normal st' \<and> \<not> have_mask st'
           \<and> d_nsat_in_mask_id (hd_mask st') (the_mask_id st0) = 0
           \<and> Nsysprime (hd_data st') = 0
           \<and> message st' = drop (HAS_MSG_VALIDITY_INDEX_LENGTH + HAS_MSG_NSYSPRIME_LENGTH) (message st0)"
  using len z
  by (simp add: read_clock_subset_block_def advance_def upd_data_def upd_mask_def the_mask_id_def
        Let_def add.commute)

text \<open>Pages A and B one after the other from the constructed receiver.\<close>

lemma pages_A_B:
  "\<exists>(stA :: parse_st) stB. receiver_after [HAS_page_msg page_A]
        = (after_single_page page_A init_receiver)
             \<lparr>d_HAS_data := hd_data stA, d_mask := hd_mask stA,
               E6_HAS_to_PVT := E6_HAS_to_PVT init_receiver @ [hd_data stA]\<rparr>
      \<and> d_nsat_in_mask_id (hd_mask stA) = (d_nsat_in_mask_id (d_mask init_receiver))(0 := 1)
      \<and> read_MT1_body example_layout (drop 32 (has_message_string page_B))
           (empty_HAS_data\<lparr>header := header_with True False False\<rparr>)
           (d_mask (receiver_after [HAS_page_msg page_A])) = Raised Length_error stB
      \<and> d_nsat_in_mask_id (hd_mask stB) = d_nsat_in_mask_id (hd_mask stA)
      \<and> run_handler rs_keep example_layout [HAS_page_msg page_A, HAS_page_msg page_B] init_receiver
          = Normal ((after_single_page page_B (receiver_after [HAS_page_msg page_A]))
                       \<lparr>d_HAS_data := hd_data stB, d_mask := hd_mask stB\<rparr>)"
proof -
  from page_A_handled obtain stA where
    A: "read_MT1_body example_layout (drop 32 (has_message_string page_A))
           (empty_HAS_data\<lparr>header := header_with True False False\<rparr>) (d_mask init_receiver) = Normal stA
       \<and> d_nsat_in_mask_id (hd_mask stA) = (d_nsat_in_mask_id (d_mask init_receiver))(0 := 1)
       \<and> msg_handler_galileo_e6_has rs_keep example_layout (HAS_page_msg page_A) init_receiver
           = Normal ((after_single_page page_A init_receiver)
                        \<lparr>d_HAS_data := hd_data stA, d_mask := hd_mask stA,
                          E6_HAS_to_PVT := E6_HAS_to_PVT init_receiver @ [hd_data stA]\<rparr>)" ..
  note nA = A [THEN conjunct2, THEN conjunct1]
  note hA = A [THEN conjunct2, THEN conjunct2]
  let ?sA = "(after_single_page page_A init_receiver)
                        \<lparr>d_HAS_data := hd_data stA, d_mask := hd_mask stA,
                          E6_HAS_to_PVT := E6_HAS_to_PVT init_receiver @ [hd_data stA]\<rparr>"
  have rA: "receiver_after [HAS_page_msg page_A] = ?sA"
    by (simp add: receiver_after_def hA)
  have slot: "d_received_pids ?sA (unat (message_id page_B)) = []"
    by (simp add: after_single_page_def Let_def slot_init)
  have mA: "d_mask ?sA = hd_mask stA" by simp
  from page_B_decoded [of ?sA] obtain stB where
    B: "read_MT1_body example_layout (drop 32 (has_message_string page_B))
           (empty_HAS_data\<lparr>header := header_with True False False\<rparr>) (d_mask ?sA) = Raised Length_error stB
       \<and> d_nsat_in_mask_id (hd_mask stB) = d_nsat_in_mask_id (d_mask ?sA)
       \<and> (d_received_pids ?sA (unat (message_id page_B)) = [] \<longrightarrow>
          decode_message_type1 rs_keep example_layout (message_id page_B) (message_size page_B)
             ((with_page page_B ?sA)\<lparr>d_new_message := False\<rparr>)
           = Normal (- 1, (after_single_page page_B ?sA)\<lparr>d_HAS_data := hd_data stB, d_mask := hd_mask stB\<rparr>)
        \<and> msg_handler_galileo_e6_has rs_keep example_layout (HAS_page_msg page_B) ?sA
           = Normal ((after_single_page page_B ?sA)\<lparr>d_HAS_data := hd_data stB, d_mask := hd_mask stB\<rparr>))" ..
  note bB = B [THEN conjunct1]
  note nB = B [THEN conjunct2, THEN conjunct1]
  note hB = B [THEN conjunct2, THEN conjunct2, rule_format, OF slot, THEN conjunct2]
  have run: "run_handler rs_keep example_layout [HAS_page_msg page_A, HAS_page_msg page_B] init_receiver
          = Normal ((after_single_page page_B ?sA)\<lparr>d_HAS_data := hd_data stB, d_mask := hd_mask stB\<rparr>)"
    by (simp only: run_handler.simps hA obind.simps hB)
  have bB': "read_MT1_body example_layout (drop 32 (has_message_string page_B))
           (empty_HAS_data\<lparr>header := header_with True False False\<rparr>)
           (d_mask (receiver_after [HAS_page_msg page_A])) = Raised Length_error stB"
    unfolding rA by (rule bB)
  have nB': "d_nsat_in_mask_id (hd_mask stB) = d_nsat_in_mask_id (hd_mask stA)"
    using nB by (simp only: mA)
  have run': "run_handler rs_keep example_layout [HAS_page_msg page_A, HAS_page_msg page_B] init_receiver
          = Normal ((after_single_page page_B (receiver_after [HAS_page_msg page_A]))
                       \<lparr>d_HAS_data := hd_data stB, d_mask := hd_mask stB\<rparr>)"
    unfolding rA by (rule run)
  show ?thesis
    by (rule exI [where x = stA], rule exI [where x = stB]) (intro conjI rA nA bB' nB' run')
qed

lemma message_of_single_page_decoded:
  assumes "length (has_message_string p) = 424"
      "list_all (\<lambda>c. c = CHR ''0'' \<or> c = CHR ''1'') (has_message_string p)"
  shows "message_of_rows (d_M_matrix (single_page_decoded p s)) (unat (1 :: u8)) = has_message_string p"
  using message_of_single_row [OF assms] by (simp add: single_page_decoded_def)

lemma page_B_attempted:
  "\<exists>sD. attempted_decode rs_keep example_layout page_B init_receiver = Some (- 1, sD)"
proof -
  have slot: "d_received_pids init_receiver (unat (message_id page_B)) = []" by (rule slot_init)
  have acc: "accepted page_B init_receiver"
    using page_B_ok(1-5) slot by (simp add: accepted_def)
  have a: "accumulate page_B init_receiver = Normal (with_page page_B init_receiver)"
    by (rule accumulate_well_formed [OF acc page_B_ok(6,7)])
  have l: "length (d_received_pids (with_page page_B init_receiver) (unat (message_id page_B)))
             = unat (message_size page_B)"
    using slot page_B_ok(4) by (simp add: with_page_def Let_def)
  from page_B_decoded [of init_receiver] obtain stB where
    B: "read_MT1_body example_layout (drop 32 (has_message_string page_B))
           (empty_HAS_data\<lparr>header := header_with True False False\<rparr>) (d_mask init_receiver)
          = Raised Length_error stB
       \<and> d_nsat_in_mask_id (hd_mask stB) = d_nsat_in_mask_id (d_mask init_receiver)
       \<and> (d_received_pids init_receiver (unat (message_id page_B)) = [] \<longrightarrow>
          decode_message_type1 rs_keep example_layout (message_id page_B) (message_size page_B)
             ((with_page page_B init_receiver)\<lparr>d_new_message := False\<rparr>)
           = Normal (- 1, (after_single_page page_B init_receiver)\<lparr>d_HAS_data := hd_data stB, d_mask := hd_mask stB\<rparr>)
        \<and> msg_handler_galileo_e6_has rs_keep example_layout (HAS_page_msg page_B) init_receiver
           = Normal ((after_single_page page_B init_receiver)\<lparr>d_HAS_data := hd_data stB, d_mask := hd_mask stB\<rparr>))" ..
  note d = B [THEN conjunct2, THEN conjunct2, rule_format, OF slot, THEN conjunct1]
  have "attempted_decode rs_keep example_layout page_B init_receiver
          = Some (- 1, (after_single_page page_B init_receiver)\<lparr>d_HAS_data := hd_data stB, d_mask := hd_mask stB\<rparr>)"
    unfolding attempted_decode_def a outcome.case Let_def
    using page_B_ok(5) l by (simp add: d HAS_MSG_NUMBER_MESSAGE_IDS_def)
  then show ?thesis ..
qed

text \<open>
  Claim C7, at the failing input. Page A fills the cache entry of mask id 0 with one
  Galileo system and one satellite and its record is published. Page B carries a
  record for mask id 0 whose mask announces 15 systems and ends early: the parser
  throws, the decoder returns -1, no second record is published and the slot of
  message id 1 is empty again. The cache entry of mask id 0 is not evicted: its
  satellite count is still 1, while its number of systems has been overwritten with
  15.
\<close>

theorem rejected_record_keeps_mask_entry:
  "escaped (read_MT1_body example_layout (drop 32 (has_message_string page_B))
       (empty_HAS_data\<lparr>header := header_with True False False\<rparr>)
       (d_mask (receiver_after [HAS_page_msg page_A]))) = Some Length_error
   \<and> unat (mask_id (header_with True False False)) = 0
   \<and> d_nsat_in_mask_id (d_mask (receiver_after [HAS_page_msg page_A])) 0 = 1
   \<and> map_option (\<lambda>s. (length (E6_HAS_to_PVT s), d_received_pids s 1,
                        d_nsat_in_mask_id (d_mask s) 0, d_nsys_in_mask (d_mask s) 0))
        (returned (run_handler rs_keep example_layout [HAS_page_msg page_A, HAS_page_msg page_B]
           init_receiver))
       = Some (1, [], 1, 15)"
proof -
  from pages_A_B obtain stA :: parse_st and stB where
    rA: "receiver_after [HAS_page_msg page_A]
        = (after_single_page page_A init_receiver)
             \<lparr>d_HAS_data := hd_data stA, d_mask := hd_mask stA,
               E6_HAS_to_PVT := E6_HAS_to_PVT init_receiver @ [hd_data stA]\<rparr>"
    and nA: "d_nsat_in_mask_id (hd_mask stA) = (d_nsat_in_mask_id (d_mask init_receiver))(0 := 1)"
    and bB: "read_MT1_body example_layout (drop 32 (has_message_string page_B))
           (empty_HAS_data\<lparr>header := header_with True False False\<rparr>)
           (d_mask (receiver_after [HAS_page_msg page_A])) = Raised Length_error stB"
    and nB: "d_nsat_in_mask_id (hd_mask stB) = d_nsat_in_mask_id (hd_mask stA)"
    and run: "run_handler rs_keep example_layout [HAS_page_msg page_A, HAS_page_msg page_B] init_receiver
          = Normal ((after_single_page page_B (receiver_after [HAS_page_msg page_A]))
                       \<lparr>d_HAS_data := hd_data stB, d_mask := hd_mask stB\<rparr>)"
    by (elim exE conjE)
  have sys: "d_nsys_in_mask (hd_mask stB) 0 = 15"
    using body_B [of "d_mask (receiver_after [HAS_page_msg page_A])"] by (simp add: bB)
  have e0: "E6_HAS_to_PVT init_receiver = []"
    by (simp add: init_receiver_def galileo_e6_has_msg_receiver_def)
  have mid: "unat (message_id page_B) = 1" by (simp add: page_B_def page_fields)
  show ?thesis
    unfolding bB run
    by (simp add: returned_def escaped_def rA nA nB sys after_single_page_def Let_def e0 mid
          header_with_def empty_header_def)
qed

section \<open>Exceptions that leave the handler\<close>

subsection \<open>The parser returns, throws or runs into undefined behaviour\<close>

lemma obind_No_return_iff:
  "obind r f = No_return \<longleftrightarrow> r = No_return \<or> (\<exists>x. r = Normal x \<and> f x = No_return)"
  by (cases r) auto

lemma advance_returns: "advance n st \<noteq> No_return"
  by (simp add: advance_def)

lemma for_each_returns:
  assumes "\<And>i s. f i s \<noteq> No_return"
  shows "for_each xs f s \<noteq> No_return"
proof (induction xs arbitrary: s)
  case Nil
  then show ?case by simp
next
  case (Cons i xs)
  then show ?case using assms by (simp add: obind_No_return_iff)
qed

lemma obind_returns:
  "r \<noteq> No_return \<Longrightarrow> (\<And>x. f x \<noteq> No_return) \<Longrightarrow> obind r f \<noteq> No_return"
  by (simp add: obind_No_return_iff)

lemma Let_returns: "(\<And>x. f x \<noteq> No_return) \<Longrightarrow> Let a f \<noteq> No_return"
  by simp

lemma if_returns:
  "(c \<Longrightarrow> a \<noteq> No_return) \<Longrightarrow> (\<not> c \<Longrightarrow> b \<noteq> No_return) \<Longrightarrow> (if c then a else b) \<noteq> No_return"
  by simp

lemma option_returns:
  "a \<noteq> No_return \<Longrightarrow> (\<And>x. f x \<noteq> No_return) \<Longrightarrow> (case v of None \<Rightarrow> a | Some x \<Rightarrow> f x) \<noteq> No_return"
  by (cases v) simp_all

lemma bool_returns:
  "a \<noteq> No_return \<Longrightarrow> b \<noteq> No_return \<Longrightarrow> (case v of True \<Rightarrow> a | False \<Rightarrow> b) \<noteq> No_return"
  by (cases v) simp_all

lemma prod_returns:
  "(\<And>x y. f x y \<noteq> No_return) \<Longrightarrow> (case v of (x, y) \<Rightarrow> f x y) \<noteq> No_return"
  by (cases v) simp

lemma ends_returns:
  "Normal x \<noteq> No_return" "Raised e y \<noteq> No_return" "Undefined \<noteq> No_return"
  by simp_all

lemmas returns_intros =
  obind_returns Let_returns if_returns option_returns bool_returns prod_returns ends_returns
  advance_returns for_each_returns

lemma read_mask_system_returns: "read_mask_system i st \<noteq> No_return"
  unfolding read_mask_system_def by (intro returns_intros)

lemma read_mask_block_returns: "read_mask_block L st \<noteq> No_return"
  unfolding read_mask_block_def by (intro returns_intros read_mask_system_returns)

lemma use_cached_mask_returns: "use_cached_mask st \<noteq> No_return"
  unfolding use_cached_mask_def by (intro returns_intros)

lemma read_orbit_sat_returns: "read_orbit_sat i st \<noteq> No_return"
  unfolding read_orbit_sat_def by (intro returns_intros)

lemma read_orbit_block_returns: "read_orbit_block st \<noteq> No_return"
  unfolding read_orbit_block_def by (intro returns_intros read_orbit_sat_returns)

lemma read_clock_fullset_block_returns: "read_clock_fullset_block st \<noteq> No_return"
  unfolding read_clock_fullset_block_def read_clock_multiplier_def read_clock_sat_def
  by (intro returns_intros)

lemma read_clock_subset_sys_returns: "read_clock_subset_sys i st \<noteq> No_return"
  unfolding read_clock_subset_sys_def read_submask_bit_def read_subset_delta_def
  by (intro returns_intros)

lemma read_clock_subset_block_returns: "read_clock_subset_block st \<noteq> No_return"
  unfolding read_clock_subset_block_def by (intro returns_intros read_clock_subset_sys_returns)

lemma read_code_bias_cell_returns: "read_code_bias_cell cell st \<noteq> No_return"
  unfolding read_code_bias_cell_def by (intro returns_intros)

lemma read_code_bias_block_returns: "read_code_bias_block st \<noteq> No_return"
  unfolding read_code_bias_block_def by (intro returns_intros read_code_bias_cell_returns)

lemma read_phase_bias_cell_returns: "read_phase_bias_cell cell st \<noteq> No_return"
  unfolding read_phase_bias_cell_def by (intro returns_intros)

lemma read_phase_bias_block_returns: "read_phase_bias_block st \<noteq> No_return"
  unfolding read_phase_bias_block_def by (intro returns_intros read_phase_bias_cell_returns)

lemma read_corrections_returns: "read_corrections st \<noteq> No_return"
  unfolding read_corrections_def guarded_def
  by (intro returns_intros read_orbit_block_returns read_clock_fullset_block_returns
        read_clock_subset_block_returns read_code_bias_block_returns read_phase_bias_block_returns)

lemma read_MT1_body_returns: "read_MT1_body L body d c \<noteq> No_return"
  unfolding read_MT1_body_def
  by (intro returns_intros read_mask_block_returns use_cached_mask_returns read_corrections_returns)

lemma publish_and_parse_returns: "publish_and_parse L m msize s \<noteq> No_return"
  using read_MT1_body_returns
  by (auto simp: publish_and_parse_def Let_def split: option.splits outcome.splits)

lemma decode_message_type1_returns:
  assumes "unat mid < 32" "unat msize < 255"
  shows "decode_message_type1 rs L mid msize s \<noteq> No_return"
  unfolding decode_message_type1_split [OF assms] Let_def reconstruct_and_parse_def
  using publish_and_parse_returns
  by (auto split: option.splits prod.splits bool.splits)

subsection \<open>The handler on a page with a well-formed payload\<close>

lemma accumulate_payload_ok:
  assumes "payload_well_formed (has_message_string p)"
  shows "accumulate p s = Normal (if accepted p s then with_page p s else s)"
proof (cases "accepted p s")
  case True
  then show ?thesis
    using accumulate_well_formed [of p s] assms by (simp add: payload_well_formed_def)
next
  case False
  then show ?thesis by (simp add: accumulate_def)
qed

lemma handler_payload_ok:
  assumes ok: "payload_well_formed (has_message_string p)" and m: "unat (message_id p) < 32"
  shows "msg_handler_galileo_e6_has rs L (HAS_page_msg p) s =
     (if length (d_received_pids (if accepted p s then with_page p s else s) (unat (message_id p)))
           = unat (message_size p)
      then (case decode_message_type1 rs L (message_id p) (message_size p)
                   ((if accepted p s then with_page p s else s)\<lparr>d_new_message := False\<rparr>) of
              Normal (res, s3) \<Rightarrow>
                Normal (publish_to_PVT
                  (if res = 0
                      \<and> d_nsat_in_mask_id (d_mask s3) (unat (mask_id (header (d_HAS_data s3)))) \<noteq> 0
                   then s3\<lparr>d_new_message := True\<rparr> else s3))
            | Raised e x \<Rightarrow> Raised e (snd x)
            | Undefined \<Rightarrow> Undefined
            | No_return \<Rightarrow> No_return)
      else Normal (publish_to_PVT ((if accepted p s then with_page p s else s)\<lparr>d_new_message := False\<rparr>)))"
  unfolding msg_handler_galileo_e6_has_def pmt_msg.case process_HAS_page_def
    accumulate_payload_ok [OF ok] obind.simps Let_def
  using m
  by (simp add: HAS_MSG_NUMBER_MESSAGE_IDS_def split: outcome.splits prod.splits)

lemma handler_returns_or_undefined:
  assumes ok: "payload_well_formed (has_message_string p)" and m: "unat (message_id p) < 32"
      and ms: "unat (message_size p) < 255"
  shows "((\<exists>s'. msg_handler_galileo_e6_has rs L (HAS_page_msg p) s = Normal s')
          \<or> msg_handler_galileo_e6_has rs L (HAS_page_msg p) s = Undefined)
       \<and> (msg_handler_galileo_e6_has rs L (HAS_page_msg p) s = Undefined \<longrightarrow>
            decode_message_type1 rs L (message_id p) (message_size p)
              ((if accepted p s then with_page p s else s)\<lparr>d_new_message := False\<rparr>) = Undefined)"
proof -
  let ?s2 = "(if accepted p s then with_page p s else s)\<lparr>d_new_message := False\<rparr>"
  let ?D = "decode_message_type1 rs L (message_id p) (message_size p) ?s2"
  have nr: "?D \<noteq> No_return" by (rule decode_message_type1_returns [OF m ms])
  have nx: "?D \<noteq> Raised e x" for e x by (rule decode_message_type1_never_raises)
  show ?thesis
    unfolding handler_payload_ok [OF ok m]
    using nr nx by (cases ?D) (auto split: prod.splits)
qed

lemma page_B_payload: "payload_well_formed (has_message_string page_B)"
  using page_B_ok(6,7) by (simp add: payload_well_formed_def)

text \<open>
  Claim C4, as the code has it. For a page whose payload is a string of 424
  characters '0' or '1', with a message id below 32 and a message size below 255, the
  handler neither ends in an exception nor fails to return: it returns, unless
  \<^verbatim>\<open>decode_message_type1\<close> runs into undefined behaviour (an unchecked index), and
  then that is the only way it does not. What the parser throws while it reads the
  body of a reconstructed message is caught in \<^verbatim>\<open>decode_message_type1\<close>, which
  returns -1 with nothing added to the port to the PVT block. And when the handler
  returns for a page that was not decoded with result 0 and a nonzero cached satellite
  count, nothing has been added to that port.
\<close>

theorem no_exception_for_well_formed_payload:
  assumes "payload_well_formed (has_message_string p)"
      and "unat (message_id p) < 32" and "unat (message_size p) < 255"
  shows "((\<exists>s'. msg_handler_galileo_e6_has rs L (HAS_page_msg p) s = Normal s')
          \<or> msg_handler_galileo_e6_has rs L (HAS_page_msg p) s = Undefined)
     \<and> (msg_handler_galileo_e6_has rs L (HAS_page_msg p) s = Undefined \<longrightarrow>
          decode_message_type1 rs L (message_id p) (message_size p)
            ((if accepted p s then with_page p s else s)\<lparr>d_new_message := False\<rparr>) = Undefined)
     \<and> (unat msize \<le> GALILEO_CNAV_INFORMATION_VECTOR_LENGTH
        \<and> read_MT1_header L (take (GALILEO_CNAV_MT1_HEADER_BITS L)
              (message_of_rows (d_M_matrix s2) (unat msize))) = Some h
        \<and> GALILEO_CNAV_MT1_HEADER_BITS L \<le> length (message_of_rows (d_M_matrix s2) (unat msize))
        \<and> read_MT1_body L (drop (GALILEO_CNAV_MT1_HEADER_BITS L)
              (message_of_rows (d_M_matrix s2) (unat msize)))
             (empty_HAS_data\<lparr>header := h\<rparr>) (d_mask s2) = Raised e st
       \<longrightarrow> (\<exists>s3. publish_and_parse L m msize s2 = Normal (- 1, s3)
             \<and> E6_HAS_to_PVT s3 = E6_HAS_to_PVT s2 \<and> d_new_message s3 = d_new_message s2))
     \<and> (\<forall>s'. msg_handler_galileo_e6_has rs L (HAS_page_msg p) s = Normal s'
              \<and> \<not> decoded_with_mask rs L (HAS_page_msg p) s
            \<longrightarrow> E6_HAS_to_PVT s' = E6_HAS_to_PVT s)"
proof -
  note a = handler_returns_or_undefined [OF assms, of rs L s]
  have c: "unat msize \<le> GALILEO_CNAV_INFORMATION_VECTOR_LENGTH
        \<and> read_MT1_header L (take (GALILEO_CNAV_MT1_HEADER_BITS L)
              (message_of_rows (d_M_matrix s2) (unat msize))) = Some h
        \<and> GALILEO_CNAV_MT1_HEADER_BITS L \<le> length (message_of_rows (d_M_matrix s2) (unat msize))
        \<and> read_MT1_body L (drop (GALILEO_CNAV_MT1_HEADER_BITS L)
              (message_of_rows (d_M_matrix s2) (unat msize)))
             (empty_HAS_data\<lparr>header := h\<rparr>) (d_mask s2) = Raised e st
       \<longrightarrow> (\<exists>s3. publish_and_parse L m msize s2 = Normal (- 1, s3)
             \<and> E6_HAS_to_PVT s3 = E6_HAS_to_PVT s2 \<and> d_new_message s3 = d_new_message s2)"
  proof
    assume x: "unat msize \<le> GALILEO_CNAV_INFORMATION_VECTOR_LENGTH
        \<and> read_MT1_header L (take (GALILEO_CNAV_MT1_HEADER_BITS L)
              (message_of_rows (d_M_matrix s2) (unat msize))) = Some h
        \<and> GALILEO_CNAV_MT1_HEADER_BITS L \<le> length (message_of_rows (d_M_matrix s2) (unat msize))
        \<and> read_MT1_body L (drop (GALILEO_CNAV_MT1_HEADER_BITS L)
              (message_of_rows (d_M_matrix s2) (unat msize)))
             (empty_HAS_data\<lparr>header := h\<rparr>) (d_mask s2) = Raised e st"
    from publish_and_parse_raised [OF x [THEN conjunct1] x [THEN conjunct2, THEN conjunct1]
        x [THEN conjunct2, THEN conjunct2, THEN conjunct1]
        x [THEN conjunct2, THEN conjunct2, THEN conjunct2], of m]
    obtain s3 where "publish_and_parse L m msize s2 = Normal (- 1, s3)"
      "E6_HAS_to_PVT s3 = E6_HAS_to_PVT s2" "d_new_message s3 = d_new_message s2"
      by (elim exE conjE)
    then show "\<exists>s3. publish_and_parse L m msize s2 = Normal (- 1, s3)
             \<and> E6_HAS_to_PVT s3 = E6_HAS_to_PVT s2 \<and> d_new_message s3 = d_new_message s2"
      by (intro exI [of _ s3] conjI)
  qed
  have d: "\<forall>s'. msg_handler_galileo_e6_has rs L (HAS_page_msg p) s = Normal s'
              \<and> \<not> decoded_with_mask rs L (HAS_page_msg p) s
            \<longrightarrow> E6_HAS_to_PVT s' = E6_HAS_to_PVT s"
  proof (intro allI impI)
    fix s'
    assume y: "msg_handler_galileo_e6_has rs L (HAS_page_msg p) s = Normal s'
              \<and> \<not> decoded_with_mask rs L (HAS_page_msg p) s"
    from handler_page_publishes [OF y [THEN conjunct1]] y
    show "E6_HAS_to_PVT s' = E6_HAS_to_PVT s" by simp
  qed
  show ?thesis using a [THEN conjunct1] a [THEN conjunct2] c d by (intro conjI)
qed

theorem no_exception_for_well_formed_payload_witness:
  "payload_well_formed (has_message_string page_B)
   \<and> unat (message_id page_B) < 32 \<and> unat (message_size page_B) < 255
   \<and> escaped (read_MT1_body example_layout (drop 32 (has_message_string page_B))
        (empty_HAS_data\<lparr>header := header_with True False False\<rparr>)
        (d_mask (single_page_decoded page_B init_receiver))) = Some Length_error
   \<and> map_option (\<lambda>x. (fst x, length (E6_HAS_to_PVT (snd x))))
        (returned (publish_and_parse example_layout 1 1 (single_page_decoded page_B init_receiver)))
       = Some (- 1, 0)
   \<and> \<not> decoded_with_mask rs_keep example_layout (HAS_page_msg page_B) init_receiver
   \<and> map_option (\<lambda>s. length (E6_HAS_to_PVT s))
        (returned (msg_handler_galileo_e6_has rs_keep example_layout (HAS_page_msg page_B) init_receiver))
       = Some 0"
proof -
  let ?s2 = "single_page_decoded page_B init_receiver"
  have slot: "d_received_pids init_receiver (unat (message_id page_B)) = []" by (rule slot_init)
  have msg: "message_of_rows (d_M_matrix ?s2) (unat (1 :: u8)) = has_message_string page_B"
    by (rule message_of_single_page_decoded [OF page_B_ok(6,7)])
  have mask2: "d_mask ?s2 = d_mask init_receiver"
    by (simp add: single_page_decoded_def with_page_def Let_def)
  from page_B_decoded [of init_receiver] obtain stB where
    B: "read_MT1_body example_layout (drop 32 (has_message_string page_B))
           (empty_HAS_data\<lparr>header := header_with True False False\<rparr>) (d_mask init_receiver)
          = Raised Length_error stB
       \<and> d_nsat_in_mask_id (hd_mask stB) = d_nsat_in_mask_id (d_mask init_receiver)
       \<and> (d_received_pids init_receiver (unat (message_id page_B)) = [] \<longrightarrow>
          decode_message_type1 rs_keep example_layout (message_id page_B) (message_size page_B)
             ((with_page page_B init_receiver)\<lparr>d_new_message := False\<rparr>)
           = Normal (- 1, (after_single_page page_B init_receiver)\<lparr>d_HAS_data := hd_data stB, d_mask := hd_mask stB\<rparr>)
        \<and> msg_handler_galileo_e6_has rs_keep example_layout (HAS_page_msg page_B) init_receiver
           = Normal ((after_single_page page_B init_receiver)\<lparr>d_HAS_data := hd_data stB, d_mask := hd_mask stB\<rparr>))" ..
  note body = B [THEN conjunct1]
  note h = B [THEN conjunct2, THEN conjunct2, rule_format, OF slot, THEN conjunct2]
  let ?sB = "(after_single_page page_B init_receiver)\<lparr>d_HAS_data := hd_data stB, d_mask := hd_mask stB\<rparr>"
  have m: "unat (message_id page_B) < 32" and ms: "unat (message_size page_B) < 255"
    by (simp_all add: page_B_def page_fields)
  have a1: "unat (1 :: u8) \<le> GALILEO_CNAV_INFORMATION_VECTOR_LENGTH"
    by (simp add: GALILEO_CNAV_INFORMATION_VECTOR_LENGTH_def)
  have a2: "read_MT1_header example_layout (take (GALILEO_CNAV_MT1_HEADER_BITS example_layout)
              (message_of_rows (d_M_matrix ?s2) (unat (1 :: u8)))) = Some (header_with True False False)"
    unfolding msg by (rule header_B_layout)
  have a3: "GALILEO_CNAV_MT1_HEADER_BITS example_layout
              \<le> length (message_of_rows (d_M_matrix ?s2) (unat (1 :: u8)))"
    unfolding msg by (simp add: example_header_bits page_B_ok(6))
  have a4: "read_MT1_body example_layout (drop (GALILEO_CNAV_MT1_HEADER_BITS example_layout)
              (message_of_rows (d_M_matrix ?s2) (unat (1 :: u8))))
             (empty_HAS_data\<lparr>header := header_with True False False\<rparr>) (d_mask ?s2)
            = Raised Length_error stB"
    unfolding msg mask2 example_header_bits by (rule body)
  from page_B_attempted obtain sD where
    ad: "attempted_decode rs_keep example_layout page_B init_receiver = Some (- 1, sD)" ..
  have nd: "\<not> decoded_with_mask rs_keep example_layout (HAS_page_msg page_B) init_receiver"
    by (simp add: decoded_with_mask_def ad)
  note T = no_exception_for_well_formed_payload [OF page_B_payload m ms,
      where rs = rs_keep and L = example_layout and s = init_receiver and msize = 1
      and ?s2.0 = ?s2 and h = "header_with True False False" and e = Length_error and st = stB
      and m = 1]
  have "\<exists>s3. publish_and_parse example_layout 1 1 ?s2 = Normal (- 1, s3)
             \<and> E6_HAS_to_PVT s3 = E6_HAS_to_PVT ?s2 \<and> d_new_message s3 = d_new_message ?s2"
    by (rule T [THEN conjunct2, THEN conjunct2, THEN conjunct1, rule_format])
       (intro conjI a1 a2 a3 a4)
  then obtain s3 where
    P: "publish_and_parse example_layout 1 1 ?s2 = Normal (- 1, s3)
             \<and> E6_HAS_to_PVT s3 = E6_HAS_to_PVT ?s2 \<and> d_new_message s3 = d_new_message ?s2" ..
  have e2: "E6_HAS_to_PVT ?s2 = []"
    by (simp add: single_page_decoded_def with_page_def Let_def init_receiver_def
          galileo_e6_has_msg_receiver_def)
  have e: "E6_HAS_to_PVT ?sB = E6_HAS_to_PVT init_receiver"
    by (rule T [THEN conjunct2, THEN conjunct2, THEN conjunct2, rule_format]) (intro conjI h nd)
  have e0: "E6_HAS_to_PVT init_receiver = []"
    by (simp add: init_receiver_def galileo_e6_has_msg_receiver_def)
  show ?thesis
    unfolding mask2 body P [THEN conjunct1] h
    using page_B_payload m ms nd e e0 e2 P [THEN conjunct2, THEN conjunct1]
    by (simp add: returned_def escaped_def)
qed

text \<open>
  A page for message id 0 whose payload has one character only: the second octet
  cannot be cut from it, \<^verbatim>\<open>substr\<close> throws \<^verbatim>\<open>std::out_of_range\<close> in
  \<^verbatim>\<open>process_HAS_page\<close>, and the handler, which catches \<^verbatim>\<open>boost::bad_any_cast\<close>
  only, ends in that exception.
\<close>

theorem exception_leaves_handler_counterexample:
  "escaped (msg_handler_galileo_e6_has rs_keep example_layout (HAS_page_msg page_short) init_receiver)
     = Some Out_of_range"
  by (simp cong: obind_weak_cong
        add: msg_handler_galileo_e6_has_def process_HAS_page_def accumulate_def accepted_def
          page_short_def page_fields init_receiver_def galileo_e6_has_msg_receiver_def
          upt_numeral_unfold store_octet_def size_defs escaped_def Let_def)

section \<open>The IOD field of the orbit block\<close>

text \<open>
  Claim C6, at the failing inputs. A record whose mask has GPS with two satellites
  and then Galileo with none, followed by an orbit block laid out for two GPS
  satellites: the mask gives the system ids GPS, Galileo and two satellites, and the
  IOD of the first satellite is read from 8 bits; for the second satellite, which
  belongs to the GPS slot, the system id is looked up at the satellite index 1,
  where the mask holds Galileo, and the IOD is read from 10 bits, 1023 instead of
  255, so that its radial delta is taken two bits late, 0 instead of -2048. And a
  record whose mask has one system with the reserved id 1 and one satellite: the body
  is read to its end without an exception, the IOD stays 0 and the deltas are taken
  from the bits that follow the validity index.
\<close>

theorem orbit_iod_indexed_by_satellite:
  "map_option (\<lambda>st. (gnss_id_mask (hd_data st), Nsat st, gnss_iod (hd_data st),
                      delta_radial (hd_data st), message st))
     (returned (read_MT1_body example_layout body_gps_two_sats
        (empty_HAS_data\<lparr>header := header_with True True False\<rparr>) empty_mask_cache))
     = Some ([HAS_MSG_GPS_SYSTEM, HAS_MSG_GALILEO_SYSTEM], 2, [1, 1023], [0, 0], [])
   \<and> map_option (\<lambda>st. (gnss_id_mask (hd_data st), gnss_iod (hd_data st), delta_radial (hd_data st),
                      delta_along_track (hd_data st), delta_cross_track (hd_data st), message st))
     (returned (read_MT1_body example_layout body_other_system
        (empty_HAS_data\<lparr>header := header_with True True False\<rparr>) empty_mask_cache))
     = Some ([1], [0], [- 1], [1], [2], [])"
proof -
  have r2: "replicate 2 x = [x, x]" for x :: "'a" by (simp add: numeral_2_eq_2)
  have a: "map_option (\<lambda>st. (gnss_id_mask (hd_data st), Nsat st, gnss_iod (hd_data st),
                      delta_radial (hd_data st), message st))
     (returned (read_MT1_body example_layout body_gps_two_sats
        (empty_HAS_data\<lparr>header := header_with True True False\<rparr>) empty_mask_cache))
     = Some ([HAS_MSG_GPS_SYSTEM, HAS_MSG_GALILEO_SYSTEM], 2, [1, 1023], [0, 0], [])"
    by (simp cong: obind_weak_cong add: body_gps_two_sats_def upt_numeral_unfold parser_defs
          width_defs size_defs reader_defs example_defs Let_def r2)
  have b: "map_option (\<lambda>st. (gnss_id_mask (hd_data st), gnss_iod (hd_data st), delta_radial (hd_data st),
                      delta_along_track (hd_data st), delta_cross_track (hd_data st), message st))
     (returned (read_MT1_body example_layout body_other_system
        (empty_HAS_data\<lparr>header := header_with True True False\<rparr>) empty_mask_cache))
     = Some ([1], [0], [- 1], [1], [2], [])"
    by (simp cong: obind_weak_cong add: body_other_system_def upt_numeral_unfold parser_defs
          width_defs size_defs reader_defs example_defs Let_def)
  show ?thesis using a b by (rule conjI)
qed

section \<open>The time of hour check\<close>

lemma for_each_Normal_keeps:
  assumes step: "\<And>i s s'. f i s = Normal s' \<Longrightarrow> P s \<Longrightarrow> P s'"
  shows "P s \<Longrightarrow> for_each xs f s = Normal s' \<Longrightarrow> P s'"
proof (induction xs arbitrary: s)
  case Nil
  then show ?case by simp
next
  case (Cons i xs)
  from Cons.prems(2) obtain x where x: "f i s = Normal x" and r: "for_each xs f x = Normal s'"
    by (auto simp: obind_Normal_iff)
  from step [OF x Cons.prems(1)] have "P x" .
  from Cons.IH [OF this r] show ?case .
qed

lemma advance_Normal:
  "advance n st = Normal st' \<Longrightarrow> st' = st\<lparr>message := drop n (message st)\<rparr>"
  by (auto simp: advance_def split: if_splits)

lemma if_Undefined_Normal: "(if c then Undefined else r) = Normal y \<Longrightarrow> r = Normal y"
  by (simp split: if_splits)

lemma read_mask_system_header:
  assumes "read_mask_system i st = Normal st'"
  shows "header (hd_data st') = header (hd_data st)"
  using assms unfolding read_mask_system_def Let_def obind_Normal_iff
  apply (elim exE conjE)
  apply (drule if_Undefined_Normal)
  apply (simp only: obind_Normal_iff)
  apply (elim exE conjE)
  apply (drule advance_Normal)+
  apply (simp add: upd_data_def upd_mask_def)
  done

lemma read_mask_block_header:
  assumes "read_mask_block L st = Normal st'"
  shows "header (hd_data st') = header (hd_data st)"
proof -
  let ?n = "read_has_message_body_uint8 (take HAS_MSG_NSYS_LENGTH (message st))"
  let ?st1 = "upd_mask (\<lambda>c. c\<lparr>d_nsys_in_mask := (d_nsys_in_mask c)(the_mask_id st := ?n)\<rparr>)
                  (upd_data (\<lambda>d. d\<lparr>Nsys := ?n\<rparr>) st)"
  have h1: "header (hd_data ?st1) = header (hd_data st)"
    by (simp add: upd_data_def upd_mask_def)
  show ?thesis
  proof (cases "?n = 0")
    case True
    then have "st' = ?st1 \<or> st' = ?st1\<lparr>have_mask := True\<rparr>"
      using assms by (auto simp: read_mask_block_def Let_def split: if_splits)
    then show ?thesis using h1 by auto
  next
    case False
    let ?st3 = "\<lambda>st2. upd_data (\<lambda>d. d\<lparr>
                         gnss_id_mask := replicate (unat ?n) 0,
                         cell_mask := replicate (unat ?n) (replicate 40 (replicate 16 False)),
                         cell_mask_availability_flag := replicate (unat ?n) False,
                         nav_message := replicate (unat ?n) 0,
                         satellite_mask := replicate (unat ?n) 0,
                         signal_mask := replicate (unat ?n) 0\<rparr>) st2"
    from assms False obtain st2 st4 st6 where
      a: "advance HAS_MSG_NSYS_LENGTH ?st1 = Normal st2"
      and f: "for_each [0..<unat ?n] read_mask_system (?st3 st2) = Normal st4"
      and b: "advance (HAS_MSG_MASK_RESERVED_LENGTH L)
                (upd_mask (\<lambda>c. c\<lparr>
                         d_nsat_in_mask_id := (d_nsat_in_mask_id c)(the_mask_id st := Nsat st4),
                         d_cell_mask := (d_cell_mask c)(the_mask_id st := cell_mask (hd_data st4))\<rparr>) st4)
              = Normal st6"
      and s': "st' = (if Nsat st6 \<noteq> 0 then st6\<lparr>have_mask := True\<rparr> else st6)"
      by (auto simp: read_mask_block_def Let_def obind_Normal_iff)
    have h2: "header (hd_data st2) = header (hd_data st)"
      using advance_Normal [OF a] h1 by simp
    have h3: "header (hd_data (?st3 st2)) = header (hd_data st)"
      using h2 by (simp add: upd_data_def)
    have h4: "header (hd_data st4) = header (hd_data st)"
      by (rule for_each_Normal_keeps [where P = "\<lambda>x. header (hd_data x) = header (hd_data st)", OF _ h3 f])
         (simp add: read_mask_system_header)
    have h6: "header (hd_data st6) = header (hd_data st)"
      using advance_Normal [OF b] h4 by (simp add: upd_mask_def)
    show ?thesis using s' h6 by simp
  qed
qed

lemma use_cached_mask_header:
  assumes "use_cached_mask st = Normal st'"
  shows "header (hd_data st') = header (hd_data st)"
  using assms by (auto simp: use_cached_mask_def Let_def upd_data_def split: if_splits)

lemma read_corrections_no_mask:
  "\<not> have_mask st \<Longrightarrow> read_corrections st = Normal st"
  by (simp add: read_corrections_def guarded_def)

lemma toh_gate_late:
  assumes "unat (toh (header (hd_data st1))) > HAS_MSG_NUMBER_MAX_TOH"
  shows "\<not> have_mask (toh_gate st1)"
    and "d_nsat_in_mask_id (hd_mask (toh_gate st1)) (the_mask_id st1) = 0"
    and "hd_data (toh_gate st1) = hd_data st1"
    and "message (toh_gate st1) = message st1"
  using assms by (simp_all add: toh_gate_def upd_mask_def)

lemma body_without_mask:
  assumes nf: "\<not> mask_flag (header d2)"
      and id: "unat (mask_id (header d2)) < HAS_MSG_NUMBER_MASK_IDS"
      and z: "d_nsat_in_mask_id c (unat (mask_id (header d2))) = 0"
  shows "\<exists>st2. read_MT1_body L body2 d2 c = Normal st2 \<and> \<not> have_mask st2 \<and> Nsat st2 = 0
            \<and> hd_data st2 = d2 \<and> message st2 = body2"
  using assms
  by (simp add: read_MT1_body_def use_cached_mask_def the_mask_id_def Let_def toh_gate_def
        upd_mask_def read_corrections_no_mask)

lemma body_toh_gate:
  assumes late: "unat (toh (header d)) > HAS_MSG_NUMBER_MAX_TOH"
      and r: "read_MT1_body L body d c = Normal st"
  shows "unat (mask_id (header d)) < HAS_MSG_NUMBER_MASK_IDS
     \<and> (\<exists>st1. (if mask_flag (header d)
               then read_mask_block L \<lparr>message = body, Nsat = 0, have_mask = False, hd_data = d, hd_mask = c\<rparr>
               else use_cached_mask \<lparr>message = body, Nsat = 0, have_mask = False, hd_data = d, hd_mask = c\<rparr>)
              = Normal st1
            \<and> st = toh_gate st1 \<and> header (hd_data st1) = header d)"
proof -
  let ?st0 = "\<lparr>message = body, Nsat = 0, have_mask = False, hd_data = d, hd_mask = c\<rparr>"
  let ?mask = "if mask_flag (header d) then read_mask_block L ?st0 else use_cached_mask ?st0"
  have id: "unat (mask_id (header d)) < HAS_MSG_NUMBER_MASK_IDS"
    using r by (auto simp: read_MT1_body_def the_mask_id_def Let_def split: if_splits)
  then have "obind ?mask (\<lambda>st1. read_corrections (toh_gate st1)) = Normal st"
    using r by (simp add: read_MT1_body_def the_mask_id_def Let_def)
  then obtain st1 where m: "?mask = Normal st1" and c: "read_corrections (toh_gate st1) = Normal st"
    by (auto simp: obind_Normal_iff)
  have h: "header (hd_data st1) = header d"
    using m read_mask_block_header [of L ?st0 st1] use_cached_mask_header [of ?st0 st1]
    by (auto split: if_splits)
  have "\<not> have_mask (toh_gate st1)"
    using toh_gate_late(1) [of st1] late h by simp
  then have "st = toh_gate st1" using c by (simp add: read_corrections_no_mask)
  then show ?thesis using id m h by blast
qed

text \<open>
  Claim C8. When the body of a record whose time of hour exceeds 3599 has been
  parsed, \<open>have_mask\<close> is false and the cached satellite count of the record's mask id
  is 0; what the parser returns is the state after the mask was read or fetched,
  passed through the time of hour check, so no correction block was read. A later record without
  a mask and with the same mask id, parsed with the cache as it was left, finds the
  count 0: it returns with \<open>have_mask\<close> false, nothing read from its body and no
  correction stored.
\<close>

theorem toh_gate_evicts_mask:
  assumes "unat (toh (header d)) > HAS_MSG_NUMBER_MAX_TOH"
      and "read_MT1_body L body d c = Normal st"
  shows "\<not> have_mask st
     \<and> d_nsat_in_mask_id (hd_mask st) (unat (mask_id (header d))) = 0
     \<and> (\<exists>st1. (if mask_flag (header d)
               then read_mask_block L \<lparr>message = body, Nsat = 0, have_mask = False, hd_data = d, hd_mask = c\<rparr>
               else use_cached_mask \<lparr>message = body, Nsat = 0, have_mask = False, hd_data = d, hd_mask = c\<rparr>)
              = Normal st1
            \<and> st = toh_gate st1 \<and> hd_data st = hd_data st1 \<and> message st = message st1)
     \<and> (\<forall>body2 d2. \<not> mask_flag (header d2) \<and> mask_id (header d2) = mask_id (header d) \<longrightarrow>
           (\<exists>st2. read_MT1_body L body2 d2 (hd_mask st) = Normal st2 \<and> \<not> have_mask st2
                 \<and> Nsat st2 = 0 \<and> hd_data st2 = d2 \<and> message st2 = body2))"
proof -
  from body_toh_gate [OF assms] obtain st1 where
    id: "unat (mask_id (header d)) < HAS_MSG_NUMBER_MASK_IDS"
    and m: "(if mask_flag (header d)
               then read_mask_block L \<lparr>message = body, Nsat = 0, have_mask = False, hd_data = d, hd_mask = c\<rparr>
               else use_cached_mask \<lparr>message = body, Nsat = 0, have_mask = False, hd_data = d, hd_mask = c\<rparr>)
              = Normal st1"
    and st: "st = toh_gate st1" and h: "header (hd_data st1) = header d"
    by (elim conjE exE)
  have late: "unat (toh (header (hd_data st1))) > HAS_MSG_NUMBER_MAX_TOH"
    using assms(1) h by simp
  have mid: "the_mask_id st1 = unat (mask_id (header d))" using h by (simp add: the_mask_id_def)
  note g = toh_gate_late [OF late]
  have a: "\<not> have_mask st" using g(1) st by simp
  have b: "d_nsat_in_mask_id (hd_mask st) (unat (mask_id (header d))) = 0"
    using g(2) st mid by simp
  have c: "\<exists>st1. (if mask_flag (header d)
               then read_mask_block L \<lparr>message = body, Nsat = 0, have_mask = False, hd_data = d, hd_mask = c\<rparr>
               else use_cached_mask \<lparr>message = body, Nsat = 0, have_mask = False, hd_data = d, hd_mask = c\<rparr>)
              = Normal st1
            \<and> st = toh_gate st1 \<and> hd_data st = hd_data st1 \<and> message st = message st1"
    using m st g(3,4) by (intro exI [of _ st1]) simp
  have d: "\<forall>body2 d2. \<not> mask_flag (header d2) \<and> mask_id (header d2) = mask_id (header d) \<longrightarrow>
           (\<exists>st2. read_MT1_body L body2 d2 (hd_mask st) = Normal st2 \<and> \<not> have_mask st2
                 \<and> Nsat st2 = 0 \<and> hd_data st2 = d2 \<and> message st2 = body2)"
  proof (intro allI impI)
    fix body2 and d2 :: Galileo_HAS_data
    assume x: "\<not> mask_flag (header d2) \<and> mask_id (header d2) = mask_id (header d)"
    show "\<exists>st2. read_MT1_body L body2 d2 (hd_mask st) = Normal st2 \<and> \<not> have_mask st2
                 \<and> Nsat st2 = 0 \<and> hd_data st2 = d2 \<and> message st2 = body2"
      by (rule body_without_mask) (use x id b in simp_all)
  qed
  show ?thesis using a b c d by (intro conjI)
qed

lemma body_toh_3700_parsed:
  "(case read_MT1_body example_layout body_galileo_orbit
           (empty_HAS_data\<lparr>header := header_toh_3700\<rparr>) empty_mask_cache of
      Normal st \<Rightarrow> gnss_iod (hd_data st) = [] \<and> Nsat st = 1
         \<and> message st = ''0000'' @ ''0000000001'' @ ''1111111111111'' @ ''000000000001'' @ ''000000000010''
    | _ \<Rightarrow> False)"
  by (simp cong: obind_weak_cong add: body_galileo_orbit_def header_toh_3700_def upt_numeral_unfold
        parser_defs width_defs size_defs reader_defs example_defs Let_def)

theorem toh_gate_evicts_mask_witness:
  "HAS_MSG_NUMBER_MAX_TOH < unat (toh (header (empty_HAS_data\<lparr>header := header_toh_3700\<rparr>)))
   \<and> map_option (\<lambda>st. (have_mask st, d_nsat_in_mask_id (hd_mask st) 0, Nsat st, gnss_iod (hd_data st),
          map_option (\<lambda>st2. (have_mask st2, Nsat st2, message st2))
            (returned (read_MT1_body example_layout ''00000000000001''
               (empty_HAS_data\<lparr>header := header_with False True False\<rparr>) (hd_mask st)))))
       (returned (read_MT1_body example_layout body_galileo_orbit
          (empty_HAS_data\<lparr>header := header_toh_3700\<rparr>) empty_mask_cache))
     = Some (False, 0, 1, [], Some (False, 0, ''00000000000001''))"
proof -
  let ?d = "empty_HAS_data\<lparr>header := header_toh_3700\<rparr>"
  let ?d2 = "empty_HAS_data\<lparr>header := header_with False True False\<rparr>"
  let ?R = "read_MT1_body example_layout body_galileo_orbit ?d empty_mask_cache"
  have late: "HAS_MSG_NUMBER_MAX_TOH < unat (toh (header ?d))"
    by (simp add: header_toh_3700_def HAS_MSG_NUMBER_MAX_TOH_def)
  from body_toh_3700_parsed obtain st where
    R: "?R = Normal st" and iod: "gnss_iod (hd_data st) = []" and ns: "Nsat st = 1"
    by (cases ?R) auto
  note T = toh_gate_evicts_mask [OF late R]
  have mid: "unat (mask_id (header ?d)) = 0"
    by (simp add: header_toh_3700_def empty_header_def)
  have a: "\<not> have_mask st" by (rule T [THEN conjunct1])
  have b: "d_nsat_in_mask_id (hd_mask st) 0 = 0"
    using T [THEN conjunct2, THEN conjunct1] by (simp only: mid)
  have x: "\<not> mask_flag (header ?d2) \<and> mask_id (header ?d2) = mask_id (header ?d)"
    by (simp add: header_with_def header_toh_3700_def empty_header_def)
  from T [THEN conjunct2, THEN conjunct2, THEN conjunct2, rule_format, OF x, of "''00000000000001''"]
  obtain st2 where
    R2: "read_MT1_body example_layout ''00000000000001'' ?d2 (hd_mask st) = Normal st2
          \<and> \<not> have_mask st2 \<and> Nsat st2 = 0 \<and> hd_data st2 = ?d2 \<and> message st2 = ''00000000000001''" ..
  show ?thesis
    using late a b iod ns R2 by (simp add: R returned_def)
qed

section \<open>The deltas of the clock subset block\<close>

text \<open>
  Claim C3. A record with a mask of one Galileo system with two satellites and a clock
  subset block that selects both of them and carries the deltas 1 and 2: both deltas
  are read, the body is consumed to its end, and the record holds one delta for the
  subsystem, the last one read; the delta 1 of the first selected satellite is
  overwritten.
\<close>

theorem subset_deltas_overwritten:
  "map_option (\<lambda>st. (Nsysprime (hd_data st), satellite_submask (hd_data st),
                      delta_clock_c0_clock_subset (hd_data st), message st))
     (returned (read_MT1_body example_layout body_two_deltas
        (empty_HAS_data\<lparr>header := header_with True False True\<rparr>) empty_mask_cache))
     = Some (1, [[1, 1]], [2], [])"
  by (simp cong: obind_weak_cong add: body_two_deltas_def upt_numeral_unfold parser_defs
        width_defs size_defs reader_defs example_defs Let_def)

end
